theory Spec2Isabelle
  imports Main "HOL-Library.Word" "HOL-Library.Char_ord"
begin

section \<open>The configurator's reflection core (reflect.go)\<close>

text \<open>
  The file reflect.go holds four things: the tag parser (\<open>parseTag\<close>, \<open>parseENV\<close>,
  \<open>parseFlag\<close>, \<open>parseDefault\<close>), the key derivation of a field descriptor (\<open>path\<close>,
  \<open>ENVKey\<close>, \<open>FlagKey\<close>, \<open>DefVal\<close>), the struct walker (\<open>getStructInfo\<close>,
  \<open>getFieldInfo\<close>) and the value coercion (\<open>setFieldValue\<close>, \<open>setPtrValue\<close>,
  \<open>setSliceValue\<close>). Each is embedded below as a HOL function of the same name.

  Go strings are byte strings and are modelled as \<open>string\<close> (a list of bytes).
  What the code takes from Go's standard library (strconv, time, the Unicode case
  mappings of package strings) is not part of the repository; it is a parameter of the
  embedding, the record \<open>stdlib\<close> below.
\<close>

subsection \<open>Package strings\<close>

definition strings_HasPrefix :: "string \<Rightarrow> string \<Rightarrow> bool" where
  "strings_HasPrefix s p \<longleftrightarrow> length p \<le> length s \<and> take (length p) s = p"

definition strings_TrimPrefix :: "string \<Rightarrow> string \<Rightarrow> string" where
  "strings_TrimPrefix s p = (if strings_HasPrefix s p then drop (length p) s else s)"

text \<open>
  \<open>strings.Split\<close> with a separator of one byte, the only use the code makes of it:
  the empty string splits into one empty token.
\<close>

fun strings_Split :: "string \<Rightarrow> char \<Rightarrow> string list" where
  "strings_Split [] sep = [[]]"
| "strings_Split (c # s) sep =
     (if c = sep then [] # strings_Split s sep
      else (case strings_Split s sep of [] \<Rightarrow> [[c]] | t # ts \<Rightarrow> (c # t) # ts))"

fun strings_Join :: "string list \<Rightarrow> string \<Rightarrow> string" where
  "strings_Join [] sep = []"
| "strings_Join [e] sep = e"
| "strings_Join (e # es) sep = e @ sep @ strings_Join es sep"

subsection \<open>Errors\<close>

text \<open>
  The three sentinels are declared outside reflect.go; only their identity matters here.
  \<open>Wrap pre e post\<close> is \<open>fmt.Errorf\<close> with one \<open>%w\<close> verb: the text before the verb, the
  wrapped error, and the text after it with the other arguments filled in.
  \<open>LibError\<close> is an error of a standard-library parser, which the code returns as it is.
  \<open>IllTyped\<close> is no error of the program: it is what the struct walker of this model
  answers where the content of a variable does not fit the variable's type, a state that
  Go's type system rules out.
\<close>

datatype error =
    ErrInvalidConfig
  | ErrInvalidTagFormat
  | ErrUnsupported
  | Wrap string error string
  | LibError string
  | IllTyped

fun errors_Is :: "error \<Rightarrow> error \<Rightarrow> bool" where
  "errors_Is (Wrap pre e post) target = (Wrap pre e post = target \<or> errors_Is e target)"
| "errors_Is e target = (e = target)"

subsection \<open>Types and values as package reflect shows them\<close>

text \<open>
  The kinds of package reflect, each with a \<open>K\<close> before its Go name (\<open>Int\<close> alone is
  taken in HOL).
\<close>

datatype kind =
    KInvalid | KBool | KInt | KInt8 | KInt16 | KInt32 | KInt64
  | KUint | KUint8 | KUint16 | KUint32 | KUint64 | KUintptr
  | KFloat32 | KFloat64 | KComplex64 | KComplex128
  | KArray | KChan | KFunc | KInterface | KMap | KPtr | KSlice | KString | KStruct | KUnsafePointer

text \<open>
  A Go type. \<open>TDuration\<close> is \<open>time.Duration\<close> (kind Int64) and \<open>TTime\<close> is \<open>time.Time\<close>
  (kind Struct, with unexported fields only). The types from \<open>TUintptr\<close> on are of the
  kinds that the code has no rule for; the signature of a function type and the methods
  of an interface type are left out. Other named types are not told apart from their
  underlying types. Types are finite trees, so a struct type that contains a pointer to
  itself is outside the model.

  A struct field carries what \<open>reflect.StructField\<close> carries: its name, its type, its tag
  (as the list of key and value pairs that \<open>Tag.Get\<close> looks up), whether it is embedded,
  and whether it is exported (which is what \<open>CanSet\<close> reports for a field of an
  addressable struct).
\<close>

datatype gtype =
    TBool | TInt | TInt8 | TInt16 | TInt32 | TInt64 | TDuration
  | TUint | TUint8 | TUint16 | TUint32 | TUint64
  | TFloat32 | TFloat64 | TString | TTime
  | TPtr gtype | TSlice gtype | TStruct "structField list"
  | TUintptr | TComplex64 | TComplex128 | TArray nat gtype | TChan gtype | TFunc
  | TInterface | TMap gtype gtype | TUnsafePointer
and structField =
    StructField (sfName: string) (sfType: gtype) (sfTag: "(string \<times> string) list")
      (sfAnonymous: bool) (sfExported: bool)

fun Kind :: "gtype \<Rightarrow> kind" where
  "Kind TBool = KBool"
| "Kind TInt = KInt"
| "Kind TInt8 = KInt8"
| "Kind TInt16 = KInt16"
| "Kind TInt32 = KInt32"
| "Kind TInt64 = KInt64"
| "Kind TDuration = KInt64"
| "Kind TUint = KUint"
| "Kind TUint8 = KUint8"
| "Kind TUint16 = KUint16"
| "Kind TUint32 = KUint32"
| "Kind TUint64 = KUint64"
| "Kind TFloat32 = KFloat32"
| "Kind TFloat64 = KFloat64"
| "Kind TString = KString"
| "Kind TTime = KStruct"
| "Kind (TPtr T) = KPtr"
| "Kind (TSlice T) = KSlice"
| "Kind (TStruct fs) = KStruct"
| "Kind TUintptr = KUintptr"
| "Kind TComplex64 = KComplex64"
| "Kind TComplex128 = KComplex128"
| "Kind (TArray n T) = KArray"
| "Kind (TChan T) = KChan"
| "Kind TFunc = KFunc"
| "Kind TInterface = KInterface"
| "Kind (TMap K V) = KMap"
| "Kind TUnsafePointer = KUnsafePointer"

fun Kind_String :: "kind \<Rightarrow> string" where
  "Kind_String KInvalid = ''invalid''"
| "Kind_String KBool = ''bool''"
| "Kind_String KInt = ''int''"
| "Kind_String KInt8 = ''int8''"
| "Kind_String KInt16 = ''int16''"
| "Kind_String KInt32 = ''int32''"
| "Kind_String KInt64 = ''int64''"
| "Kind_String KUint = ''uint''"
| "Kind_String KUint8 = ''uint8''"
| "Kind_String KUint16 = ''uint16''"
| "Kind_String KUint32 = ''uint32''"
| "Kind_String KUint64 = ''uint64''"
| "Kind_String KUintptr = ''uintptr''"
| "Kind_String KFloat32 = ''float32''"
| "Kind_String KFloat64 = ''float64''"
| "Kind_String KComplex64 = ''complex64''"
| "Kind_String KComplex128 = ''complex128''"
| "Kind_String KArray = ''array''"
| "Kind_String KChan = ''chan''"
| "Kind_String KFunc = ''func''"
| "Kind_String KInterface = ''interface''"
| "Kind_String KMap = ''map''"
| "Kind_String KPtr = ''ptr''"
| "Kind_String KSlice = ''slice''"
| "Kind_String KString = ''string''"
| "Kind_String KStruct = ''struct''"
| "Kind_String KUnsafePointer = ''unsafe.Pointer''"

text \<open>
  A \<open>time.Time\<close>: seconds since the Unix epoch, nanoseconds within the second, and the
  offset of its zone in seconds east of UTC.
\<close>

datatype gtime = Time (unixSec: int) (nsec: nat) (zoneOffset: int)

text \<open>
  The content of a variable. Integers are kept as the number they denote, floats as
  their IEEE-754 bit pattern. A pointer is nil or owns what it points to: two pointers
  to one variable, and cyclic structures, are outside the model. \<open>VOpaque\<close> is the
  content of a variable of a type the code never looks into (slices, arrays, maps, ...).
\<close>

datatype gval =
    VBool bool | VInt int | VUint nat
  | VFloat32 "32 word" | VFloat64 "64 word"
  | VString string | VTime gtime
  | VNil | VRef gval | VStruct "gval list" | VOpaque

text \<open>A \<open>reflect.Value\<close> that can be set: the type of a variable and its content.\<close>

type_synonym rvalue = "gtype \<times> gval"

text \<open>The zero value of a type, which \<open>reflect.New\<close> allocates.\<close>

fun zero :: "gtype \<Rightarrow> gval"
and zero_fields :: "structField list \<Rightarrow> gval list" where
  "zero TBool = VBool False"
| "zero TInt = VInt 0"
| "zero TInt8 = VInt 0"
| "zero TInt16 = VInt 0"
| "zero TInt32 = VInt 0"
| "zero TInt64 = VInt 0"
| "zero TDuration = VInt 0"
| "zero TUint = VUint 0"
| "zero TUint8 = VUint 0"
| "zero TUint16 = VUint 0"
| "zero TUint32 = VUint 0"
| "zero TUint64 = VUint 0"
| "zero TFloat32 = VFloat32 0"
| "zero TFloat64 = VFloat64 0"
| "zero TString = VString []"
| "zero TTime = VTime (Time (- 62135596800) 0 0)"
| "zero (TPtr T) = VNil"
| "zero (TSlice T) = VOpaque"
| "zero (TStruct fs) = VStruct (zero_fields fs)"
| "zero TUintptr = VUint 0"
| "zero TComplex64 = VOpaque"
| "zero TComplex128 = VOpaque"
| "zero (TArray n T) = VOpaque"
| "zero (TChan T) = VOpaque"
| "zero TFunc = VOpaque"
| "zero TInterface = VOpaque"
| "zero (TMap K V) = VOpaque"
| "zero TUnsafePointer = VOpaque"
| "zero_fields [] = []"
| "zero_fields (StructField n T tg an ex # fs) = zero T # zero_fields fs"

subsection \<open>The tag parser\<close>

definition tagName :: string where "tagName = ''config''"
definition tagSeparator :: char where "tagSeparator = CHR '',''"
definition flagFlag :: string where "flagFlag = ''flag''"
definition flagFlagWithValue :: string where "flagFlagWithValue = ''flag=''"
definition envFlag :: string where "envFlag = ''env''"
definition envFlagWithValue :: string where "envFlagWithValue = ''env=''"
definition defaultFlag :: string where "defaultFlag = ''default''"
definition defaultFlagWithValue :: string where "defaultFlagWithValue = ''default=''"

record tagInfo =
  flag :: string
  hasFlag :: bool
  env :: string
  hasENV :: bool
  defVal :: string
  hasDefault :: bool

text \<open>The zero \<open>tagInfo{}\<close> that \<open>parseTag\<close> starts from.\<close>

definition tagInfo_zero :: tagInfo where
  "tagInfo_zero =
     \<lparr>flag = [], hasFlag = False, env = [], hasENV = False, defVal = [], hasDefault = False\<rparr>"

text \<open>\<open>field.Tag.Get(key)\<close>: the value of the first pair with the key, or the empty string.\<close>

definition Tag_Get :: "structField \<Rightarrow> string \<Rightarrow> string" where
  "Tag_Get f key = (case map_of (sfTag f) key of None \<Rightarrow> [] | Some v \<Rightarrow> v)"

text \<open>
  The three directive parsers write through the pointer \<open>t\<close> before they return, also
  when they return an error: the result is the \<open>tagInfo\<close> as they leave it and the error.
\<close>

definition parseENV :: "structField \<Rightarrow> tagInfo \<Rightarrow> string \<Rightarrow> tagInfo \<times> error option" where
  "parseENV f t v =
     (let t1 = t\<lparr>hasENV := True\<rparr> in
      if strings_HasPrefix v envFlagWithValue then
        (let t2 = t1\<lparr>env := strings_TrimPrefix v envFlagWithValue\<rparr> in
         if env t2 = [] then
           (t2, Some (Wrap [] ErrInvalidTagFormat '', either `env` or `env=ENV_KEY` is valid''))
         else (t2, None))
      else (t1, None))"

definition parseFlag :: "structField \<Rightarrow> tagInfo \<Rightarrow> string \<Rightarrow> tagInfo \<times> error option" where
  "parseFlag f t v =
     (let t1 = t\<lparr>hasFlag := True\<rparr> in
      if strings_HasPrefix v flagFlagWithValue then
        (let t2 = t1\<lparr>flag := strings_TrimPrefix v flagFlagWithValue\<rparr> in
         if flag t2 = [] then
           (t2, Some (Wrap [] ErrInvalidTagFormat '', either `flag` or `flag=flag-key` is valid''))
         else (t2, None))
      else (t1, None))"

definition parseDefault :: "structField \<Rightarrow> tagInfo \<Rightarrow> string \<Rightarrow> tagInfo \<times> error option" where
  "parseDefault f t v =
     (let t1 = t\<lparr>hasDefault := True\<rparr> in
      if strings_HasPrefix v defaultFlagWithValue then
        (let t2 = t1\<lparr>defVal := strings_TrimPrefix v defaultFlagWithValue\<rparr> in
         if defVal t2 = [] then
           (t2, Some (Wrap [] ErrInvalidTagFormat '', either `default` or `default=value` is valid''))
         else (t2, None))
      else (t1, None))"

text \<open>The loop of \<open>parseTag\<close> over the tokens, with the \<open>tagInfo\<close> built so far.\<close>

fun parseTag_loop :: "structField \<Rightarrow> tagInfo \<Rightarrow> string list \<Rightarrow> error + tagInfo" where
  "parseTag_loop f t [] = Inr t"
| "parseTag_loop f t (s # tags) =
     (if strings_HasPrefix s envFlag then
        (case parseENV f t s of
           (t', Some err) \<Rightarrow> Inl err
         | (t', None) \<Rightarrow> parseTag_loop f t' tags)
      else if strings_HasPrefix s flagFlag then
        (case parseFlag f t s of
           (t', Some err) \<Rightarrow> Inl err
         | (t', None) \<Rightarrow> parseTag_loop f t' tags)
      else if strings_HasPrefix s defaultFlag then
        (case parseDefault f t s of
           (t', Some err) \<Rightarrow> Inl err
         | (t', None) \<Rightarrow> parseTag_loop f t' tags)
      else parseTag_loop f t tags)"

definition parseTag :: "structField \<Rightarrow> error + tagInfo" where
  "parseTag f = parseTag_loop f tagInfo_zero (strings_Split (Tag_Get f tagName) tagSeparator)"


subsection \<open>Field descriptors and their keys\<close>

text \<open>
  A \<open>fieldInfo\<close>. \<open>val\<close> is the type and the content of the variable the descriptor
  refers to, as they are when the descriptor is made.
\<close>

datatype fieldInfo =
  FieldInfo (parent: "fieldInfo option") (field: structField) (val: rvalue) (tag: tagInfo)

definition Name :: "fieldInfo \<Rightarrow> string" where
  "Name f = sfName (field f)"

text \<open>
  The loop of \<open>path\<close>: \<open>p\<close> runs up the parents and each name is put in front of the
  path built so far.
\<close>

fun path_loop :: "fieldInfo option \<Rightarrow> string list \<Rightarrow> string list" where
  "path_loop None path = path"
| "path_loop (Some (FieldInfo par fld v tg)) path = path_loop par ([sfName fld] @ path)"

definition path :: "fieldInfo \<Rightarrow> string list" where
  "path f = path_loop (parent f) [Name f]"

subsection \<open>What the code takes from the standard library\<close>

text \<open>
  The parsers of strconv and time, the case mappings of package strings, the width of
  \<open>int\<close> on the platform and the conversion \<open>float32(x)\<close> that \<open>SetFloat\<close> makes are not
  code of the repository. The functions below take them as the record \<open>L\<close>; the theorems
  hold for every such record. A parser returns its value or its error.
\<close>

record stdlib =
  strconv_IntSize :: nat
  strconv_ParseBool :: "string \<Rightarrow> error + bool"
  strconv_ParseInt :: "string \<Rightarrow> nat \<Rightarrow> nat \<Rightarrow> error + int"
  strconv_ParseUint :: "string \<Rightarrow> nat \<Rightarrow> nat \<Rightarrow> error + nat"
  strconv_ParseFloat :: "string \<Rightarrow> nat \<Rightarrow> error + 64 word"
  float32_conv :: "64 word \<Rightarrow> 32 word"
  time_ParseDuration :: "string \<Rightarrow> error + int"
  time_Parse :: "string \<Rightarrow> string \<Rightarrow> error + gtime"
  strings_ToUpper :: "string \<Rightarrow> string"
  strings_ToLower :: "string \<Rightarrow> string"

definition time_RFC3339 :: string where
  "time_RFC3339 = ''2006-01-02T15:04:05Z07:00''"

definition ENVKey :: "stdlib \<Rightarrow> fieldInfo \<Rightarrow> string" where
  "ENVKey L f =
     (if hasENV (tag f) then
        (if env (tag f) = [] then strings_ToUpper L (strings_Join (path f) ''_'')
         else env (tag f))
      else [])"

definition FlagKey :: "stdlib \<Rightarrow> fieldInfo \<Rightarrow> string" where
  "FlagKey L f =
     (if hasFlag (tag f) then
        (if flag (tag f) = [] then strings_ToLower L (strings_Join (path f) ''-'')
         else flag (tag f))
      else [])"

definition DefVal :: "fieldInfo \<Rightarrow> string" where
  "DefVal f = (if hasDefault (tag f) then defVal (tag f) else [])"

subsection \<open>The struct walker\<close>

definition timePtrType :: gtype where "timePtrType = TPtr TTime"
definition timeType :: gtype where "timeType = TTime"

definition getFieldInfo :: "rvalue \<Rightarrow> structField \<Rightarrow> fieldInfo option \<Rightarrow> error + fieldInfo" where
  "getFieldInfo v t p =
     (case parseTag t of
        Inl err \<Rightarrow> Inl err
      | Inr tg \<Rightarrow> Inr (FieldInfo p t v tg))"

text \<open>
  \<open>getStructInfo\<close> mutates the struct it walks (it allocates behind nil pointers to
  structs) and collects descriptors; the model returns the struct as the walk leaves it
  together with the descriptors, in the order the code appends them. When the walk
  fails the model returns the error alone: what was allocated before the failure is
  not reported.

  Three functions, recursive over the type, make up the walk; \<open>par\<close> is the parameter
  \<open>parent\<close> of the code.
  \<^item> \<open>getStructInfo_body par T v\<close> is \<open>getStructInfo\<close> after \<open>v = v.Elem()\<close>, for a
    struct of type \<open>T\<close> and content \<open>v\<close>: the kind check and the loop over the fields.
    A \<open>time.Time\<close> has unexported fields only, so its loop skips them all.
  \<^item> \<open>getStructInfo_loop par fts fvs\<close> is the loop over the fields that are left,
    \<open>fts\<close> their declarations and \<open>fvs\<close> their contents.
  \<^item> \<open>getStructInfo_field par ft T v\<close> is the body of the loop for the field \<open>ft\<close>
    from the pointer loop on, when \<open>fv\<close> has the type \<open>T\<close> and the content \<open>v\<close>: one
    turn of the pointer loop if \<open>T\<close> is a pointer type, the rest of the body otherwise.
    In the recursive call \<open>getStructInfo(fv.Addr().Interface(), p)\<close> the argument is a
    non-nil pointer, so the first check of \<open>getStructInfo\<close> passes and \<open>v.Elem()\<close> is
    \<open>fv\<close> again.
\<close>

fun getStructInfo_body ::
      "fieldInfo option \<Rightarrow> gtype \<Rightarrow> gval \<Rightarrow> error + (gval \<times> fieldInfo list)"
and getStructInfo_loop ::
      "fieldInfo option \<Rightarrow> structField list \<Rightarrow> gval list \<Rightarrow> error + (gval list \<times> fieldInfo list)"
and getStructInfo_field ::
      "fieldInfo option \<Rightarrow> structField \<Rightarrow> gtype \<Rightarrow> gval \<Rightarrow> error + (gval \<times> fieldInfo list)"
where
  "getStructInfo_body par (TStruct fts) v =
     (case v of
        VStruct fvs \<Rightarrow>
          (case getStructInfo_loop par fts fvs of
             Inl err \<Rightarrow> Inl err
           | Inr (fvs', fis) \<Rightarrow> Inr (VStruct fvs', fis))
      | _ \<Rightarrow> Inl IllTyped)"
| "getStructInfo_body par TTime v = Inr (v, [])"
| "getStructInfo_body par T v = Inl ErrInvalidConfig"
| "getStructInfo_loop par [] [] = Inr ([], [])"
| "getStructInfo_loop par (StructField n T tg an ex # fts) (fv # fvs) =
     (let ft = StructField n T tg an ex in
      if \<not> ex then
        (case getStructInfo_loop par fts fvs of
           Inl err \<Rightarrow> Inl err
         | Inr (fvs', fis) \<Rightarrow> Inr (fv # fvs', fis))
      else if T = timeType \<or> T = timePtrType then
        (case getFieldInfo (T, fv) ft par of
           Inl err \<Rightarrow> Inl err
         | Inr fi \<Rightarrow>
             (case getStructInfo_loop par fts fvs of
                Inl err \<Rightarrow> Inl err
              | Inr (fvs', fis) \<Rightarrow> Inr (fv # fvs', [fi] @ fis)))
      else
        (case getStructInfo_field par ft T fv of
           Inl err \<Rightarrow> Inl err
         | Inr (fv', inner) \<Rightarrow>
             (case getStructInfo_loop par fts fvs of
                Inl err \<Rightarrow> Inl err
              | Inr (fvs', fis) \<Rightarrow> Inr (fv' # fvs', inner @ fis))))"
| "getStructInfo_loop par fts fvs = Inl IllTyped"
| "getStructInfo_field par ft (TPtr E) v =
     (case v of
        VNil \<Rightarrow>
          (if Kind E \<noteq> KStruct then
             (case getFieldInfo (TPtr E, VNil) ft par of
                Inl err \<Rightarrow> Inl err
              | Inr fi \<Rightarrow> Inr (VNil, [fi]))
           else
             (case getStructInfo_field par ft E (zero E) of
                Inl err \<Rightarrow> Inl err
              | Inr (u, fis) \<Rightarrow> Inr (VRef u, fis)))
      | VRef u \<Rightarrow>
          (case getStructInfo_field par ft E u of
             Inl err \<Rightarrow> Inl err
           | Inr (u', fis) \<Rightarrow> Inr (VRef u', fis))
      | _ \<Rightarrow> Inl IllTyped)"
| "getStructInfo_field par ft (TStruct fts) v =
     (case getFieldInfo (TStruct fts, v) ft par of
        Inl err \<Rightarrow> Inl err
      | Inr fi \<Rightarrow>
          getStructInfo_body (if sfAnonymous ft then par else Some fi) (TStruct fts) v)"
| "getStructInfo_field par ft TTime v =
     (case getFieldInfo (TTime, v) ft par of
        Inl err \<Rightarrow> Inl err
      | Inr fi \<Rightarrow> getStructInfo_body (if sfAnonymous ft then par else Some fi) TTime v)"
| "getStructInfo_field par ft T v =
     (case getFieldInfo (T, v) ft par of
        Inl err \<Rightarrow> Inl err
      | Inr fi \<Rightarrow> Inr (v, [fi]))"

text \<open>
  \<open>getStructInfo\<close> itself, on the interface value \<open>i\<close>: anything but a pointer is
  refused, and so is a pointer whose \<open>Elem\<close> is not a struct, which includes the nil
  pointer (its \<open>Elem\<close> is the invalid value).
\<close>

definition getStructInfo ::
    "rvalue \<Rightarrow> fieldInfo option \<Rightarrow> error + (rvalue \<times> fieldInfo list)" where
  "getStructInfo i par =
     (case i of
        (TPtr E, VRef v) \<Rightarrow>
          (if Kind E \<noteq> KStruct then Inl ErrInvalidConfig
           else (case getStructInfo_body par E v of
                   Inl err \<Rightarrow> Inl err
                 | Inr (v', fis) \<Rightarrow> Inr ((TPtr E, VRef v'), fis)))
      | (TPtr E, VNil) \<Rightarrow> Inl ErrInvalidConfig
      | (TPtr E, _) \<Rightarrow> Inl IllTyped
      | _ \<Rightarrow> Inl ErrInvalidConfig)"


subsection \<open>The setters of package reflect\<close>

text \<open>
  A call returns or panics. The setters of \<open>reflect.Value\<close> panic when the kind of the
  variable is not theirs; otherwise they convert to the variable's width, as Go's
  conversions do, by dropping the high bits. \<open>Set\<close> panics unless the type of the new
  value is assignable to the type of the variable; between the types of this model that
  means they are the same type (the code never calls \<open>Set\<close> on a variable of interface
  kind).
\<close>

datatype 'a result = Return 'a | Panic string

definition convert_int :: "nat \<Rightarrow> int \<Rightarrow> int" where
  "convert_int w i = (i + 2 ^ (w - 1)) mod 2 ^ w - 2 ^ (w - 1)"

definition convert_uint :: "nat \<Rightarrow> nat \<Rightarrow> nat" where
  "convert_uint w u = u mod 2 ^ w"

definition SetBool :: "rvalue \<Rightarrow> bool \<Rightarrow> rvalue result" where
  "SetBool dst b =
     (if Kind (fst dst) = KBool then Return (fst dst, VBool b)
      else Panic ''reflect: call of reflect.Value.SetBool'')"

definition SetInt :: "stdlib \<Rightarrow> rvalue \<Rightarrow> int \<Rightarrow> rvalue result" where
  "SetInt L dst x =
     (case Kind (fst dst) of
        KInt \<Rightarrow> Return (fst dst, VInt (convert_int (strconv_IntSize L) x))
      | KInt8 \<Rightarrow> Return (fst dst, VInt (convert_int 8 x))
      | KInt16 \<Rightarrow> Return (fst dst, VInt (convert_int 16 x))
      | KInt32 \<Rightarrow> Return (fst dst, VInt (convert_int 32 x))
      | KInt64 \<Rightarrow> Return (fst dst, VInt (convert_int 64 x))
      | _ \<Rightarrow> Panic ''reflect: call of reflect.Value.SetInt'')"

definition SetUint :: "stdlib \<Rightarrow> rvalue \<Rightarrow> nat \<Rightarrow> rvalue result" where
  "SetUint L dst x =
     (case Kind (fst dst) of
        KUint \<Rightarrow> Return (fst dst, VUint (convert_uint (strconv_IntSize L) x))
      | KUintptr \<Rightarrow> Return (fst dst, VUint (convert_uint (strconv_IntSize L) x))
      | KUint8 \<Rightarrow> Return (fst dst, VUint (convert_uint 8 x))
      | KUint16 \<Rightarrow> Return (fst dst, VUint (convert_uint 16 x))
      | KUint32 \<Rightarrow> Return (fst dst, VUint (convert_uint 32 x))
      | KUint64 \<Rightarrow> Return (fst dst, VUint (convert_uint 64 x))
      | _ \<Rightarrow> Panic ''reflect: call of reflect.Value.SetUint'')"

definition SetFloat :: "stdlib \<Rightarrow> rvalue \<Rightarrow> 64 word \<Rightarrow> rvalue result" where
  "SetFloat L dst x =
     (case Kind (fst dst) of
        KFloat32 \<Rightarrow> Return (fst dst, VFloat32 (float32_conv L x))
      | KFloat64 \<Rightarrow> Return (fst dst, VFloat64 x)
      | _ \<Rightarrow> Panic ''reflect: call of reflect.Value.SetFloat'')"

definition SetString :: "rvalue \<Rightarrow> string \<Rightarrow> rvalue result" where
  "SetString dst x =
     (if Kind (fst dst) = KString then Return (fst dst, VString x)
      else Panic ''reflect: call of reflect.Value.SetString'')"

definition Set :: "rvalue \<Rightarrow> rvalue \<Rightarrow> rvalue result" where
  "Set dst x =
     (if fst x = fst dst then Return (fst dst, snd x)
      else Panic ''reflect.Set: value is not assignable'')"

text \<open>\<open>typ.Elem()\<close>, which panics for a type that has no element type.\<close>

fun Elem :: "gtype \<Rightarrow> gtype option" where
  "Elem (TPtr T) = Some T"
| "Elem (TSlice T) = Some T"
| "Elem (TArray n T) = Some T"
| "Elem (TChan T) = Some T"
| "Elem (TMap K V) = Some V"
| "Elem T = None"

subsection \<open>The value coercion\<close>

text \<open>
  Modelled from the spec: \<open>durationType\<close> is declared outside reflect.go. The spec has
  the 64-bit integer "declared as a duration type" parse as a duration in the value
  form, where the code compares \<open>typ\<close> of kind Int64 with \<open>durationType\<close>: it is the type
  \<open>time.Duration\<close>.
\<close>

definition durationType :: gtype where "durationType = TDuration"

text \<open>
  \<open>setFieldValue\<close> and \<open>setPtrValue\<close> write into the variable \<open>val\<close> (here \<open>dst\<close>) and return an
  error or nil: the model returns the variable as the call leaves it and the error
  (\<open>None\<close> for nil), or the panic. \<open>finish r err\<close> is the end of a branch: the call of a
  setter, whose panic ends the function, and then the \<open>return err\<close> that the branch
  reaches.
\<close>

definition finish :: "rvalue result \<Rightarrow> error option \<Rightarrow> (rvalue \<times> error option) result" where
  "finish r err = (case r of Panic m \<Rightarrow> Panic m | Return dst' \<Rightarrow> Return (dst', err))"

definition setSliceValue :: "rvalue \<Rightarrow> gtype \<Rightarrow> string \<Rightarrow> (rvalue \<times> error option) result" where
  "setSliceValue dst typ v = Return (dst, None)"

definition setPtrValue ::
    "stdlib \<Rightarrow> rvalue \<Rightarrow> gtype \<Rightarrow> string \<Rightarrow> (rvalue \<times> error option) result" where
  "setPtrValue L dst typ v =
     (case Elem typ of
        None \<Rightarrow> Panic ''reflect: Elem of invalid type''
      | Some E \<Rightarrow>
     (let unsupported =
        Return (dst, Some (Wrap ''setPtrValue: '' ErrUnsupported
                            ('' type ['' @ Kind_String (Kind typ) @ '']'')))
      in
      if Kind E = KBool then
        (case strconv_ParseBool L v of
           Inl err \<Rightarrow> Return (dst, Some err)
         | Inr b \<Rightarrow> finish (Set dst (TPtr TBool, VRef (VBool b))) None)
      else if Kind E \<in> {KInt, KInt8, KInt16, KInt32} then
        (case strconv_ParseInt L v 0 (strconv_IntSize L) of
           Inl err \<Rightarrow> Return (dst, Some err)
         | Inr i \<Rightarrow> finish (Set dst (TPtr TInt64, VRef (VInt i))) None)
      else if Kind E = KInt64 then
        (if typ = durationType then
           (case time_ParseDuration L v of
              Inl err \<Rightarrow> Return (dst, Some err)
            | Inr i \<Rightarrow> finish (Set dst (TPtr TDuration, VRef (VInt i))) None)
         else
           (case strconv_ParseInt L v 0 64 of
              Inl err \<Rightarrow> Return (dst, Some err)
            | Inr i \<Rightarrow> finish (Set dst (TPtr TInt64, VRef (VInt i))) None))
      else if Kind E \<in> {KUint, KUint8, KUint16, KUint32} then
        (case strconv_ParseUint L v 0 (strconv_IntSize L) of
           Inl err \<Rightarrow> Return (dst, Some err)
         | Inr u \<Rightarrow> finish (Set dst (TPtr TUint64, VRef (VUint u))) None)
      else if Kind E = KUint64 then
        (case strconv_ParseUint L v 0 64 of
           Inl err \<Rightarrow> Return (dst, Some err)
         | Inr u \<Rightarrow> finish (Set dst (TPtr TUint64, VRef (VUint u))) None)
      else if Kind E \<in> {KFloat32, KFloat64} then
        (case strconv_ParseFloat L v 64 of
           Inl err \<Rightarrow> Return (dst, Some err)
         | Inr f \<Rightarrow> finish (Set dst (TPtr TFloat64, VRef (VFloat64 f))) None)
      else if Kind E = KString then
        finish (Set dst (TPtr TString, VRef (VString v))) None
      else if Kind E = KStruct then
        (if typ = timePtrType then
           (case time_Parse L time_RFC3339 v of
              Inl err \<Rightarrow> Return (dst, Some err)
            | Inr t \<Rightarrow>
                (case Set dst (TPtr TTime, VRef (VTime t)) of
                   Panic m \<Rightarrow> Panic m
                 | Return dst' \<Rightarrow>
                     Return (dst', Some (Wrap ''setPtrValue: '' ErrUnsupported
                                          ('' type ['' @ Kind_String (Kind typ) @ '']'')))))
         else unsupported)
      else unsupported))"

definition setFieldValue ::
    "stdlib \<Rightarrow> rvalue \<Rightarrow> gtype \<Rightarrow> string \<Rightarrow> (rvalue \<times> error option) result" where
  "setFieldValue L dst typ v =
     (let unsupported =
        Return (dst, Some (Wrap ''setFieldValue: '' ErrUnsupported
                            ('' type ['' @ Kind_String (Kind typ) @ '']'')))
      in
      if Kind typ = KBool then
        (case strconv_ParseBool L v of
           Inl err \<Rightarrow> Return (dst, Some err)
         | Inr b \<Rightarrow> finish (SetBool dst b) None)
      else if Kind typ \<in> {KInt, KInt8, KInt16, KInt32} then
        (case strconv_ParseInt L v 0 (strconv_IntSize L) of
           Inl err \<Rightarrow> Return (dst, Some err)
         | Inr i \<Rightarrow> finish (SetInt L dst i) None)
      else if Kind typ = KInt64 then
        (if typ = durationType then
           (case time_ParseDuration L v of
              Inl err \<Rightarrow> Return (dst, Some err)
            | Inr i \<Rightarrow> finish (SetInt L dst i) None)
         else
           (case strconv_ParseInt L v 0 64 of
              Inl err \<Rightarrow> Return (dst, Some err)
            | Inr i \<Rightarrow> finish (SetInt L dst i) None))
      else if Kind typ \<in> {KUint, KUint8, KUint16, KUint32} then
        (case strconv_ParseUint L v 0 (strconv_IntSize L) of
           Inl err \<Rightarrow> Return (dst, Some err)
         | Inr u \<Rightarrow> finish (SetUint L dst u) None)
      else if Kind typ = KUint64 then
        (case strconv_ParseUint L v 0 64 of
           Inl err \<Rightarrow> Return (dst, Some err)
         | Inr u \<Rightarrow> finish (SetUint L dst u) None)
      else if Kind typ \<in> {KFloat32, KFloat64} then
        (case strconv_ParseFloat L v 64 of
           Inl err \<Rightarrow> Return (dst, Some err)
         | Inr f \<Rightarrow> finish (SetFloat L dst f) None)
      else if Kind typ = KString then
        finish (SetString dst v) None
      else if Kind typ = KPtr then setPtrValue L dst typ v
      else if Kind typ = KSlice then setSliceValue dst typ v
      else if Kind typ = KStruct then
        (if typ = timeType then
           (case time_Parse L time_RFC3339 v of
              Inl err \<Rightarrow> Return (dst, Some err)
            | Inr t \<Rightarrow>
                (case Set dst (TTime, VTime t) of
                   Panic m \<Rightarrow> Panic m
                 | Return dst' \<Rightarrow>
                     Return (dst', Some (Wrap ''setFieldValue: '' ErrUnsupported
                                          ('' type ['' @ Kind_String (Kind typ) @ '']'')))))
         else unsupported)
      else unsupported)"


subsection \<open>A reference instance of the standard library\<close>

text \<open>
  The theorems below hold for every \<open>stdlib\<close>. To apply them to concrete inputs one
  instance is needed, \<open>golib\<close>, written after the documentation and the sources of Go's
  standard library for a platform with 64-bit \<open>int\<close>. It is not code of the repository
  and no theorem depends on how it is written. Where it reads less than Go does, that
  is said at the function.
\<close>

definition go_lower :: "char \<Rightarrow> char" where
  "go_lower c = (if CHR ''A'' \<le> c \<and> c \<le> CHR ''Z'' then char_of (of_char c + (32::nat)) else c)"

definition go_upper :: "char \<Rightarrow> char" where
  "go_upper c = (if CHR ''a'' \<le> c \<and> c \<le> CHR ''z'' then char_of (of_char c - (32::nat)) else c)"

text \<open>
  \<open>strings.ToUpper\<close> and \<open>strings.ToLower\<close> on ASCII strings. (On a string with bytes
  from 128 on, Go maps whole Unicode characters; here those bytes are left as they
  are.)
\<close>

definition go_ToUpper :: "string \<Rightarrow> string" where
  "go_ToUpper s = map go_upper s"

definition go_ToLower :: "string \<Rightarrow> string" where
  "go_ToLower s = map go_lower s"

definition go_ParseBool :: "string \<Rightarrow> error + bool" where
  "go_ParseBool s =
     (if s \<in> {''1'', ''t'', ''T'', ''TRUE'', ''true'', ''True''} then Inr True
      else if s \<in> {''0'', ''f'', ''F'', ''FALSE'', ''false'', ''False''} then Inr False
      else Inl (LibError ''strconv.ParseBool: invalid syntax''))"

text \<open>
  \<open>lower(c)\<close> of strconv, as the number of the byte: \<open>c | ('x' - 'X')\<close>, which is compared
  with lower-case letters only, and so matters for the upper-case letters only.
\<close>

definition go_lowerByte :: "char \<Rightarrow> nat" where
  "go_lowerByte c =
     (if of_char (CHR ''A'') \<le> (of_char c :: nat) \<and> (of_char c :: nat) \<le> of_char (CHR ''Z'')
      then of_char c + 32 else of_char c)"

text \<open>The value of a byte as a digit in a base up to 36, as \<open>ParseUint\<close> reads it.\<close>

definition go_digit :: "char \<Rightarrow> nat option" where
  "go_digit c =
     (if CHR ''0'' \<le> c \<and> c \<le> CHR ''9'' then Some (of_char c - 48)
      else if of_char (CHR ''a'') \<le> go_lowerByte c \<and> go_lowerByte c \<le> of_char (CHR ''z'')
      then Some (go_lowerByte c - 87)
      else None)"

text \<open>
  The digit loop of \<open>strconv.ParseUint\<close>: the number read so far and whether an
  underscore was seen. A digit that takes the number over \<open>maxVal\<close> is a range error.
\<close>

fun go_ParseUint_loop :: "nat \<Rightarrow> bool \<Rightarrow> nat \<Rightarrow> nat \<Rightarrow> bool \<Rightarrow> string \<Rightarrow> error + (nat \<times> bool)" where
  "go_ParseUint_loop base base0 maxVal n us [] = Inr (n, us)"
| "go_ParseUint_loop base base0 maxVal n us (c # cs) =
     (if c = CHR ''_'' \<and> base0 then go_ParseUint_loop base base0 maxVal n True cs
      else (case go_digit c of
              None \<Rightarrow> Inl (LibError ''strconv.ParseUint: invalid syntax'')
            | Some d \<Rightarrow>
                if d \<ge> base then Inl (LibError ''strconv.ParseUint: invalid syntax'')
                else if n * base + d > maxVal then
                  Inl (LibError ''strconv.ParseUint: value out of range'')
                else go_ParseUint_loop base base0 maxVal (n * base + d) us cs))"

text \<open>
  \<open>underscoreOK\<close> of strconv: an underscore must stand between two digits, or between
  a base prefix and a digit. \<open>saw\<close> is the last thing seen: the start, a digit, an
  underscore, or anything else.
\<close>

datatype go_saw = SawStart | SawDigit | SawUnderscore | SawOther

fun go_underscoreOK_loop :: "bool \<Rightarrow> go_saw \<Rightarrow> string \<Rightarrow> bool" where
  "go_underscoreOK_loop hex saw [] = (saw \<noteq> SawUnderscore)"
| "go_underscoreOK_loop hex saw (c # cs) =
     (if (CHR ''0'' \<le> c \<and> c \<le> CHR ''9'')
         \<or> (hex \<and> of_char (CHR ''a'') \<le> go_lowerByte c \<and> go_lowerByte c \<le> of_char (CHR ''f''))
      then go_underscoreOK_loop hex SawDigit cs
      else if c = CHR ''_'' then
        (if saw \<noteq> SawDigit then False else go_underscoreOK_loop hex SawUnderscore cs)
      else if saw = SawUnderscore then False
      else go_underscoreOK_loop hex SawOther cs)"

definition go_hasBasePrefix :: "string \<Rightarrow> bool" where
  "go_hasBasePrefix s \<longleftrightarrow>
     (case s of
        a # b # rest \<Rightarrow>
          a = CHR ''0'' \<and> go_lowerByte b \<in> {of_char (CHR ''b''), of_char (CHR ''o''), of_char (CHR ''x'')}
      | _ \<Rightarrow> False)"

definition go_underscoreOK :: "string \<Rightarrow> bool" where
  "go_underscoreOK s0 =
     (let s = (case s0 of c # cs \<Rightarrow> if c = CHR ''-'' \<or> c = CHR ''+'' then cs else s0 | [] \<Rightarrow> s0) in
      if go_hasBasePrefix s
      then go_underscoreOK_loop (go_lowerByte (s ! 1) = of_char (CHR ''x'')) SawDigit (drop 2 s)
      else go_underscoreOK_loop False SawStart s)"

text \<open>
  \<open>strconv.ParseUint\<close> for the base 0, which is the one the code asks for: the base is
  read off the prefix. Another base argument is refused here.
\<close>

definition go_ParseUint :: "string \<Rightarrow> nat \<Rightarrow> nat \<Rightarrow> error + nat" where
  "go_ParseUint s base bitSize =
     (if s = [] then Inl (LibError ''strconv.ParseUint: invalid syntax'')
      else if base \<noteq> 0 then Inl (LibError ''strconv.ParseUint: base not modelled'')
      else if bitSize > 64 then Inl (LibError ''strconv.ParseUint: invalid bit size'')
      else
        (let bits = (if bitSize = 0 then 64 else bitSize);
             maxVal = 2 ^ bits - 1;
             (b, digits) =
               (if hd s = CHR ''0'' then
                  (if length s \<ge> 3 \<and> go_lowerByte (s ! 1) = of_char (CHR ''b'') then (2, drop 2 s)
                   else if length s \<ge> 3 \<and> go_lowerByte (s ! 1) = of_char (CHR ''o'') then (8, drop 2 s)
                   else if length s \<ge> 3 \<and> go_lowerByte (s ! 1) = of_char (CHR ''x'') then (16, drop 2 s)
                   else (8, drop 1 s))
                else (10, s))
         in case go_ParseUint_loop b True maxVal 0 False digits of
              Inl err \<Rightarrow> Inl err
            | Inr (n, us) \<Rightarrow>
                if us \<and> \<not> go_underscoreOK s
                then Inl (LibError ''strconv.ParseUint: invalid syntax'')
                else Inr n))"

text \<open>
  \<open>strconv.ParseInt\<close>: the sign is taken off, the rest is read by \<open>ParseUint\<close> and
  checked against the range of the width.
\<close>

definition go_ParseInt :: "string \<Rightarrow> nat \<Rightarrow> nat \<Rightarrow> error + int" where
  "go_ParseInt s0 base bitSize =
     (if s0 = [] then Inl (LibError ''strconv.ParseInt: invalid syntax'')
      else
        (let neg = (hd s0 = CHR ''-'');
             s = (if hd s0 = CHR ''+'' \<or> hd s0 = CHR ''-'' then tl s0 else s0);
             bits = (if bitSize = 0 then 64 else bitSize);
             cutoff = 2 ^ (bits - 1)
         in case go_ParseUint s base bitSize of
              Inl err \<Rightarrow> Inl err
            | Inr un \<Rightarrow>
                if \<not> neg \<and> un \<ge> cutoff then Inl (LibError ''strconv.ParseInt: value out of range'')
                else if neg \<and> un > cutoff then Inl (LibError ''strconv.ParseInt: value out of range'')
                else Inr (if neg then - int un else int un)))"

text \<open>
  \<open>strconv.ParseFloat\<close>, only for the decimal whole numbers below \<open>2 ^ 53\<close>, which a
  float64 holds exactly; everything else is refused here, although Go reads more.
\<close>

fun go_log2 :: "nat \<Rightarrow> nat" where
  "go_log2 n = (if n < 2 then 0 else Suc (go_log2 (n div 2)))"

definition go_float64_of_nat :: "nat \<Rightarrow> 64 word" where
  "go_float64_of_nat n =
     (if n = 0 then 0
      else (let e = go_log2 n in word_of_nat ((1023 + e) * 2 ^ 52 + (n - 2 ^ e) * 2 ^ (52 - e))))"

definition go_ParseFloat :: "string \<Rightarrow> nat \<Rightarrow> error + 64 word" where
  "go_ParseFloat s bitSize =
     (if s \<noteq> [] \<and> (\<forall>c \<in> set s. CHR ''0'' \<le> c \<and> c \<le> CHR ''9'') then
        (case go_ParseUint_loop 10 False (2 ^ 53 - 1) 0 False s of
           Inl err \<Rightarrow> Inl (LibError ''strconv.ParseFloat: not modelled'')
         | Inr (n, us) \<Rightarrow> Inr (go_float64_of_nat n))
      else Inl (LibError ''strconv.ParseFloat: not modelled''))"

text \<open>
  The conversion \<open>float32(x)\<close> of a float64: rounding to the nearest float32, ties to
  even, on the IEEE-754 bit patterns.
\<close>

definition go_round_div :: "nat \<Rightarrow> nat \<Rightarrow> nat" where
  "go_round_div a b =
     (let q = a div b; r = a mod b in
      if 2 * r < b then q else if 2 * r > b then q + 1 else if even q then q else q + 1)"

definition go_float32 :: "64 word \<Rightarrow> 32 word" where
  "go_float32 w =
     (let x = unat w;
          sgn = (x div 2 ^ 63) * 2 ^ 31;
          e = (x div 2 ^ 52) mod 2 ^ 11;
          m = x mod 2 ^ 52;
          inf = 255 * 2 ^ 23
      in word_of_nat (sgn +
           (if e = 2047 then (if m = 0 then inf else inf + 2 ^ 22 + (m div 2 ^ 29) mod 2 ^ 22)
            else if e = 0 then 0
            else if e > 896 then
              (let b = (e - 896) * 2 ^ 23 + go_round_div (2 ^ 52 + m) (2 ^ 29) - 2 ^ 23
               in if b \<ge> inf then inf else b)
            else go_round_div (2 ^ 52 + m) (2 ^ (926 - e)))))"

text \<open>
  \<open>time.ParseDuration\<close> for the literals made of whole numbers with the units \<open>h\<close>, \<open>m\<close>,
  \<open>s\<close>, \<open>ms\<close>, \<open>us\<close> and \<open>ns\<close>, with an optional sign, and for \<open>0\<close>. Fractions and the
  spellings of \<open>us\<close> with a Greek letter are refused here, although Go reads them.
  The scan keeps the sum so far, the whole number being read and the unit being read.
\<close>

definition go_unit :: "string \<Rightarrow> nat option" where
  "go_unit u =
     (if u = ''ns'' then Some 1
      else if u = ''us'' then Some 1000
      else if u = ''ms'' then Some 1000000
      else if u = ''s'' then Some 1000000000
      else if u = ''m'' then Some 60000000000
      else if u = ''h'' then Some 3600000000000
      else None)"

definition go_isDigit :: "char \<Rightarrow> bool" where
  "go_isDigit c \<longleftrightarrow> CHR ''0'' \<le> c \<and> c \<le> CHR ''9''"

fun go_duration_scan :: "nat \<Rightarrow> nat option \<Rightarrow> string \<Rightarrow> string \<Rightarrow> nat option" where
  "go_duration_scan acc num unit [] =
     (case num of
        None \<Rightarrow> (if unit = [] then Some acc else None)
      | Some n \<Rightarrow> (case go_unit unit of None \<Rightarrow> None | Some k \<Rightarrow> Some (acc + n * k)))"
| "go_duration_scan acc num unit (c # cs) =
     (if go_isDigit c then
        (case num of
           None \<Rightarrow> (if unit = [] then go_duration_scan acc (Some (of_char c - 48)) [] cs else None)
         | Some n \<Rightarrow>
             (if unit = [] then go_duration_scan acc (Some (n * 10 + (of_char c - 48))) [] cs
              else (case go_unit unit of
                      None \<Rightarrow> None
                    | Some k \<Rightarrow> go_duration_scan (acc + n * k) (Some (of_char c - 48)) [] cs)))
      else if c = CHR ''.'' then None
      else (case num of
              None \<Rightarrow> None
            | Some n \<Rightarrow> go_duration_scan acc num (unit @ [c]) cs))"

definition go_ParseDuration :: "string \<Rightarrow> error + int" where
  "go_ParseDuration s0 =
     (let neg = (s0 \<noteq> [] \<and> hd s0 = CHR ''-'');
          s = (if s0 \<noteq> [] \<and> (hd s0 = CHR ''+'' \<or> hd s0 = CHR ''-'') then tl s0 else s0)
      in if s = ''0'' then Inr 0
         else if s = [] then Inl (LibError ''time: invalid duration'')
         else (case go_duration_scan 0 None [] s of
                 None \<Rightarrow> Inl (LibError ''time: invalid duration'')
               | Some d \<Rightarrow>
                   if neg then (if d > 2 ^ 63 then Inl (LibError ''time: invalid duration'')
                                else Inr (- int d))
                   else (if d > 2 ^ 63 - 1 then Inl (LibError ''time: invalid duration'')
                         else Inr (int d))))"

text \<open>
  \<open>time.Parse\<close> with the layout RFC3339, for the strict form
  \<open>YYYY-MM-DDTHH:MM:SS\<close>, an optional fraction of a second, and \<open>Z\<close> or an offset
  \<open>+HH:MM\<close> or \<open>-HH:MM\<close>. Another layout is refused here.
\<close>

definition go_number :: "string \<Rightarrow> nat \<Rightarrow> nat \<Rightarrow> nat option" where
  "go_number s lo hi =
     (if s \<noteq> [] \<and> (\<forall>c \<in> set s. go_isDigit c) then
        (let x = foldl (\<lambda>n c. n * 10 + (of_char c - 48)) 0 s
         in if lo \<le> x \<and> x \<le> hi then Some x else None)
      else None)"

definition go_isLeap :: "nat \<Rightarrow> bool" where
  "go_isLeap y \<longleftrightarrow> y mod 4 = 0 \<and> (y mod 100 \<noteq> 0 \<or> y mod 400 = 0)"

definition go_daysIn :: "nat \<Rightarrow> nat \<Rightarrow> nat" where
  "go_daysIn m y =
     (if m = 2 then (if go_isLeap y then 29 else 28)
      else if m \<in> {4, 6, 9, 11} then 30 else 31)"

definition go_unixDate :: "nat \<Rightarrow> nat \<Rightarrow> nat \<Rightarrow> nat \<Rightarrow> nat \<Rightarrow> nat \<Rightarrow> int" where
  "go_unixDate y mo d h mi sec =
     (let y1 = int y - 1;
          days = 365 * y1 + y1 div 4 - y1 div 100 + y1 div 400
                 + int (sum_list (map (\<lambda>k. go_daysIn k y) [1..<mo])) + int d - 1
      in days * 86400 + int h * 3600 + int mi * 60 + int sec - 62135596800)"

definition go_zone :: "string \<Rightarrow> int option" where
  "go_zone z =
     (if z = ''Z'' then Some 0
      else if length z = 6 \<and> (z ! 0 = CHR ''+'' \<or> z ! 0 = CHR ''-'') \<and> z ! 3 = CHR '':'' then
        (case (go_number (take 2 (drop 1 z)) 0 23, go_number (drop 4 z) 0 59) of
           (Some hr, Some mm) \<Rightarrow>
             Some ((if z ! 0 = CHR ''-'' then - 1 else 1) * (int hr * 60 + int mm) * 60)
         | _ \<Rightarrow> None)
      else None)"

definition go_Parse :: "string \<Rightarrow> string \<Rightarrow> error + gtime" where
  "go_Parse layout s =
     (if layout \<noteq> time_RFC3339 then Inl (LibError ''time.Parse: layout not modelled'')
      else if length s < 19 then Inl (LibError ''time.Parse: cannot parse'')
      else if \<not> (s ! 4 = CHR ''-'' \<and> s ! 7 = CHR ''-'' \<and> s ! 10 = CHR ''T''
                \<and> s ! 13 = CHR '':'' \<and> s ! 16 = CHR '':'')
      then Inl (LibError ''time.Parse: cannot parse'')
      else
        (case (go_number (take 4 s) 0 9999, go_number (take 2 (drop 5 s)) 1 12) of
           (Some y, Some mo) \<Rightarrow>
             (case (go_number (take 2 (drop 8 s)) 1 (go_daysIn mo y),
                    go_number (take 2 (drop 11 s)) 0 23,
                    go_number (take 2 (drop 14 s)) 0 59,
                    go_number (take 2 (drop 17 s)) 0 59) of
                (Some d, Some h, Some mi, Some sec) \<Rightarrow>
                  (let rest = drop 19 s;
                       frac = (if length rest \<ge> 2 \<and> hd rest = CHR ''.'' \<and> go_isDigit (rest ! 1)
                               then takeWhile go_isDigit (tl rest) else []);
                       ns = (if frac = [] then 0
                             else foldl (\<lambda>n c. n * 10 + (of_char c - 48)) 0
                                    (take 9 (frac @ ''000000000'')));
                       z = (if frac = [] then rest else drop (Suc (length frac)) rest)
                   in case go_zone z of
                        None \<Rightarrow> Inl (LibError ''time.Parse: cannot parse'')
                      | Some off \<Rightarrow> Inr (Time (go_unixDate y mo d h mi sec - off) ns off))
              | _ \<Rightarrow> Inl (LibError ''time.Parse: cannot parse''))
         | _ \<Rightarrow> Inl (LibError ''time.Parse: cannot parse'')))"

definition golib :: stdlib where
  "golib =
     \<lparr>strconv_IntSize = 64,
      strconv_ParseBool = go_ParseBool,
      strconv_ParseInt = go_ParseInt,
      strconv_ParseUint = go_ParseUint,
      strconv_ParseFloat = go_ParseFloat,
      float32_conv = go_float32,
      time_ParseDuration = go_ParseDuration,
      time_Parse = go_Parse,
      strings_ToUpper = go_ToUpper,
      strings_ToLower = go_ToLower\<rparr>"


subsection \<open>Notions of the specification\<close>

text \<open>
  The definitions of this subsection do not come from the code. They put the words of
  the specification into HOL, so that the functions above can be compared with them.
\<close>

text \<open>The three directive families, and for each its name, its two result fields and
  the text that the error for an empty value carries.\<close>

datatype family = FamEnv | FamFlag | FamDefault

fun bare :: "family \<Rightarrow> string" where
  "bare FamEnv = ''env''"
| "bare FamFlag = ''flag''"
| "bare FamDefault = ''default''"

definition withValue :: "family \<Rightarrow> string" where
  "withValue fam = bare fam @ ''=''"

fun has :: "family \<Rightarrow> tagInfo \<Rightarrow> bool" where
  "has FamEnv t = hasENV t"
| "has FamFlag t = hasFlag t"
| "has FamDefault t = hasDefault t"

fun explicit :: "family \<Rightarrow> tagInfo \<Rightarrow> string" where
  "explicit FamEnv t = env t"
| "explicit FamFlag t = flag t"
| "explicit FamDefault t = defVal t"

fun acceptedForms :: "family \<Rightarrow> string" where
  "acceptedForms FamEnv = '', either `env` or `env=ENV_KEY` is valid''"
| "acceptedForms FamFlag = '', either `flag` or `flag=flag-key` is valid''"
| "acceptedForms FamDefault = '', either `default` or `default=value` is valid''"

text \<open>A token is malformed when it is the \<open>=VALUE\<close> form of a family with an empty value.\<close>

definition malformed :: "string \<Rightarrow> bool" where
  "malformed s \<longleftrightarrow> s = ''env='' \<or> s = ''flag='' \<or> s = ''default=''"

text \<open>The value of the last token of a list that has the \<open>=VALUE\<close> form of the family,
  empty if there is none.\<close>

definition lastExplicit :: "family \<Rightarrow> string list \<Rightarrow> string" where
  "lastExplicit fam toks =
     (case find (\<lambda>s. strings_HasPrefix s (withValue fam)) (rev toks) of
        None \<Rightarrow> []
      | Some s \<Rightarrow> strings_TrimPrefix s (withValue fam))"

text \<open>The field \<open>f\<close> with the annotation string \<open>a\<close> under the key \<open>config\<close>.\<close>

definition annotated :: "structField \<Rightarrow> string \<Rightarrow> structField" where
  "annotated f a = StructField (sfName f) (sfType f) [(tagName, a)] (sfAnonymous f) (sfExported f)"

text \<open>The nesting path of a descriptor: the names from the outermost parent down to the
  descriptor itself. Joining a list of names with a separator.\<close>

fun nestingPath :: "fieldInfo \<Rightarrow> string list" where
  "nestingPath (FieldInfo par fld v tg) =
     (case par of None \<Rightarrow> [] | Some p \<Rightarrow> nestingPath p) @ [sfName fld]"

fun joined :: "string \<Rightarrow> string list \<Rightarrow> string" where
  "joined sep [] = []"
| "joined sep (x # xs) = x @ concat (map (\<lambda>y. sep @ y) xs)"

text \<open>A pointer type of \<open>n\<close> levels over \<open>T\<close>, and \<open>n\<close> non-nil pointers over a content.\<close>

definition ptrs :: "nat \<Rightarrow> gtype \<Rightarrow> gtype" where
  "ptrs n T = (TPtr ^^ n) T"

definition refs :: "nat \<Rightarrow> gval \<Rightarrow> gval" where
  "refs n v = (VRef ^^ n) v"

text \<open>The result of a walk with the content it returns put behind something.\<close>

definition behind ::
    "('a \<Rightarrow> 'b) \<Rightarrow> error + ('a \<times> fieldInfo list) \<Rightarrow> error + ('b \<times> fieldInfo list)" where
  "behind g r = (case r of Inl err \<Rightarrow> Inl err | Inr (v, fis) \<Rightarrow> Inr (g v, fis))"

text \<open>Two walks one after the other, as the loop over the fields runs them.\<close>

definition andThen ::
    "error + ('a list \<times> fieldInfo list) \<Rightarrow> error + ('a list \<times> fieldInfo list)
       \<Rightarrow> error + ('a list \<times> fieldInfo list)" where
  "andThen r1 r2 =
     (case r1 of
        Inl err \<Rightarrow> Inl err
      | Inr (vs1, fis1) \<Rightarrow>
          (case r2 of Inl err \<Rightarrow> Inl err | Inr (vs2, fis2) \<Rightarrow> Inr (vs1 @ vs2, fis1 @ fis2)))"


text \<open>What one well-formed token does to the directive set: the turn of the loop of
  \<open>parseTag\<close> with the error branches left out.\<close>

definition directive :: "tagInfo \<Rightarrow> string \<Rightarrow> tagInfo" where
  "directive t s =
     (if strings_HasPrefix s envFlagWithValue
        then t\<lparr>hasENV := True, env := strings_TrimPrefix s envFlagWithValue\<rparr>
      else if strings_HasPrefix s envFlag then t\<lparr>hasENV := True\<rparr>
      else if strings_HasPrefix s flagFlagWithValue
        then t\<lparr>hasFlag := True, flag := strings_TrimPrefix s flagFlagWithValue\<rparr>
      else if strings_HasPrefix s flagFlag then t\<lparr>hasFlag := True\<rparr>
      else if strings_HasPrefix s defaultFlagWithValue
        then t\<lparr>hasDefault := True, defVal := strings_TrimPrefix s defaultFlagWithValue\<rparr>
      else if strings_HasPrefix s defaultFlag then t\<lparr>hasDefault := True\<rparr>
      else t)"

subsection \<open>Example inputs\<close>

text \<open>An exported field \<open>Port int\<close> with the annotation \<open>a\<close>.\<close>

definition exampleField :: "string \<Rightarrow> structField" where
  "exampleField a = StructField ''Port'' TInt [(''config'', a)] False True"

text \<open>A descriptor of a field \<open>Host\<close> inside a struct field \<open>Db\<close>, with a given directive
  set.\<close>

definition exampleParent :: fieldInfo where
  "exampleParent =
     FieldInfo None (StructField ''Db'' (TStruct []) [] False True) (TStruct [], VStruct [])
       tagInfo_zero"

definition exampleDescriptor :: "tagInfo \<Rightarrow> fieldInfo" where
  "exampleDescriptor tg =
     FieldInfo (Some exampleParent) (StructField ''Host'' TString [] False True)
       (TString, VString []) tg"

subsection \<open>Notions for the struct walker\<close>

text \<open>
  The body of the loop of \<open>getStructInfo\<close> for one field, with what it appends: the
  unexported field is skipped, the timestamp is a leaf, everything else goes through the
  pointer loop.
\<close>

definition oneField :: "fieldInfo option \<Rightarrow> structField \<Rightarrow> gval \<Rightarrow> error + (gval list \<times> fieldInfo list)" where
  "oneField par ft fv =
     (if \<not> sfExported ft then Inr ([fv], [])
      else if sfType ft = timeType \<or> sfType ft = timePtrType then
        (case getFieldInfo (sfType ft, fv) ft par of
           Inl err \<Rightarrow> Inl err
         | Inr fi \<Rightarrow> Inr ([fv], [fi]))
      else behind (\<lambda>v. [v]) (getStructInfo_field par ft (sfType ft) fv))"

text \<open>
  The contents of a flattened struct put back behind an embedded field: of the contents
  \<open>vs\<close>, the \<open>k\<close> from position \<open>i\<close> on become the one content \<open>g\<close> of them.
\<close>

definition regroup ::
    "nat \<Rightarrow> nat \<Rightarrow> (gval list \<Rightarrow> gval) \<Rightarrow> error + (gval list \<times> fieldInfo list)
       \<Rightarrow> error + (gval list \<times> fieldInfo list)" where
  "regroup i k g r = behind (\<lambda>vs. take i vs @ g (take k (drop i vs)) # drop (i + k) vs) r"

text \<open>
  The struct as a walk leaves it, in the words of the specification: in every exported
  field that is no timestamp and no pointer to one, a nil pointer to a struct is replaced
  by a pointer to a new zero value, walked in turn; a nil pointer to anything else and
  every other content stay as they are.
\<close>

fun vivified :: "gtype \<Rightarrow> gval \<Rightarrow> gval"
and vivified_fields :: "structField list \<Rightarrow> gval list \<Rightarrow> gval list" where
  "vivified (TPtr E) v =
     (case v of
        VNil \<Rightarrow> (if Kind E = KStruct then VRef (vivified E (zero E)) else VNil)
      | VRef u \<Rightarrow> VRef (vivified E u)
      | _ \<Rightarrow> v)"
| "vivified (TStruct fts) v =
     (case v of VStruct fvs \<Rightarrow> VStruct (vivified_fields fts fvs) | _ \<Rightarrow> v)"
| "vivified T v = v"
| "vivified_fields (StructField n T tg an ex # fts) (fv # fvs) =
     (if \<not> ex \<or> T = timeType \<or> T = timePtrType then fv else vivified T fv)
       # vivified_fields fts fvs"
| "vivified_fields fts fvs = fvs"

text \<open>
  Example structs for the walker. \<open>exConfig\<close> is
  \<^verbatim>\<open>struct { hidden *Inner; When *time.Time `config:"env"`; Sub *Inner;
           Count *int `config:"flag"`; PP **Inner }\<close>
  with \<^verbatim>\<open>Inner = struct { X int `config:"env"`; Deep *Leaf }\<close> and
  \<^verbatim>\<open>Leaf = struct { Y string `config:"env"` }\<close>. \<open>exTime\<close> is an embedded \<open>time.Time\<close>,
  \<open>exBase\<close> an embedded struct of an unexported type, \<open>exEmbedded\<close> and \<open>exEmbeddedPtr\<close>
  an embedded exported struct, by value and by pointer, and \<open>exMalformed\<close> the same
  with the annotation \<^verbatim>\<open>`config:"env="`\<close>; each of these structs has the one field
  \<^verbatim>\<open>Name string `config:"env"`\<close>.
\<close>

definition envTag :: tagInfo where "envTag = tagInfo_zero\<lparr>hasENV := True\<rparr>"
definition flagTag :: tagInfo where "flagTag = tagInfo_zero\<lparr>hasFlag := True\<rparr>"

definition exY :: structField where
  "exY = StructField ''Y'' TString [(''config'', ''env'')] False True"
definition exLeaf :: gtype where "exLeaf = TStruct [exY]"
definition exX :: structField where
  "exX = StructField ''X'' TInt [(''config'', ''env'')] False True"
definition exDeep :: structField where
  "exDeep = StructField ''Deep'' (TPtr exLeaf) [] False True"
definition exInner :: gtype where "exInner = TStruct [exX, exDeep]"
definition exHidden :: structField where
  "exHidden = StructField ''hidden'' (TPtr exInner) [] False False"
definition exWhen :: structField where
  "exWhen = StructField ''When'' (TPtr TTime) [(''config'', ''env'')] False True"
definition exSub :: structField where
  "exSub = StructField ''Sub'' (TPtr exInner) [] False True"
definition exCount :: structField where
  "exCount = StructField ''Count'' (TPtr TInt) [(''config'', ''flag'')] False True"
definition exPP :: structField where
  "exPP = StructField ''PP'' (TPtr (TPtr exInner)) [] False True"
definition exConfig :: gtype where
  "exConfig = TStruct [exHidden, exWhen, exSub, exCount, exPP]"
definition exSubInfo :: fieldInfo where
  "exSubInfo = FieldInfo None exSub (exInner, VStruct [VInt 0, VNil]) tagInfo_zero"
definition exDeepInfo :: fieldInfo where
  "exDeepInfo = FieldInfo (Some exSubInfo) exDeep (exLeaf, VStruct [VString []]) tagInfo_zero"

definition exName :: structField where
  "exName = StructField ''Name'' TString [(''config'', ''env'')] False True"
definition exBase :: structField where
  "exBase = StructField ''base'' (TStruct [exName]) [] True False"
definition exTime :: structField where
  "exTime = StructField ''Time'' TTime [(''config'', ''env'')] True True"
definition exEmbedded :: structField where
  "exEmbedded = StructField ''Base'' (TStruct [exName]) [] True True"
definition exEmbeddedPtr :: structField where
  "exEmbeddedPtr = StructField ''Base'' (TPtr (TStruct [exName])) [] True True"
definition exPort :: structField where
  "exPort = StructField ''Port'' TInt [(''config'', ''flag'')] False True"
definition exMalformed :: structField where
  "exMalformed = StructField ''Base'' (TStruct [exName]) [(''config'', ''env='')] True True"


section \<open>The tag parser\<close>

subsection \<open>Prefixes and the three directive parsers\<close>

lemma HasPrefix_iff: "strings_HasPrefix s p \<longleftrightarrow> (\<exists>v. s = p @ v)"
  unfolding strings_HasPrefix_def
  by (metis append_eq_conv_conj append_take_drop_id length_append le_add1)

lemma TrimPrefix_append [simp]: "strings_TrimPrefix (p @ v) p = v"
  by (simp add: strings_TrimPrefix_def strings_HasPrefix_def)

lemma HasPrefix_append [simp]: "strings_HasPrefix (p @ v) p"
  by (simp add: HasPrefix_iff)

lemma HasPrefix_refl [simp]: "strings_HasPrefix s s"
  by (simp add: strings_HasPrefix_def)

lemma families_disjoint:
  "strings_HasPrefix s envFlag \<Longrightarrow> \<not> strings_HasPrefix s flagFlag"
  "strings_HasPrefix s envFlag \<Longrightarrow> \<not> strings_HasPrefix s defaultFlag"
  "strings_HasPrefix s flagFlag \<Longrightarrow> \<not> strings_HasPrefix s defaultFlag"
  by (auto simp: HasPrefix_iff envFlag_def flagFlag_def defaultFlag_def)

lemma withValue_bare:
  "strings_HasPrefix s envFlagWithValue \<Longrightarrow> strings_HasPrefix s envFlag"
  "strings_HasPrefix s flagFlagWithValue \<Longrightarrow> strings_HasPrefix s flagFlag"
  "strings_HasPrefix s defaultFlagWithValue \<Longrightarrow> strings_HasPrefix s defaultFlag"
  by (auto simp: HasPrefix_iff envFlag_def flagFlag_def defaultFlag_def
      envFlagWithValue_def flagFlagWithValue_def defaultFlagWithValue_def)

lemma parseENV_eq:
  "parseENV f t s =
     (if strings_HasPrefix s envFlagWithValue
      then (t\<lparr>hasENV := True, env := strings_TrimPrefix s envFlagWithValue\<rparr>,
            if s = envFlagWithValue
            then Some (Wrap [] ErrInvalidTagFormat (acceptedForms FamEnv)) else None)
      else (t\<lparr>hasENV := True\<rparr>, None))"
proof (cases "strings_HasPrefix s envFlagWithValue")
  case True
  then obtain v where "s = envFlagWithValue @ v" by (auto simp: HasPrefix_iff)
  then show ?thesis by (simp add: parseENV_def Let_def)
next
  case False
  then show ?thesis by (simp add: parseENV_def Let_def)
qed

lemma parseFlag_eq:
  "parseFlag f t s =
     (if strings_HasPrefix s flagFlagWithValue
      then (t\<lparr>hasFlag := True, flag := strings_TrimPrefix s flagFlagWithValue\<rparr>,
            if s = flagFlagWithValue
            then Some (Wrap [] ErrInvalidTagFormat (acceptedForms FamFlag)) else None)
      else (t\<lparr>hasFlag := True\<rparr>, None))"
proof (cases "strings_HasPrefix s flagFlagWithValue")
  case True
  then obtain v where "s = flagFlagWithValue @ v" by (auto simp: HasPrefix_iff)
  then show ?thesis by (simp add: parseFlag_def Let_def)
next
  case False
  then show ?thesis by (simp add: parseFlag_def Let_def)
qed

lemma parseDefault_eq:
  "parseDefault f t s =
     (if strings_HasPrefix s defaultFlagWithValue
      then (t\<lparr>hasDefault := True, defVal := strings_TrimPrefix s defaultFlagWithValue\<rparr>,
            if s = defaultFlagWithValue
            then Some (Wrap [] ErrInvalidTagFormat (acceptedForms FamDefault)) else None)
      else (t\<lparr>hasDefault := True\<rparr>, None))"
proof (cases "strings_HasPrefix s defaultFlagWithValue")
  case True
  then obtain v where "s = defaultFlagWithValue @ v" by (auto simp: HasPrefix_iff)
  then show ?thesis by (simp add: parseDefault_def Let_def)
next
  case False
  then show ?thesis by (simp add: parseDefault_def Let_def)
qed

lemma find_append_cases:
  "find P (xs @ ys) = (case find P xs of None \<Rightarrow> find P ys | Some x \<Rightarrow> Some x)"
  by (induction xs) auto


lemma loop_env_value:
  "strings_HasPrefix s envFlagWithValue \<Longrightarrow> s \<noteq> envFlagWithValue \<Longrightarrow>
   parseTag_loop f t (s # tags) =
   parseTag_loop f (t\<lparr>hasENV := True, env := strings_TrimPrefix s envFlagWithValue\<rparr>) tags"
  by (simp add: parseENV_eq withValue_bare)

lemma loop_env_bare:
  "strings_HasPrefix s envFlag \<Longrightarrow> \<not> strings_HasPrefix s envFlagWithValue \<Longrightarrow>
   parseTag_loop f t (s # tags) = parseTag_loop f (t\<lparr>hasENV := True\<rparr>) tags"
  by (simp add: parseENV_eq)

lemma loop_env_empty:
  "parseTag_loop f t (envFlagWithValue # tags) =
   Inl (Wrap [] ErrInvalidTagFormat (acceptedForms FamEnv))"
  using withValue_bare(1)[of envFlagWithValue] by (simp add: parseENV_eq)

lemma loop_flag_value:
  "strings_HasPrefix s flagFlagWithValue \<Longrightarrow> s \<noteq> flagFlagWithValue \<Longrightarrow>
   parseTag_loop f t (s # tags) =
   parseTag_loop f (t\<lparr>hasFlag := True, flag := strings_TrimPrefix s flagFlagWithValue\<rparr>) tags"
  using families_disjoint(1)[of s] by (auto simp: parseFlag_eq withValue_bare)

lemma loop_flag_bare:
  "strings_HasPrefix s flagFlag \<Longrightarrow> \<not> strings_HasPrefix s flagFlagWithValue \<Longrightarrow>
   parseTag_loop f t (s # tags) = parseTag_loop f (t\<lparr>hasFlag := True\<rparr>) tags"
  using families_disjoint(1)[of s] by (auto simp: parseFlag_eq)

lemma loop_flag_empty:
  "parseTag_loop f t (flagFlagWithValue # tags) =
   Inl (Wrap [] ErrInvalidTagFormat (acceptedForms FamFlag))"
  using families_disjoint(1)[of flagFlagWithValue] withValue_bare(2)[of flagFlagWithValue]
  by (auto simp: parseFlag_eq)

lemma loop_default_value:
  "strings_HasPrefix s defaultFlagWithValue \<Longrightarrow> s \<noteq> defaultFlagWithValue \<Longrightarrow>
   parseTag_loop f t (s # tags) =
   parseTag_loop f (t\<lparr>hasDefault := True, defVal := strings_TrimPrefix s defaultFlagWithValue\<rparr>) tags"
  using families_disjoint(2,3)[of s] by (auto simp: parseDefault_eq withValue_bare)

lemma loop_default_bare:
  "strings_HasPrefix s defaultFlag \<Longrightarrow> \<not> strings_HasPrefix s defaultFlagWithValue \<Longrightarrow>
   parseTag_loop f t (s # tags) = parseTag_loop f (t\<lparr>hasDefault := True\<rparr>) tags"
  using families_disjoint(2,3)[of s] by (auto simp: parseDefault_eq)

lemma loop_default_empty:
  "parseTag_loop f t (defaultFlagWithValue # tags) =
   Inl (Wrap [] ErrInvalidTagFormat (acceptedForms FamDefault))"
  using families_disjoint(2,3)[of defaultFlagWithValue] withValue_bare(3)[of defaultFlagWithValue]
  by (auto simp: parseDefault_eq)

lemma loop_other:
  "\<not> strings_HasPrefix s envFlag \<Longrightarrow> \<not> strings_HasPrefix s flagFlag \<Longrightarrow>
   \<not> strings_HasPrefix s defaultFlag \<Longrightarrow>
   parseTag_loop f t (s # tags) = parseTag_loop f t tags"
  by simp

lemma token_cases [case_names EnvV EnvB FlagV FlagB DefV DefB Other]:
  obtains
    "strings_HasPrefix s envFlagWithValue" "strings_HasPrefix s envFlag"
      "\<not> strings_HasPrefix s flagFlagWithValue" "\<not> strings_HasPrefix s flagFlag"
      "\<not> strings_HasPrefix s defaultFlagWithValue" "\<not> strings_HasPrefix s defaultFlag"
  | "\<not> strings_HasPrefix s envFlagWithValue" "strings_HasPrefix s envFlag"
      "\<not> strings_HasPrefix s flagFlagWithValue" "\<not> strings_HasPrefix s flagFlag"
      "\<not> strings_HasPrefix s defaultFlagWithValue" "\<not> strings_HasPrefix s defaultFlag"
  | "\<not> strings_HasPrefix s envFlagWithValue" "\<not> strings_HasPrefix s envFlag"
      "strings_HasPrefix s flagFlagWithValue" "strings_HasPrefix s flagFlag"
      "\<not> strings_HasPrefix s defaultFlagWithValue" "\<not> strings_HasPrefix s defaultFlag"
  | "\<not> strings_HasPrefix s envFlagWithValue" "\<not> strings_HasPrefix s envFlag"
      "\<not> strings_HasPrefix s flagFlagWithValue" "strings_HasPrefix s flagFlag"
      "\<not> strings_HasPrefix s defaultFlagWithValue" "\<not> strings_HasPrefix s defaultFlag"
  | "\<not> strings_HasPrefix s envFlagWithValue" "\<not> strings_HasPrefix s envFlag"
      "\<not> strings_HasPrefix s flagFlagWithValue" "\<not> strings_HasPrefix s flagFlag"
      "strings_HasPrefix s defaultFlagWithValue" "strings_HasPrefix s defaultFlag"
  | "\<not> strings_HasPrefix s envFlagWithValue" "\<not> strings_HasPrefix s envFlag"
      "\<not> strings_HasPrefix s flagFlagWithValue" "\<not> strings_HasPrefix s flagFlag"
      "\<not> strings_HasPrefix s defaultFlagWithValue" "strings_HasPrefix s defaultFlag"
  | "\<not> strings_HasPrefix s envFlagWithValue" "\<not> strings_HasPrefix s envFlag"
      "\<not> strings_HasPrefix s flagFlagWithValue" "\<not> strings_HasPrefix s flagFlag"
      "\<not> strings_HasPrefix s defaultFlagWithValue" "\<not> strings_HasPrefix s defaultFlag"
proof -
  note d = families_disjoint[of s] and w = withValue_bare[of s]
  show thesis
  proof (cases "strings_HasPrefix s envFlag")
    case True
    with d w have n: "\<not> strings_HasPrefix s flagFlagWithValue" "\<not> strings_HasPrefix s flagFlag"
      "\<not> strings_HasPrefix s defaultFlagWithValue" "\<not> strings_HasPrefix s defaultFlag"
      by blast+
    show thesis
    proof (cases "strings_HasPrefix s envFlagWithValue")
      case True
      from True \<open>strings_HasPrefix s envFlag\<close> n show thesis by (rule that(1))
    next
      case False
      from False \<open>strings_HasPrefix s envFlag\<close> n show thesis by (rule that(2))
    qed
  next
    case noenv: False
    with w have nov: "\<not> strings_HasPrefix s envFlagWithValue" by blast
    show thesis
    proof (cases "strings_HasPrefix s flagFlag")
      case True
      with d w have n: "\<not> strings_HasPrefix s defaultFlagWithValue"
        "\<not> strings_HasPrefix s defaultFlag"
        by blast+
      show thesis
      proof (cases "strings_HasPrefix s flagFlagWithValue")
        case True
        from nov noenv True \<open>strings_HasPrefix s flagFlag\<close> n show thesis by (rule that(3))
      next
        case False
        from nov noenv False \<open>strings_HasPrefix s flagFlag\<close> n show thesis by (rule that(4))
      qed
    next
      case noflag: False
      with w have nofv: "\<not> strings_HasPrefix s flagFlagWithValue" by blast
      show thesis
      proof (cases "strings_HasPrefix s defaultFlag")
        case True
        show thesis
        proof (cases "strings_HasPrefix s defaultFlagWithValue")
          case True
          from nov noenv nofv noflag True \<open>strings_HasPrefix s defaultFlag\<close>
          show thesis by (rule that(5))
        next
          case False
          from nov noenv nofv noflag False \<open>strings_HasPrefix s defaultFlag\<close>
          show thesis by (rule that(6))
        qed
      next
        case False
        with w have "\<not> strings_HasPrefix s defaultFlagWithValue" by blast
        from nov noenv nofv noflag this False show thesis by (rule that(7))
      qed
    qed
  qed
qed



lemma parseTag_loop_step:
  assumes "\<not> malformed s"
  shows "parseTag_loop f t (s # toks) = parseTag_loop f (directive t s) toks"
proof -
  from assms have wf: "s \<noteq> envFlagWithValue" "s \<noteq> flagFlagWithValue" "s \<noteq> defaultFlagWithValue"
    by (auto simp: malformed_def envFlagWithValue_def flagFlagWithValue_def defaultFlagWithValue_def)
  show ?thesis
  proof (cases s rule: token_cases)
    case EnvV
    then show ?thesis using wf
      by (simp only: loop_env_value directive_def if_True simp_thms)
  next
    case EnvB
    then show ?thesis
      by (simp only: loop_env_bare directive_def if_True if_False simp_thms)
  next
    case FlagV
    then show ?thesis using wf
      by (simp only: loop_flag_value directive_def if_True if_False simp_thms)
  next
    case FlagB
    then show ?thesis
      by (simp only: loop_flag_bare directive_def if_True if_False simp_thms)
  next
    case DefV
    then show ?thesis using wf
      by (simp only: loop_default_value directive_def if_True if_False simp_thms)
  next
    case DefB
    then show ?thesis
      by (simp only: loop_default_bare directive_def if_True if_False simp_thms)
  next
    case Other
    then show ?thesis
      by (simp only: loop_other directive_def if_True if_False simp_thms)
  qed
qed

lemma parseTag_loop_wellformed:
  "\<forall>s\<in>set toks. \<not> malformed s \<Longrightarrow> parseTag_loop f t toks = Inr (foldl directive t toks)"
proof (induction toks arbitrary: t)
  case Nil
  then show ?case by simp
next
  case (Cons s toks)
  from Cons.prems have s: "\<not> malformed s" and rest: "\<forall>s\<in>set toks. \<not> malformed s"
    by simp_all
  show ?case using Cons.IH[OF rest] by (simp only: parseTag_loop_step[OF s] foldl_Cons)
qed

lemma withValue_simps [simp]:
  "withValue FamEnv = envFlagWithValue"
  "withValue FamFlag = flagFlagWithValue"
  "withValue FamDefault = defaultFlagWithValue"
  by (simp_all add: withValue_def envFlagWithValue_def flagFlagWithValue_def
      defaultFlagWithValue_def)

lemma bare_simps [simp]:
  "bare FamEnv = envFlag"
  "bare FamFlag = flagFlag"
  "bare FamDefault = defaultFlag"
  by (simp_all add: envFlag_def flagFlag_def defaultFlag_def)

lemma has_directive:
  "has fam (directive t s) \<longleftrightarrow> has fam t \<or> strings_HasPrefix s (bare fam)"
  by (cases s rule: token_cases; cases fam) (simp_all add: directive_def del: bare.simps)

lemma explicit_directive:
  "explicit fam (directive t s) =
     (if strings_HasPrefix s (withValue fam) then strings_TrimPrefix s (withValue fam)
      else explicit fam t)"
  by (cases s rule: token_cases; cases fam) (simp_all add: directive_def)

lemma has_fold:
  "has fam (foldl directive t toks) \<longleftrightarrow>
     has fam t \<or> (\<exists>s\<in>set toks. strings_HasPrefix s (bare fam))"
  by (induction toks rule: rev_induct) (auto simp: has_directive simp del: bare.simps bare_simps)

lemma explicit_fold:
  "explicit fam (foldl directive t toks) =
     (case find (\<lambda>s. strings_HasPrefix s (withValue fam)) (rev toks) of
        None \<Rightarrow> explicit fam t
      | Some s \<Rightarrow> strings_TrimPrefix s (withValue fam))"
  by (induction toks rule: rev_induct) (simp_all add: explicit_directive del: withValue_simps)

subsection \<open>Splitting the annotation\<close>

lemma Split_not_Nil [simp]: "strings_Split s sep \<noteq> []"
  by (induction s) (auto split: list.splits)

lemma Split_no_sep: "x \<in> set (strings_Split s sep) \<Longrightarrow> sep \<notin> set x"
  by (induction s arbitrary: x) (auto split: list.splits if_splits)

lemma Split_single: "sep \<notin> set s \<Longrightarrow> strings_Split s sep = [s]"
  by (induction s) auto

lemma Tag_Get_annotated [simp]: "Tag_Get (annotated f a) tagName = a"
  by (simp add: Tag_Get_def annotated_def)

lemma parseTag_loop_append:
  "parseTag_loop f t (xs @ zs) =
     (case parseTag_loop f t xs of Inl err \<Rightarrow> Inl err | Inr t' \<Rightarrow> parseTag_loop f t' zs)"
  by (induction xs arbitrary: t) (simp_all split: prod.splits option.splits)

lemma parseTag_token_alone:
  assumes "s \<in> set (strings_Split a tagSeparator)" "\<not> malformed s"
  shows "parseTag (annotated f s) = Inr (directive tagInfo_zero s)"
proof -
  have "strings_Split s tagSeparator = [s]"
    using assms(1) by (intro Split_single) (rule Split_no_sep)
  then show ?thesis
    using parseTag_loop_wellformed[of "[s]" "annotated f s" tagInfo_zero] assms(2)
    by (simp add: parseTag_def del: parseTag_loop.simps)
qed

lemma withValue_imp_bare:
  "strings_HasPrefix s (withValue fam) \<Longrightarrow> strings_HasPrefix s (bare fam)"
  by (cases fam) (simp_all add: withValue_bare del: bare.simps)

lemma find_last_occurrence:
  assumes "\<forall>y\<in>set ys. \<not> P y"
  shows "find P (rev (xs @ s # ys)) = (if P s then Some s else find P (rev xs))"
proof -
  have "find P (rev ys) = None" using assms by (simp add: find_None_iff)
  then show ?thesis by (simp add: find_append_cases)
qed

lemma bare_disjoint:
  "strings_HasPrefix s (bare fam) \<Longrightarrow> g \<noteq> fam \<Longrightarrow> \<not> strings_HasPrefix s (bare g)"
  using families_disjoint[of s] by (cases fam; cases g) (auto simp del: bare.simps)

lemma malformed_bare:
  "strings_HasPrefix s (bare fam) \<Longrightarrow> malformed s \<Longrightarrow> s = withValue fam"
  using families_disjoint[of s]
  by (cases fam)
     (auto simp: malformed_def strings_HasPrefix_def envFlag_def flagFlag_def defaultFlag_def
                 envFlagWithValue_def flagFlagWithValue_def defaultFlagWithValue_def
           simp del: bare.simps)

lemma loop_family_empty:
  "parseTag_loop f t (withValue fam # toks) =
     Inl (Wrap [] ErrInvalidTagFormat (acceptedForms fam))"
  by (cases fam) (simp_all only: withValue_simps loop_env_empty loop_flag_empty loop_default_empty)

text \<open>The definitions that evaluate the tag parser on a concrete annotation.\<close>

lemmas tag_eval =
  parseTag_def Tag_Get_def exampleField_def tagName_def tagSeparator_def
  strings_HasPrefix_def strings_TrimPrefix_def
  envFlag_def envFlagWithValue_def flagFlag_def flagFlagWithValue_def
  defaultFlag_def defaultFlagWithValue_def
  parseENV_def parseFlag_def parseDefault_def tagInfo_zero_def Let_def

subsection \<open>Claim C3: the last occurrence of a family\<close>

text \<open>
  Claim C3 says that when a family appears more than once, the result for the family is
  what the last occurrence alone would produce, the empty value of the bare form
  included. The annotation \<open>env=FOO,env\<close> shows otherwise: its last occurrence of the
  env family is the bare \<open>env\<close>, which alone leaves the explicit value empty, but the
  parse of the whole annotation keeps \<open>FOO\<close>. \<open>parseENV\<close> writes \<open>t.env\<close> only in the
  \<open>=VALUE\<close> branch; nothing in the bare branch clears it.
\<close>

theorem parseTag_bare_keeps_value_counterexample:
  "parseTag (exampleField ''env=FOO,env'') =
     Inr \<lparr>flag = [], hasFlag = False, env = ''FOO'', hasENV = True, defVal = [], hasDefault = False\<rparr>
   \<and> parseTag (exampleField ''env'') =
     Inr \<lparr>flag = [], hasFlag = False, env = [], hasENV = True, defVal = [], hasDefault = False\<rparr>"
  by (simp add: tag_eval)


text \<open>
  Claim C3, as amended. In an annotation with no malformed token, let \<open>s\<close> be the last
  token of a family. Parsing succeeds, and so does parsing \<open>s\<close> alone. The \<open>has\<close> boolean
  of the family is true in both results. If \<open>s\<close> has the \<open>=VALUE\<close> form, the explicit
  value is the one that \<open>s\<close> alone produces. If \<open>s\<close> is bare, then \<open>s\<close> alone produces the
  empty value, and the whole annotation produces the value of the last \<open>=VALUE\<close> token
  of the family before \<open>s\<close> (empty when there is none): a bare occurrence does not reset
  an explicit value.
\<close>

theorem parseTag_last_occurrence:
  assumes split: "strings_Split (Tag_Get f tagName) tagSeparator = xs @ s # ys"
    and occ: "strings_HasPrefix s (bare fam)"
    and last: "\<forall>y\<in>set ys. \<not> strings_HasPrefix y (bare fam)"
    and wf: "\<forall>x\<in>set (xs @ s # ys). \<not> malformed x"
  shows "\<exists>t t1. parseTag f = Inr t \<and> parseTag (annotated f s) = Inr t1
           \<and> has fam t \<and> has fam t1
           \<and> explicit fam t =
               (if strings_HasPrefix s (withValue fam) then explicit fam t1
                else lastExplicit fam xs)
           \<and> (\<not> strings_HasPrefix s (withValue fam) \<longrightarrow> explicit fam t1 = [])"
proof -
  let ?t = "foldl directive tagInfo_zero (xs @ s # ys)"
  let ?t1 = "directive tagInfo_zero s"
  have t: "parseTag f = Inr ?t"
    using parseTag_loop_wellformed[OF wf] by (simp only: parseTag_def split)
  have "s \<in> set (strings_Split (Tag_Get f tagName) tagSeparator)" "\<not> malformed s"
    using split wf by simp_all
  then have t1: "parseTag (annotated f s) = Inr ?t1" by (rule parseTag_token_alone)
  have zero: "explicit fam tagInfo_zero = []" "\<not> has fam tagInfo_zero"
    by (cases fam; simp add: tagInfo_zero_def)+
  have h: "has fam ?t" using occ by (simp only: has_fold) auto
  have h1: "has fam ?t1" using occ by (simp only: has_directive) auto
  have novalue: "\<forall>y\<in>set ys. \<not> strings_HasPrefix y (withValue fam)"
    using last withValue_imp_bare by blast
  have e1: "explicit fam ?t1 =
      (if strings_HasPrefix s (withValue fam) then strings_TrimPrefix s (withValue fam) else [])"
    by (simp only: explicit_directive zero)
  have e: "explicit fam ?t =
      (if strings_HasPrefix s (withValue fam) then strings_TrimPrefix s (withValue fam)
       else lastExplicit fam xs)"
    by (simp only: explicit_fold find_last_occurrence[OF novalue] lastExplicit_def zero)
       (simp split: option.splits)
  show ?thesis using t t1 h h1 e e1 by (intro exI[of _ ?t] exI[of _ ?t1]) simp
qed


text \<open>The theorem at the annotation \<open>env=A,flag,env\<close>, whose last env token is bare.\<close>

theorem parseTag_last_occurrence_witness:
  "strings_Split (Tag_Get (exampleField ''env=A,flag,env'') tagName) tagSeparator
      = [''env=A'', ''flag''] @ ''env'' # []
   \<and> strings_HasPrefix ''env'' (bare FamEnv)
   \<and> \<not> malformed ''env=A'' \<and> \<not> malformed ''flag'' \<and> \<not> malformed ''env''
   \<and> (\<exists>t t1. parseTag (exampleField ''env=A,flag,env'') = Inr t
         \<and> parseTag (annotated (exampleField ''env=A,flag,env'') ''env'') = Inr t1
         \<and> has FamEnv t \<and> has FamEnv t1
         \<and> explicit FamEnv t = ''A'' \<and> explicit FamEnv t1 = [])"
proof -
  let ?f = "exampleField ''env=A,flag,env''"
  have h1: "strings_Split (Tag_Get ?f tagName) tagSeparator = [''env=A'', ''flag''] @ ''env'' # []"
    by (simp add: tag_eval)
  have h2: "strings_HasPrefix ''env'' (bare FamEnv)"
    by (simp add: strings_HasPrefix_def del: bare_simps)
  have h3: "\<forall>y\<in>set []. \<not> strings_HasPrefix y (bare FamEnv)" by simp
  have h4: "\<forall>x\<in>set ([''env=A'', ''flag''] @ ''env'' # []). \<not> malformed x"
    by (simp add: malformed_def)
  have v: "\<not> strings_HasPrefix ''env'' (withValue FamEnv)"
    by (simp add: strings_HasPrefix_def withValue_def del: withValue_simps)
  have l: "lastExplicit FamEnv [''env=A'', ''flag''] = ''A''"
    by (simp add: lastExplicit_def withValue_def strings_HasPrefix_def strings_TrimPrefix_def
        del: withValue_simps)
  from parseTag_last_occurrence[OF h1 h2 h3 h4] v l h1 h2 h4 show ?thesis by auto
qed

subsection \<open>Claim C7: tokens that are no directive\<close>

text \<open>
  Claim C7 says that a token which is none of the six forms \<open>flag\<close>, \<open>flag=VALUE\<close>,
  \<open>env\<close>, \<open>env=VALUE\<close>, \<open>default\<close>, \<open>default=VALUE\<close> leaves the directive set unchanged.
  The token \<open>envoy\<close> is none of them, yet \<open>flag,envoy\<close> parses to a directive set with
  \<open>hasENV\<close>, which \<open>flag\<close> alone does not give: \<open>parseTag\<close> tells the families apart by
  \<open>strings.HasPrefix\<close> with the bare name.
\<close>

theorem parseTag_prefix_token_counterexample:
  "''envoy'' \<notin> {''flag'', ''env'', ''default''}
   \<and> \<not> strings_HasPrefix ''envoy'' ''flag='' \<and> \<not> strings_HasPrefix ''envoy'' ''env=''
   \<and> \<not> strings_HasPrefix ''envoy'' ''default=''
   \<and> parseTag (exampleField ''flag,envoy'') =
       Inr \<lparr>flag = [], hasFlag = True, env = [], hasENV = True, defVal = [], hasDefault = False\<rparr>
   \<and> parseTag (exampleField ''flag'') =
       Inr \<lparr>flag = [], hasFlag = True, env = [], hasENV = False, defVal = [], hasDefault = False\<rparr>"
  by (simp add: tag_eval)


text \<open>
  Claim C7, as amended. Let \<open>s\<close> be a token of the annotation of a field.
  \<^item> If \<open>s\<close> begins with none of \<open>env\<close>, \<open>flag\<close> and \<open>default\<close>, it is ignored: the turn
    of the loop for it leaves the directive set as it is and does not fail, so that the
    annotation parses to what it parses to without the token.
  \<^item> If \<open>s\<close> begins with the name of a family, it is taken as a directive of that
    family, whatever follows the name. The bare \<open>NAME=\<close> fails with the error of the
    family. Every other such token sets the \<open>has\<close> boolean of the family, sets the
    explicit value of the family when it has the form \<open>NAME=VALUE\<close> and leaves it
    otherwise, and leaves the other two families as they are.
  \<^item> So an annotation without a malformed token parses, and a family is present in
    the result exactly when some token begins with the name of the family.
\<close>

theorem parseTag_dispatch_by_prefix:
  assumes split: "strings_Split (Tag_Get f tagName) tagSeparator = xs @ s # ys"
  shows "(\<not> strings_HasPrefix s envFlag \<and> \<not> strings_HasPrefix s flagFlag
            \<and> \<not> strings_HasPrefix s defaultFlag \<longrightarrow>
            parseTag f = parseTag_loop f tagInfo_zero (xs @ ys)
          \<and> (\<forall>t. parseTag_loop f t (s # ys) = parseTag_loop f t ys))
       \<and> (\<forall>fam t. strings_HasPrefix s (bare fam) \<longrightarrow>
            (if s = withValue fam
             then parseTag_loop f t (s # ys) =
                    Inl (Wrap [] ErrInvalidTagFormat (acceptedForms fam))
             else (\<exists>t'. parseTag_loop f t (s # ys) = parseTag_loop f t' ys
                     \<and> has fam t'
                     \<and> explicit fam t' =
                         (if strings_HasPrefix s (withValue fam)
                          then strings_TrimPrefix s (withValue fam) else explicit fam t)
                     \<and> (\<forall>g. g \<noteq> fam \<longrightarrow> has g t' = has g t \<and> explicit g t' = explicit g t))))
       \<and> ((\<forall>x\<in>set (xs @ s # ys). \<not> malformed x) \<longrightarrow>
            (\<exists>tg. parseTag f = Inr tg
                \<and> (\<forall>fam. has fam tg \<longleftrightarrow>
                       (\<exists>x\<in>set (xs @ s # ys). strings_HasPrefix x (bare fam)))))"
proof (intro conjI)
  show "\<not> strings_HasPrefix s envFlag \<and> \<not> strings_HasPrefix s flagFlag
            \<and> \<not> strings_HasPrefix s defaultFlag \<longrightarrow>
            parseTag f = parseTag_loop f tagInfo_zero (xs @ ys)
          \<and> (\<forall>t. parseTag_loop f t (s # ys) = parseTag_loop f t ys)"
  proof
    assume no: "\<not> strings_HasPrefix s envFlag \<and> \<not> strings_HasPrefix s flagFlag
            \<and> \<not> strings_HasPrefix s defaultFlag"
    have step: "parseTag_loop f t (s # ys) = parseTag_loop f t ys" for t
      using no by (intro loop_other) blast+
    have "parseTag f = parseTag_loop f tagInfo_zero (xs @ s # ys)"
      by (simp only: parseTag_def split)
    also have "\<dots> = parseTag_loop f tagInfo_zero (xs @ ys)"
      by (simp only: parseTag_loop_append[of f _ xs] step)
    finally show "parseTag f = parseTag_loop f tagInfo_zero (xs @ ys)
          \<and> (\<forall>t. parseTag_loop f t (s # ys) = parseTag_loop f t ys)"
      using step by blast
  qed
next
  show "\<forall>fam t. strings_HasPrefix s (bare fam) \<longrightarrow>
            (if s = withValue fam
             then parseTag_loop f t (s # ys) =
                    Inl (Wrap [] ErrInvalidTagFormat (acceptedForms fam))
             else (\<exists>t'. parseTag_loop f t (s # ys) = parseTag_loop f t' ys
                     \<and> has fam t'
                     \<and> explicit fam t' =
                         (if strings_HasPrefix s (withValue fam)
                          then strings_TrimPrefix s (withValue fam) else explicit fam t)
                     \<and> (\<forall>g. g \<noteq> fam \<longrightarrow> has g t' = has g t \<and> explicit g t' = explicit g t)))"
  proof (intro allI impI)
    fix fam t
    assume pre: "strings_HasPrefix s (bare fam)"
    show "if s = withValue fam
             then parseTag_loop f t (s # ys) =
                    Inl (Wrap [] ErrInvalidTagFormat (acceptedForms fam))
             else (\<exists>t'. parseTag_loop f t (s # ys) = parseTag_loop f t' ys
                     \<and> has fam t'
                     \<and> explicit fam t' =
                         (if strings_HasPrefix s (withValue fam)
                          then strings_TrimPrefix s (withValue fam) else explicit fam t)
                     \<and> (\<forall>g. g \<noteq> fam \<longrightarrow> has g t' = has g t \<and> explicit g t' = explicit g t))"
    proof (cases "s = withValue fam")
      case True
      then show ?thesis by (simp only: loop_family_empty if_True simp_thms)
    next
      case False
      with pre have wf: "\<not> malformed s" using malformed_bare by blast
      let ?t = "directive t s"
      have 1: "parseTag_loop f t (s # ys) = parseTag_loop f ?t ys"
        using wf by (rule parseTag_loop_step)
      have 2: "has fam ?t" using pre by (simp only: has_directive simp_thms)
      have 3: "explicit fam ?t =
                 (if strings_HasPrefix s (withValue fam)
                  then strings_TrimPrefix s (withValue fam) else explicit fam t)"
        by (rule explicit_directive)
      have 4: "has g ?t = has g t \<and> explicit g ?t = explicit g t" if g: "g \<noteq> fam" for g
      proof -
        from pre g have nb: "\<not> strings_HasPrefix s (bare g)" by (rule bare_disjoint)
        then have nv: "\<not> strings_HasPrefix s (withValue g)" using withValue_imp_bare by blast
        from nb nv show ?thesis by (simp only: has_directive explicit_directive if_False simp_thms)
      qed
      from 1 2 3 4 have "\<exists>t'. parseTag_loop f t (s # ys) = parseTag_loop f t' ys
                     \<and> has fam t'
                     \<and> explicit fam t' =
                         (if strings_HasPrefix s (withValue fam)
                          then strings_TrimPrefix s (withValue fam) else explicit fam t)
                     \<and> (\<forall>g. g \<noteq> fam \<longrightarrow> has g t' = has g t \<and> explicit g t' = explicit g t)"
        by blast
      with False show ?thesis by (simp only: if_False)
    qed
  qed
next
  show "(\<forall>x\<in>set (xs @ s # ys). \<not> malformed x) \<longrightarrow>
            (\<exists>tg. parseTag f = Inr tg
                \<and> (\<forall>fam. has fam tg \<longleftrightarrow>
                       (\<exists>x\<in>set (xs @ s # ys). strings_HasPrefix x (bare fam))))"
  proof
    assume wf: "\<forall>x\<in>set (xs @ s # ys). \<not> malformed x"
    let ?t = "foldl directive tagInfo_zero (xs @ s # ys)"
    have t: "parseTag f = Inr ?t"
      using parseTag_loop_wellformed[OF wf] by (simp only: parseTag_def split)
    have z: "\<not> has fam tagInfo_zero" for fam by (cases fam) (simp_all add: tagInfo_zero_def)
    have "has fam ?t \<longleftrightarrow> (\<exists>x\<in>set (xs @ s # ys). strings_HasPrefix x (bare fam))" for fam
      by (simp only: has_fold z simp_thms)
    with t show "\<exists>tg. parseTag f = Inr tg
                \<and> (\<forall>fam. has fam tg \<longleftrightarrow>
                       (\<exists>x\<in>set (xs @ s # ys). strings_HasPrefix x (bare fam)))"
      by blast
  qed
qed

text \<open>The theorem at the annotation \<open>env,json,flag=p\<close> and its token \<open>json\<close>, and at
  the annotation \<open>flag,envoy\<close> and its token \<open>envoy\<close>.\<close>

theorem parseTag_dispatch_by_prefix_witness:
  "strings_Split (Tag_Get (exampleField ''env,json,flag=p'') tagName) tagSeparator
      = [''env''] @ ''json'' # [''flag=p'']
   \<and> \<not> strings_HasPrefix ''json'' envFlag \<and> \<not> strings_HasPrefix ''json'' flagFlag
   \<and> \<not> strings_HasPrefix ''json'' defaultFlag
   \<and> parseTag (exampleField ''env,json,flag=p'')
       = parseTag_loop (exampleField ''env,json,flag=p'') tagInfo_zero ([''env''] @ [''flag=p''])
   \<and> (\<forall>t. parseTag_loop (exampleField ''env,json,flag=p'') t (''json'' # [''flag=p''])
           = parseTag_loop (exampleField ''env,json,flag=p'') t [''flag=p''])
   \<and> strings_Split (Tag_Get (exampleField ''flag,envoy'') tagName) tagSeparator
      = [''flag''] @ ''envoy'' # []
   \<and> strings_HasPrefix ''envoy'' (bare FamEnv) \<and> ''envoy'' \<noteq> withValue FamEnv
   \<and> \<not> strings_HasPrefix ''envoy'' (withValue FamEnv)
   \<and> (\<forall>t. \<exists>t'. parseTag_loop (exampleField ''flag,envoy'') t (''envoy'' # [])
                  = parseTag_loop (exampleField ''flag,envoy'') t' []
               \<and> has FamEnv t' \<and> explicit FamEnv t' = explicit FamEnv t
               \<and> has FamFlag t' = has FamFlag t \<and> explicit FamFlag t' = explicit FamFlag t
               \<and> has FamDefault t' = has FamDefault t
               \<and> explicit FamDefault t' = explicit FamDefault t)
   \<and> \<not> malformed ''flag'' \<and> \<not> malformed ''envoy''
   \<and> (\<exists>tg. parseTag (exampleField ''flag,envoy'') = Inr tg
          \<and> has FamEnv tg \<and> has FamFlag tg \<and> \<not> has FamDefault tg)"
proof -
  let ?f = "exampleField ''env,json,flag=p''"
  let ?g = "exampleField ''flag,envoy''"
  have h1: "strings_Split (Tag_Get ?f tagName) tagSeparator = [''env''] @ ''json'' # [''flag=p'']"
    by (simp add: tag_eval)
  have h2: "\<not> strings_HasPrefix ''json'' envFlag" "\<not> strings_HasPrefix ''json'' flagFlag"
    "\<not> strings_HasPrefix ''json'' defaultFlag"
    by (simp_all add: strings_HasPrefix_def envFlag_def flagFlag_def defaultFlag_def)
  have g1: "strings_Split (Tag_Get ?g tagName) tagSeparator = [''flag''] @ ''envoy'' # []"
    by (simp add: tag_eval)
  have g2: "strings_HasPrefix ''envoy'' (bare FamEnv)" "''envoy'' \<noteq> withValue FamEnv"
    "\<not> strings_HasPrefix ''envoy'' (withValue FamEnv)"
    by (simp_all add: strings_HasPrefix_def withValue_def del: withValue_simps bare_simps)
  have g3: "\<not> malformed ''flag''" "\<not> malformed ''envoy''"
    by (simp_all add: malformed_def)
  have pf: "strings_HasPrefix ''flag'' (bare FamFlag)"
    "\<not> strings_HasPrefix ''flag'' (bare FamEnv)" "\<not> strings_HasPrefix ''flag'' (bare FamDefault)"
    "\<not> strings_HasPrefix ''envoy'' (bare FamFlag)" "\<not> strings_HasPrefix ''envoy'' (bare FamDefault)"
    by (simp_all add: strings_HasPrefix_def del: bare_simps)
  note F = parseTag_dispatch_by_prefix[OF h1]
  note G = parseTag_dispatch_by_prefix[OF g1]
  from F h2 have c1: "parseTag ?f = parseTag_loop ?f tagInfo_zero ([''env''] @ [''flag=p''])"
    and c2: "\<forall>t. parseTag_loop ?f t (''json'' # [''flag=p'']) = parseTag_loop ?f t [''flag=p'']"
    by blast+
  have c3: "\<exists>t'. parseTag_loop ?g t (''envoy'' # []) = parseTag_loop ?g t' []
               \<and> has FamEnv t' \<and> explicit FamEnv t' = explicit FamEnv t
               \<and> has FamFlag t' = has FamFlag t \<and> explicit FamFlag t' = explicit FamFlag t
               \<and> has FamDefault t' = has FamDefault t
               \<and> explicit FamDefault t' = explicit FamDefault t" for t
  proof -
    from G g2(1) have "if ''envoy'' = withValue FamEnv
             then parseTag_loop ?g t (''envoy'' # []) =
                    Inl (Wrap [] ErrInvalidTagFormat (acceptedForms FamEnv))
             else (\<exists>t'. parseTag_loop ?g t (''envoy'' # []) = parseTag_loop ?g t' []
                     \<and> has FamEnv t'
                     \<and> explicit FamEnv t' =
                         (if strings_HasPrefix ''envoy'' (withValue FamEnv)
                          then strings_TrimPrefix ''envoy'' (withValue FamEnv) else explicit FamEnv t)
                     \<and> (\<forall>g. g \<noteq> FamEnv \<longrightarrow> has g t' = has g t \<and> explicit g t' = explicit g t))"
      by blast
    with g2(2,3) obtain t' where
      "parseTag_loop ?g t (''envoy'' # []) = parseTag_loop ?g t' []" "has FamEnv t'"
      "explicit FamEnv t' = explicit FamEnv t"
      "\<forall>g. g \<noteq> FamEnv \<longrightarrow> has g t' = has g t \<and> explicit g t' = explicit g t"
      by (simp only: if_False) blast
    moreover from this(4) have "has FamFlag t' = has FamFlag t \<and> explicit FamFlag t' = explicit FamFlag t"
      "has FamDefault t' = has FamDefault t \<and> explicit FamDefault t' = explicit FamDefault t"
      by blast+
    ultimately show ?thesis by blast
  qed
  from G g3 obtain tg where tg: "parseTag ?g = Inr tg"
    "\<forall>fam. has fam tg \<longleftrightarrow> (\<exists>x\<in>set ([''flag''] @ ''envoy'' # []). strings_HasPrefix x (bare fam))"
    by auto
  from tg(2) g2(1) pf have "has FamEnv tg" "has FamFlag tg" "\<not> has FamDefault tg"
    by (simp_all del: bare_simps bare.simps has.simps)
  with tg(1) have c4: "\<exists>tg. parseTag ?g = Inr tg
          \<and> has FamEnv tg \<and> has FamFlag tg \<and> \<not> has FamDefault tg" by blast
  from h1 h2 c1 c2 g1 g2 c3 g3 c4 show ?thesis by blast
qed

subsection \<open>Claim C8: the form with a value\<close>

text \<open>
  Claim C8. Let an annotation have a token \<open>NAME=v\<close> of one of the three families, after
  well-formed tokens. If \<open>v\<close> is empty, parsing fails with \<open>ErrInvalidTagFormat\<close> wrapped
  in the message that names the two accepted forms of that family. If \<open>v\<close> is not empty
  (and no later token is malformed or gives the family another value), parsing succeeds,
  the \<open>has\<close> boolean of the family is set and the explicit value is \<open>v\<close> as written; for
  the default family \<open>DefVal\<close> of the descriptor is \<open>v\<close>.
\<close>

theorem parseTag_value_form:
  assumes split: "strings_Split (Tag_Get f tagName) tagSeparator = xs @ (withValue fam @ v) # ys"
    and before: "\<forall>x\<in>set xs. \<not> malformed x"
  shows "(v = [] \<longrightarrow> parseTag f = Inl (Wrap [] ErrInvalidTagFormat (acceptedForms fam)))
       \<and> (v \<noteq> [] \<and> (\<forall>y\<in>set ys. \<not> malformed y \<and> \<not> strings_HasPrefix y (withValue fam)) \<longrightarrow>
            (\<exists>t. parseTag f = Inr t \<and> has fam t \<and> explicit fam t = v
                 \<and> (fam = FamDefault \<longrightarrow> DefVal (FieldInfo p f rv t) = v)))"
proof (intro conjI impI)
  assume "v = []"
  have "parseTag f = parseTag_loop f tagInfo_zero (xs @ withValue fam # ys)"
    using \<open>v = []\<close> by (simp add: parseTag_def split)
  also have "\<dots> = parseTag_loop f (foldl directive tagInfo_zero xs) (withValue fam # ys)"
    by (simp only: parseTag_loop_append[of f _ xs] parseTag_loop_wellformed[OF before] sum.case)
  also have "\<dots> = Inl (Wrap [] ErrInvalidTagFormat (acceptedForms fam))"
    by (cases fam) (simp_all only: withValue_simps loop_env_empty loop_flag_empty loop_default_empty)
  finally show "parseTag f = Inl (Wrap [] ErrInvalidTagFormat (acceptedForms fam))" .
next
  assume a: "v \<noteq> [] \<and> (\<forall>y\<in>set ys. \<not> malformed y \<and> \<not> strings_HasPrefix y (withValue fam))"
  let ?s = "withValue fam @ v"
  let ?t = "foldl directive tagInfo_zero (xs @ ?s # ys)"
  have s: "\<not> malformed ?s" using a
    by (cases fam) (auto simp: malformed_def withValue_def)
  have wf: "\<forall>x\<in>set (xs @ ?s # ys). \<not> malformed x" using before a s by auto
  have t: "parseTag f = Inr ?t"
    using parseTag_loop_wellformed[OF wf] by (simp only: parseTag_def split)
  have pre: "strings_HasPrefix ?s (withValue fam)" by simp
  from pre have "strings_HasPrefix ?s (bare fam)" by (rule withValue_imp_bare)
  then have h: "has fam ?t" by (simp only: has_fold) auto
  have novalue: "\<forall>y\<in>set ys. \<not> strings_HasPrefix y (withValue fam)" using a by blast
  have e: "explicit fam ?t = v"
    by (simp only: explicit_fold find_last_occurrence[OF novalue] pre) simp
  have "fam = FamDefault \<longrightarrow> DefVal (FieldInfo p f rv ?t) = v"
    using h e by (auto simp: DefVal_def)
  with t h e
  show "\<exists>t. parseTag f = Inr t \<and> has fam t \<and> explicit fam t = v
           \<and> (fam = FamDefault \<longrightarrow> DefVal (FieldInfo p f rv t) = v)"
    by blast
qed


text \<open>The theorem at the annotations \<open>env,default=x\<close> and \<open>default=\<close>.\<close>

theorem parseTag_value_form_witness:
  "strings_Split (Tag_Get (exampleField ''env,default=x'') tagName) tagSeparator
      = [''env''] @ (withValue FamDefault @ ''x'') # []
   \<and> strings_Split (Tag_Get (exampleField ''default='') tagName) tagSeparator
      = [] @ (withValue FamDefault @ []) # []
   \<and> \<not> malformed ''env''
   \<and> parseTag (exampleField ''default='') =
        Inl (Wrap [] ErrInvalidTagFormat (acceptedForms FamDefault))
   \<and> (\<exists>t. parseTag (exampleField ''env,default=x'') = Inr t \<and> has FamDefault t
          \<and> explicit FamDefault t = ''x''
          \<and> DefVal (FieldInfo None (exampleField ''env,default=x'') (TInt, VInt 0) t) = ''x'')"
proof -
  let ?f = "exampleField ''env,default=x''"
  let ?g = "exampleField ''default=''"
  have h1: "strings_Split (Tag_Get ?f tagName) tagSeparator
      = [''env''] @ (withValue FamDefault @ ''x'') # []"
    by (simp add: tag_eval withValue_def del: withValue_simps)
  have g1: "strings_Split (Tag_Get ?g tagName) tagSeparator = [] @ (withValue FamDefault @ []) # []"
    by (simp add: tag_eval withValue_def del: withValue_simps)
  have h2: "\<forall>x\<in>set [''env'']. \<not> malformed x" by (simp add: malformed_def)
  have g2: "\<forall>x\<in>set []. \<not> malformed x" by simp
  from parseTag_value_form[OF h1 h2, of None "(TInt, VInt 0)"] parseTag_value_form[OF g1 g2] h1 g1 h2
  show ?thesis by auto
qed

section \<open>The keys of a descriptor\<close>



lemma path_loop_nestingPath:
  "path_loop par acc = (case par of None \<Rightarrow> [] | Some p \<Rightarrow> nestingPath p) @ acc"
  by (induction par acc rule: path_loop.induct) simp_all

lemma path_nestingPath: "path f = nestingPath f"
  by (cases f) (simp add: path_def Name_def path_loop_nestingPath)

lemma Join_joined: "strings_Join xs sep = joined sep xs"
  by (induction xs sep rule: strings_Join.induct) simp_all

text \<open>
  Claim C5. For every descriptor: with \<open>hasENV\<close> and no explicit value, \<open>ENVKey\<close> is the
  nesting path joined with \<open>_\<close> and upper-cased; with an explicit value it is that value,
  whatever the path; without \<open>hasENV\<close> it is empty. \<open>FlagKey\<close> is the same with \<open>-\<close> and
  lower case, under \<open>hasFlag\<close>. The nesting path and the joining are the ones of the
  specification (\<open>nestingPath\<close>, \<open>joined\<close>), which the loop of \<open>path\<close> and \<open>strings.Join\<close>
  compute.
\<close>

theorem descriptor_keys:
  "(hasENV (tag f) \<and> env (tag f) = [] \<longrightarrow>
      ENVKey L f = strings_ToUpper L (joined ''_'' (nestingPath f)))
   \<and> (hasENV (tag f) \<and> env (tag f) \<noteq> [] \<longrightarrow> ENVKey L f = env (tag f))
   \<and> (\<not> hasENV (tag f) \<longrightarrow> ENVKey L f = [])
   \<and> (hasFlag (tag f) \<and> flag (tag f) = [] \<longrightarrow>
      FlagKey L f = strings_ToLower L (joined ''-'' (nestingPath f)))
   \<and> (hasFlag (tag f) \<and> flag (tag f) \<noteq> [] \<longrightarrow> FlagKey L f = flag (tag f))
   \<and> (\<not> hasFlag (tag f) \<longrightarrow> FlagKey L f = [])"
  by (simp add: ENVKey_def FlagKey_def path_nestingPath Join_joined)

text \<open>The theorem at three descriptors of the field \<open>Host\<close> under \<open>Db\<close>: bare env with an
  explicit flag, explicit env with a bare flag, and no directive at all.\<close>

lemma example_nestingPath: "nestingPath (exampleDescriptor tg) = [''Db'', ''Host'']"
  by (simp add: exampleDescriptor_def exampleParent_def)

lemma example_tag: "tag (exampleDescriptor tg) = tg"
  by (simp add: exampleDescriptor_def)

lemma golib_case_mappings:
  "strings_ToUpper golib (joined ''_'' [''Db'', ''Host'']) = ''DB_HOST''"
  "strings_ToLower golib (joined ''-'' [''Db'', ''Host'']) = ''db-host''"
  by code_simp+

theorem descriptor_keys_witness:
  "ENVKey golib (exampleDescriptor (tagInfo_zero\<lparr>hasENV := True, hasFlag := True, flag := ''addr''\<rparr>))
     = ''DB_HOST''
   \<and> FlagKey golib (exampleDescriptor (tagInfo_zero\<lparr>hasENV := True, hasFlag := True, flag := ''addr''\<rparr>))
     = ''addr''
   \<and> ENVKey golib (exampleDescriptor (tagInfo_zero\<lparr>hasENV := True, env := ''SERVICE_HOST'', hasFlag := True\<rparr>))
     = ''SERVICE_HOST''
   \<and> FlagKey golib (exampleDescriptor (tagInfo_zero\<lparr>hasENV := True, env := ''SERVICE_HOST'', hasFlag := True\<rparr>))
     = ''db-host''
   \<and> ENVKey golib (exampleDescriptor tagInfo_zero) = []
   \<and> FlagKey golib (exampleDescriptor tagInfo_zero) = []"
proof -
  let ?t1 = "tagInfo_zero\<lparr>hasENV := True, hasFlag := True, flag := ''addr''\<rparr>"
  let ?t2 = "tagInfo_zero\<lparr>hasENV := True, env := ''SERVICE_HOST'', hasFlag := True\<rparr>"
  have t1: "hasENV ?t1" "env ?t1 = []" "hasFlag ?t1" "flag ?t1 = ''addr''"
    by (simp_all add: tagInfo_zero_def)
  have t2: "hasENV ?t2" "env ?t2 = ''SERVICE_HOST''" "hasFlag ?t2" "flag ?t2 = []"
    by (simp_all add: tagInfo_zero_def)
  have t0: "\<not> hasENV tagInfo_zero" "\<not> hasFlag tagInfo_zero"
    by (simp_all add: tagInfo_zero_def)
  from descriptor_keys[of "exampleDescriptor ?t1" golib] t1
  have k1: "ENVKey golib (exampleDescriptor ?t1) = ''DB_HOST''"
    "FlagKey golib (exampleDescriptor ?t1) = ''addr''"
    by (simp_all only: example_tag example_nestingPath golib_case_mappings simp_thms list.distinct)
  from descriptor_keys[of "exampleDescriptor ?t2" golib] t2
  have k2: "ENVKey golib (exampleDescriptor ?t2) = ''SERVICE_HOST''"
    "FlagKey golib (exampleDescriptor ?t2) = ''db-host''"
    by (simp_all only: example_tag example_nestingPath golib_case_mappings simp_thms list.distinct)
  from descriptor_keys[of "exampleDescriptor tagInfo_zero" golib] t0
  have k0: "ENVKey golib (exampleDescriptor tagInfo_zero) = []"
    "FlagKey golib (exampleDescriptor tagInfo_zero) = []"
    by (simp_all only: example_tag simp_thms)
  from k1 k2 k0 show ?thesis by (intro conjI)
qed

section \<open>The value coercion\<close>

lemmas coerce_defs =
  setFieldValue_def setPtrValue_def setSliceValue_def finish_def Set_def SetBool_def SetInt_def
  SetUint_def SetFloat_def SetString_def timeType_def timePtrType_def durationType_def

lemma setFieldValue_time:
  assumes "time_Parse L time_RFC3339 v = Inr t"
  shows "setFieldValue L (TTime, old) TTime v =
           Return ((TTime, VTime t),
                   Some (Wrap ''setFieldValue: '' ErrUnsupported '' type [struct]''))"
  using assms by (simp add: coerce_defs)

lemma setFieldValue_timePtr:
  assumes "time_Parse L time_RFC3339 v = Inr t"
  shows "setFieldValue L (TPtr TTime, old) (TPtr TTime) v =
           Return ((TPtr TTime, VRef (VTime t)),
                   Some (Wrap ''setPtrValue: '' ErrUnsupported '' type [ptr]''))"
  using assms by (simp add: coerce_defs)

lemma setFieldValue_time_error:
  assumes "time_Parse L time_RFC3339 v = Inl err"
  shows "setFieldValue L (TTime, old) TTime v = Return ((TTime, old), Some err)"
    and "setFieldValue L (TPtr TTime, old) (TPtr TTime) v = Return ((TPtr TTime, old), Some err)"
  using assms by (simp_all add: coerce_defs)

text \<open>Pointers to the kinds that work.\<close>

lemma setPtrValue_supported:
  "strconv_ParseBool L v = Inr b \<Longrightarrow>
     setFieldValue L (TPtr TBool, old) (TPtr TBool) v = Return ((TPtr TBool, VRef (VBool b)), None)"
  "strconv_ParseInt L v 0 64 = Inr i \<Longrightarrow>
     setFieldValue L (TPtr TInt64, old) (TPtr TInt64) v = Return ((TPtr TInt64, VRef (VInt i)), None)"
  "strconv_ParseUint L v 0 64 = Inr u \<Longrightarrow>
     setFieldValue L (TPtr TUint64, old) (TPtr TUint64) v = Return ((TPtr TUint64, VRef (VUint u)), None)"
  "strconv_ParseFloat L v 64 = Inr x \<Longrightarrow>
     setFieldValue L (TPtr TFloat64, old) (TPtr TFloat64) v
       = Return ((TPtr TFloat64, VRef (VFloat64 x)), None)"
  "setFieldValue L (TPtr TString, old) (TPtr TString) v = Return ((TPtr TString, VRef (VString v)), None)"
  by (simp_all add: coerce_defs)

text \<open>Pointers to the other integer and float widths: the pointer that is stored has
  the type of the parsed variable, not of the destination.\<close>

lemma setPtrValue_narrow_int:
  assumes "E \<in> {TInt, TInt8, TInt16, TInt32}"
    and "strconv_ParseInt L v 0 (strconv_IntSize L) = Inr i"
  shows "setFieldValue L (TPtr E, old) (TPtr E) v = Panic ''reflect.Set: value is not assignable''"
  using assms by (auto simp: coerce_defs)

lemma setPtrValue_narrow_uint:
  assumes "E \<in> {TUint, TUint8, TUint16, TUint32}"
    and "strconv_ParseUint L v 0 (strconv_IntSize L) = Inr u"
  shows "setFieldValue L (TPtr E, old) (TPtr E) v = Panic ''reflect.Set: value is not assignable''"
  using assms by (auto simp: coerce_defs)

lemma setPtrValue_float32:
  assumes "strconv_ParseFloat L v 64 = Inr x"
  shows "setFieldValue L (TPtr TFloat32, old) (TPtr TFloat32) v
           = Panic ''reflect.Set: value is not assignable''"
  using assms by (simp add: coerce_defs)

text \<open>A pointer to a duration: \<open>typ\<close> is the pointer type, never \<open>durationType\<close>, so the
  string is read as a plain integer and the pointer to it is not assignable.\<close>

lemma setPtrValue_duration:
  "setFieldValue L (TPtr TDuration, old) (TPtr TDuration) v =
     (case strconv_ParseInt L v 0 64 of
        Inl err \<Rightarrow> Return ((TPtr TDuration, old), Some err)
      | Inr i \<Rightarrow> Panic ''reflect.Set: value is not assignable'')"
  by (simp add: coerce_defs split: sum.splits)

text \<open>The value forms.\<close>

lemma convert_int_id:
  assumes "0 < w" "- (2 ^ (w - 1)) \<le> x" "x < 2 ^ (w - 1)"
  shows "convert_int w x = x"
proof -
  have p: "(2::int) ^ w = 2 * 2 ^ (w - 1)"
    using assms(1) by (cases w) simp_all
  have "0 \<le> x + 2 ^ (w - 1)" "x + 2 ^ (w - 1) < 2 ^ w"
    using assms p by simp_all
  then have "(x + 2 ^ (w - 1)) mod 2 ^ w = x + 2 ^ (w - 1)" by simp
  then show ?thesis by (simp add: convert_int_def)
qed

lemma convert_uint_id: "u < 2 ^ w \<Longrightarrow> convert_uint w u = u"
  by (simp add: convert_uint_def)

lemma setFieldValue_bool:
  "strconv_ParseBool L v = Inr b \<Longrightarrow>
     setFieldValue L (TBool, old) TBool v = Return ((TBool, VBool b), None)"
  by (simp add: coerce_defs)

lemma setFieldValue_string:
  "setFieldValue L (TString, old) TString v = Return ((TString, VString v), None)"
  by (simp add: coerce_defs)

lemma setFieldValue_int:
  assumes "strconv_ParseInt L v 0 (strconv_IntSize L) = Inr x"
  shows "setFieldValue L (TInt, old) TInt v = Return ((TInt, VInt (convert_int (strconv_IntSize L) x)), None)"
    and "setFieldValue L (TInt8, old) TInt8 v = Return ((TInt8, VInt (convert_int 8 x)), None)"
    and "setFieldValue L (TInt16, old) TInt16 v = Return ((TInt16, VInt (convert_int 16 x)), None)"
    and "setFieldValue L (TInt32, old) TInt32 v = Return ((TInt32, VInt (convert_int 32 x)), None)"
  using assms by (simp_all add: coerce_defs)

lemma setFieldValue_int64:
  assumes "strconv_ParseInt L v 0 64 = Inr x"
  shows "setFieldValue L (TInt64, old) TInt64 v = Return ((TInt64, VInt (convert_int 64 x)), None)"
  using assms by (simp add: coerce_defs)

lemma setFieldValue_duration:
  assumes "time_ParseDuration L v = Inr x"
  shows "setFieldValue L (TDuration, old) TDuration v
           = Return ((TDuration, VInt (convert_int 64 x)), None)"
  using assms by (simp add: coerce_defs)

lemma setFieldValue_uint:
  assumes "strconv_ParseUint L v 0 (strconv_IntSize L) = Inr x"
  shows "setFieldValue L (TUint, old) TUint v
           = Return ((TUint, VUint (convert_uint (strconv_IntSize L) x)), None)"
    and "setFieldValue L (TUint8, old) TUint8 v = Return ((TUint8, VUint (convert_uint 8 x)), None)"
    and "setFieldValue L (TUint16, old) TUint16 v = Return ((TUint16, VUint (convert_uint 16 x)), None)"
    and "setFieldValue L (TUint32, old) TUint32 v = Return ((TUint32, VUint (convert_uint 32 x)), None)"
  using assms by (simp_all add: coerce_defs)

lemma setFieldValue_uint64:
  assumes "strconv_ParseUint L v 0 64 = Inr x"
  shows "setFieldValue L (TUint64, old) TUint64 v = Return ((TUint64, VUint (convert_uint 64 x)), None)"
  using assms by (simp add: coerce_defs)

lemma setFieldValue_float:
  assumes "strconv_ParseFloat L v 64 = Inr x"
  shows "setFieldValue L (TFloat64, old) TFloat64 v = Return ((TFloat64, VFloat64 x), None)"
    and "setFieldValue L (TFloat32, old) TFloat32 v
           = Return ((TFloat32, VFloat32 (float32_conv L x)), None)"
  using assms by (simp_all add: coerce_defs)

text \<open>The reference library on the strings of the examples.\<close>

lemmas go_int_eval =
  golib_def go_ParseInt_def go_ParseUint_def go_digit_def go_lowerByte_def Let_def
  go_underscoreOK_def go_hasBasePrefix_def

lemma golib_IntSize: "strconv_IntSize golib = 64"
  by (simp add: golib_def)

lemma golib_ParseInt_42: "strconv_ParseInt golib ''42'' 0 (strconv_IntSize golib) = Inr 42"
  by (simp add: go_int_eval)

lemma golib_ParseInt_duration:
  "strconv_ParseInt golib ''1h30m0s'' 0 64 = Inl (LibError ''strconv.ParseUint: invalid syntax'')"
  by (simp add: go_int_eval)

lemma golib_ParseDuration: "time_ParseDuration golib ''1h30m0s'' = Inr 5400000000000"
  by (simp add: golib_def go_ParseDuration_def go_isDigit_def go_unit_def)

lemma golib_Parse:
  "time_Parse golib time_RFC3339 ''2006-01-02T15:04:05Z'' = Inr (Time 1136214245 0 0)"
  by (simp add: golib_def go_Parse_def time_RFC3339_def go_number_def go_isDigit_def
      go_daysIn_def go_isLeap_def go_unixDate_def go_zone_def Let_def upt_rec)

subsection \<open>Claims C10 and C1: timestamps\<close>

text \<open>
  Claim C10. For a destination of type \<open>time.Time\<close> or \<open>*time.Time\<close> and a string that
  \<open>time.Parse\<close> accepts with the layout RFC3339, the call stores the parsed time (behind
  a new pointer for the pointer form) and then returns an error all the same, the
  \<open>ErrUnsupported\<close> of the end of the \<open>reflect.Struct\<close> branch: the destination changes
  on the error path.
\<close>

theorem setFieldValue_time_not_atomic:
  assumes "time_Parse L time_RFC3339 v = Inr t"
  shows "setFieldValue L (TTime, old) TTime v =
           Return ((TTime, VTime t),
                   Some (Wrap ''setFieldValue: '' ErrUnsupported '' type [struct]''))
       \<and> setFieldValue L (TPtr TTime, old') (TPtr TTime) v =
           Return ((TPtr TTime, VRef (VTime t)),
                   Some (Wrap ''setPtrValue: '' ErrUnsupported '' type [ptr]''))"
  using assms by (simp only: setFieldValue_time setFieldValue_timePtr simp_thms)

text \<open>The theorem at the string \<open>2006-01-02T15:04:05Z\<close>.\<close>

theorem setFieldValue_time_not_atomic_witness:
  "time_Parse golib time_RFC3339 ''2006-01-02T15:04:05Z'' = Inr (Time 1136214245 0 0)
   \<and> setFieldValue golib (TTime, zero TTime) TTime ''2006-01-02T15:04:05Z'' =
       Return ((TTime, VTime (Time 1136214245 0 0)),
               Some (Wrap ''setFieldValue: '' ErrUnsupported '' type [struct]''))
   \<and> setFieldValue golib (TPtr TTime, VNil) (TPtr TTime) ''2006-01-02T15:04:05Z'' =
       Return ((TPtr TTime, VRef (VTime (Time 1136214245 0 0))),
               Some (Wrap ''setPtrValue: '' ErrUnsupported '' type [ptr]''))"
  using setFieldValue_time_not_atomic[OF golib_Parse, of "zero TTime" VNil] golib_Parse by simp

text \<open>
  Claim C1 says that the call returns success for a timestamp destination and a valid
  RFC3339 string. The code does not: at the value \<open>time.Time\<close> and at the pointer
  \<open>*time.Time\<close>, the string \<open>2006-01-02T15:04:05Z\<close> is parsed and stored, and the call
  returns an error that wraps \<open>ErrUnsupported\<close>. In both functions the \<open>if\<close> that handles
  the timestamp has no \<open>return nil\<close> of its own and runs into the \<open>return\<close> of the
  unsupported struct.
\<close>

theorem setFieldValue_time_returns_error:
  "setFieldValue golib (TTime, VTime (Time 0 0 0)) TTime ''2006-01-02T15:04:05Z'' =
       Return ((TTime, VTime (Time 1136214245 0 0)),
               Some (Wrap ''setFieldValue: '' ErrUnsupported '' type [struct]''))
   \<and> errors_Is (Wrap ''setFieldValue: '' ErrUnsupported '' type [struct]'') ErrUnsupported
   \<and> setFieldValue golib (TPtr TTime, VNil) (TPtr TTime) ''2006-01-02T15:04:05Z'' =
       Return ((TPtr TTime, VRef (VTime (Time 1136214245 0 0))),
               Some (Wrap ''setPtrValue: '' ErrUnsupported '' type [ptr]''))
   \<and> errors_Is (Wrap ''setPtrValue: '' ErrUnsupported '' type [ptr]'') ErrUnsupported"
  by (simp add: setFieldValue_time[OF golib_Parse] setFieldValue_timePtr[OF golib_Parse])

subsection \<open>Claims C2 and C9: pointers to scalars\<close>

text \<open>
  Claim C2 says that a pointer to any supported scalar kind is set to a new instance of
  the pointed-to type. At a destination of type \<open>*int32\<close> and the string \<open>42\<close> the call
  panics instead: \<open>setPtrValue\<close> parses into an \<open>int64\<close> and hands \<open>Set\<close> a \<open>*int64\<close>,
  which is not assignable to \<open>*int32\<close>. The same holds for every integer and float width
  but the 64-bit ones (\<open>setPtrValue_narrow_int\<close>, \<open>setPtrValue_narrow_uint\<close>,
  \<open>setPtrValue_float32\<close>), and a pointer to a duration is never parsed as a duration
  (\<open>setPtrValue_duration\<close>); the value forms of the same kinds work.
\<close>

theorem setPtrValue_int32_panics:
  "setFieldValue golib (TPtr TInt32, VNil) (TPtr TInt32) ''42''
     = Panic ''reflect.Set: value is not assignable''"
  by (rule setPtrValue_narrow_int[OF _ golib_ParseInt_42]) simp

text \<open>
  Claim C9 says that coercing the string form of a value and reading the field back
  gives the value, for every leaf kind. For the value forms it does (here \<open>42\<close> into an
  \<open>int\<close> and \<open>1h30m0s\<close> into a duration). For the pointer forms, which are leaves of the
  catalog as well, it does not: \<open>42\<close> into a \<open>*int\<close> panics, and \<open>1h30m0s\<close> into a
  \<open>*time.Duration\<close> returns the error of the integer parser and leaves the pointer nil.
\<close>

theorem coerce_pointer_no_roundtrip:
  "setFieldValue golib (TInt, VInt 0) TInt ''42'' = Return ((TInt, VInt 42), None)
   \<and> setFieldValue golib (TPtr TInt, VNil) (TPtr TInt) ''42''
       = Panic ''reflect.Set: value is not assignable''
   \<and> setFieldValue golib (TDuration, VInt 0) TDuration ''1h30m0s''
       = Return ((TDuration, VInt 5400000000000), None)
   \<and> setFieldValue golib (TPtr TDuration, VNil) (TPtr TDuration) ''1h30m0s''
       = Return ((TPtr TDuration, VNil), Some (LibError ''strconv.ParseUint: invalid syntax''))"
proof -
  have "convert_int 64 42 = 42" "convert_int 64 5400000000000 = 5400000000000"
    by (simp_all add: convert_int_def)
  then show ?thesis
    by (simp add: setFieldValue_int(1)[OF golib_ParseInt_42] golib_IntSize
        setPtrValue_narrow_int[OF _ golib_ParseInt_42]
        setFieldValue_duration[OF golib_ParseDuration]
        setPtrValue_duration golib_ParseInt_duration)
qed


section \<open>The struct walker\<close>

subsection \<open>The loop over the fields\<close>

text \<open>At the root, \<open>getStructInfo\<close> on a pointer to a struct is the loop over its fields.\<close>

lemma getStructInfo_root:
  "getStructInfo (TPtr (TStruct fts), VRef (VStruct fvs)) par =
     behind (\<lambda>us. (TPtr (TStruct fts), VRef (VStruct us))) (getStructInfo_loop par fts fvs)"
  by (simp add: getStructInfo_def behind_def split: sum.splits prod.splits)

lemma loop_lengths:
  "getStructInfo_loop par fts fvs = Inr (fvs', fis) \<Longrightarrow>
     length fvs = length fts \<and> length fvs' = length fts"
proof (induction fts arbitrary: fvs fvs' fis)
  case Nil
  then show ?case by (cases fvs) simp_all
next
  case (Cons ft fts)
  obtain n T tg an ex where ft: "ft = StructField n T tg an ex" by (cases ft)
  from Cons.prems obtain fv rest where fvs: "fvs = fv # rest"
    by (cases fvs) (simp_all add: ft)
  from Cons.prems obtain r c where rest: "getStructInfo_loop par fts rest = Inr (r, c)"
    and len: "length fvs' = Suc (length r)"
    unfolding ft fvs
    by (auto simp: Let_def split: if_splits sum.splits prod.splits)
  from Cons.IH[OF rest] len show ?case by (simp add: fvs)
qed

lemma andThen_simps [simp]:
  "andThen (Inl err) r2 = Inl err"
  "andThen (Inr (vs1, fis1)) (Inl err) = Inl err"
  "andThen (Inr (vs1, fis1)) (Inr (vs2, fis2)) = Inr (vs1 @ vs2, fis1 @ fis2)"
  "andThen (Inr ([], [])) r = r"
  by (auto simp: andThen_def split: sum.splits)

lemma behind_simps [simp]:
  "behind g (Inl err) = Inl err"
  "behind g (Inr (v, fis)) = Inr (g v, fis)"
  by (simp_all add: behind_def)

lemma andThen_assoc: "andThen (andThen r1 r2) r3 = andThen r1 (andThen r2 r3)"
  by (auto simp: andThen_def split: sum.splits)


lemma loop_Cons:
  "getStructInfo_loop par (ft # fts) (fv # fvs) =
     andThen (oneField par ft fv) (getStructInfo_loop par fts fvs)"
  by (cases ft)
     (auto simp: oneField_def Let_def andThen_def behind_def split: sum.splits prod.splits)

lemma loop_append:
  "length fvs1 = length fts1 \<Longrightarrow>
   getStructInfo_loop par (fts1 @ fts2) (fvs1 @ fvs2) =
     andThen (getStructInfo_loop par fts1 fvs1) (getStructInfo_loop par fts2 fvs2)"
proof (induction fts1 arbitrary: fvs1)
  case Nil
  then show ?case by simp
next
  case (Cons ft fts1)
  then obtain fv rest where fvs1: "fvs1 = fv # rest" and len: "length rest = length fts1"
    by (cases fvs1) simp_all
  show ?case
    unfolding fvs1 append_Cons loop_Cons Cons.IH[OF len] by (rule andThen_assoc[symmetric])
qed

lemma loop_middle:
  "length va = length A \<Longrightarrow>
   getStructInfo_loop par (A @ ft # B) (va @ fv # vb) =
     andThen (getStructInfo_loop par A va)
       (andThen (oneField par ft fv) (getStructInfo_loop par B vb))"
  by (simp only: loop_append loop_Cons)

lemma andThen3_Inr:
  assumes "andThen r1 (andThen r2 r3) = Inr (vs, cat)"
  obtains v1 c1 v2 c2 v3 c3 where "r1 = Inr (v1, c1)" "r2 = Inr (v2, c2)" "r3 = Inr (v3, c3)"
    "vs = v1 @ v2 @ v3" "cat = c1 @ c2 @ c3"
  using assms by (auto simp: andThen_def split: sum.splits)

subsection \<open>One field: pointers and structs\<close>

lemma getFieldInfo_eq:
  "getFieldInfo v ft par =
     (case parseTag ft of Inl err \<Rightarrow> Inl err | Inr tg \<Rightarrow> Inr (FieldInfo par ft v tg))"
  by (simp add: getFieldInfo_def)

lemma field_ptr_ref:
  "getStructInfo_field par ft (TPtr E) (VRef u) = behind VRef (getStructInfo_field par ft E u)"
  by (simp add: behind_def split: sum.splits)

lemma field_ptr_nil_struct:
  "Kind E = KStruct \<Longrightarrow>
   getStructInfo_field par ft (TPtr E) VNil = behind VRef (getStructInfo_field par ft E (zero E))"
  by (simp add: behind_def split: sum.splits)

lemma field_ptr_nil_other:
  "Kind E \<noteq> KStruct \<Longrightarrow>
   getStructInfo_field par ft (TPtr E) VNil =
     (case parseTag ft of
        Inl err \<Rightarrow> Inl err
      | Inr tg \<Rightarrow> Inr (VNil, [FieldInfo par ft (TPtr E, VNil) tg]))"
  by (simp add: getFieldInfo_eq split: sum.splits)

lemma field_struct:
  "getStructInfo_field par ft (TStruct efts) (VStruct evs) =
     (case parseTag ft of
        Inl err \<Rightarrow> Inl err
      | Inr tg \<Rightarrow>
          behind VStruct
            (getStructInfo_loop
               (if sfAnonymous ft then par
                else Some (FieldInfo par ft (TStruct efts, VStruct evs) tg))
               efts evs))"
  by (simp add: getFieldInfo_eq behind_def split: sum.splits)

declare getStructInfo_body.simps [simp del] getStructInfo_loop.simps [simp del]
  getStructInfo_field.simps [simp del]

lemma behind_behind: "behind g (behind h r) = behind (g \<circ> h) r"
  by (auto simp: behind_def split: sum.splits)

lemma behind_id [simp]: "behind (\<lambda>v. v) r = r"
  by (auto simp: behind_def split: sum.splits)

lemma ptrs_simps [simp]: "ptrs 0 T = T" "ptrs (Suc n) T = TPtr (ptrs n T)"
  by (simp_all add: ptrs_def)

lemma refs_simps [simp]: "refs 0 v = v" "refs (Suc n) v = VRef (refs n v)"
  by (simp_all add: refs_def)

lemma refs_Suc_fun: "refs (Suc n) = VRef \<circ> refs n"
  by (rule ext) simp

lemma refs_Suc_fun': "refs (Suc n) = refs n \<circ> VRef"
  by (rule ext) (simp add: refs_def funpow_swap1)

lemma ptrs_Suc': "ptrs (Suc n) T = ptrs n (TPtr T)"
  by (simp add: ptrs_def funpow_swap1)

lemma field_refs:
  "getStructInfo_field par ft (ptrs n T) (refs n w) =
     behind (refs n) (getStructInfo_field par ft T w)"
proof (induction n)
  case 0
  show ?case by (simp add: refs_def[abs_def])
next
  case (Suc n)
  have "getStructInfo_field par ft (ptrs (Suc n) T) (refs (Suc n) w)
        = behind VRef (getStructInfo_field par ft (ptrs n T) (refs n w))"
    by (simp add: field_ptr_ref)
  also have "\<dots> = behind (VRef \<circ> refs n) (getStructInfo_field par ft T w)"
    by (simp only: Suc behind_behind)
  finally show ?case by (simp only: refs_Suc_fun)
qed

lemma field_refs_nil_struct:
  assumes "Kind T = KStruct"
  shows "getStructInfo_field par ft (ptrs (Suc n) T) (refs n VNil) =
           behind (refs (Suc n)) (getStructInfo_field par ft T (zero T))"
  by (simp only: ptrs_Suc' field_refs field_ptr_nil_struct[OF assms] behind_behind refs_Suc_fun')

lemma field_refs_nil_other:
  assumes "Kind T \<noteq> KStruct"
  shows "getStructInfo_field par ft (ptrs (Suc n) T) (refs n VNil) =
           (case parseTag ft of
              Inl err \<Rightarrow> Inl err
            | Inr tg \<Rightarrow> Inr (refs n VNil, [FieldInfo par ft (TPtr T, VNil) tg]))"
  by (simp only: ptrs_Suc' field_refs field_ptr_nil_other[OF assms])
     (simp split: sum.splits)

lemma oneField_walked:
  "sfExported ft \<Longrightarrow> sfType ft \<noteq> timeType \<Longrightarrow> sfType ft \<noteq> timePtrType \<Longrightarrow>
   oneField par ft fv = behind (\<lambda>v. [v]) (getStructInfo_field par ft (sfType ft) fv)"
  by (simp add: oneField_def)


subsection \<open>What a walk emits and what it leaves\<close>

lemma andThen_Inr:
  assumes "andThen r1 r2 = Inr (vs, cat)"
  obtains v1 c1 v2 c2 where "r1 = Inr (v1, c1)" "r2 = Inr (v2, c2)" "vs = v1 @ v2" "cat = c1 @ c2"
  using assms by (auto simp: andThen_def split: sum.splits)

lemma oneField_cases:
  assumes "oneField par ft fv = Inr (vs, cat)" "fi \<in> set cat"
  obtains tg where "sfType ft = timeType \<or> sfType ft = timePtrType" "sfExported ft"
      "parseTag ft = Inr tg" "fi = FieldInfo par ft (sfType ft, fv) tg" "cat = [fi]" "vs = [fv]"
  | v' where "sfExported ft" "sfType ft \<noteq> timeType" "sfType ft \<noteq> timePtrType"
      "getStructInfo_field par ft (sfType ft) fv = Inr (v', cat)" "vs = [v']"
  using assms
  by (auto simp: oneField_def getFieldInfo_eq behind_def split: if_splits sum.splits)

lemma emitted_fields:
  shows "getStructInfo_body par T v = Inr (v', cat) \<Longrightarrow> fi \<in> set cat \<Longrightarrow>
           size (field fi) < size T"
    and "getStructInfo_loop par fts fvs = Inr (vs', cat) \<Longrightarrow> fi \<in> set cat \<Longrightarrow>
           size (field fi) < Suc (size_list size fts)"
    and "getStructInfo_field par ft T v = Inr (v', cat) \<Longrightarrow> fi \<in> set cat \<Longrightarrow>
           field fi = ft \<or> size (field fi) < size T"
proof (induction par T v and par fts fvs and par ft T v
    arbitrary: v' cat and vs' cat and v' cat
    rule: getStructInfo_body_getStructInfo_loop_getStructInfo_field.induct)
  case (5 par n T tg an ex fts fv fvs)
  let ?ft = "StructField n T tg an ex"
  from "5.prems"(1) obtain v1 c1 v2 c2 where
    one: "oneField par ?ft fv = Inr (v1, c1)" and rest: "getStructInfo_loop par fts fvs = Inr (v2, c2)"
    and cat: "cat = c1 @ c2"
    unfolding loop_Cons by (rule andThen_Inr)
  from "5.prems"(2) cat consider "fi \<in> set c1" | "fi \<in> set c2" by auto
  then show ?case
  proof cases
    case 1
    from one 1 show ?thesis
    proof (cases rule: oneField_cases)
      case (1 tg')
      then show ?thesis by simp
    next
      case (2 w)
      then have "ex" "\<not> (T = timeType \<or> T = timePtrType)" by simp_all
      from "5.IH"(3)[OF refl _ this(2) _ 1] this(1) 2(4)
      have "field fi = ?ft \<or> size (field fi) < size T" by simp
      then show ?thesis by auto
    qed
  next
    case 2
    have "size (field fi) < Suc (size_list size fts)"
    proof (cases ex)
      case False
      from "5.IH"(1)[OF refl False rest 2] show ?thesis .
    next
      case True
      show ?thesis
      proof (cases "T = timeType \<or> T = timePtrType")
        case tm: True
        with one True obtain b where "getFieldInfo (T, fv) ?ft par = Inr b"
          by (auto simp: oneField_def split: sum.splits)
        from "5.IH"(2)[OF refl _ tm this rest 2] True show ?thesis by simp
      next
        case nt: False
        with one True obtain b where b: "getStructInfo_field par ?ft T fv = Inr b"
          by (auto simp: oneField_def behind_def split: sum.splits)
        obtain xa y where "(xa, y) = b" by (cases b) auto
        from "5.IH"(4)[OF refl _ nt b this rest 2] True show ?thesis by simp
      qed
    qed
    then show ?thesis by simp
  qed
qed (auto simp: getStructInfo_body.simps getStructInfo_loop.simps getStructInfo_field.simps
      getFieldInfo_eq Let_def split: sum.splits gval.splits if_splits prod.splits)


lemma walk_vivifies:
  shows "getStructInfo_body par T v = Inr (v', cat) \<Longrightarrow> v' = vivified T v"
    and "getStructInfo_loop par fts fvs = Inr (vs', cat) \<Longrightarrow> vs' = vivified_fields fts fvs"
    and "getStructInfo_field par ft T v = Inr (v', cat) \<Longrightarrow> v' = vivified T v"
proof (induction par T v and par fts fvs and par ft T v
    arbitrary: v' cat and vs' cat and v' cat
    rule: getStructInfo_body_getStructInfo_loop_getStructInfo_field.induct)
  case (5 par n T tg an ex fts fv fvs)
  let ?ft = "StructField n T tg an ex"
  from "5.prems"(1) obtain v1 c1 v2 c2 where
    one: "oneField par ?ft fv = Inr (v1, c1)" and rest: "getStructInfo_loop par fts fvs = Inr (v2, c2)"
    and vs: "vs' = v1 @ v2"
    unfolding loop_Cons by (rule andThen_Inr)
  have v2: "v2 = vivified_fields fts fvs"
  proof (cases ex)
    case False
    from "5.IH"(1)[OF refl False rest] show ?thesis .
  next
    case True
    show ?thesis
    proof (cases "T = timeType \<or> T = timePtrType")
      case tm: True
      with one True obtain b where "getFieldInfo (T, fv) ?ft par = Inr b"
        by (auto simp: oneField_def split: sum.splits)
      from "5.IH"(2)[OF refl _ tm this rest] True show ?thesis by simp
    next
      case nt: False
      with one True obtain b where b: "getStructInfo_field par ?ft T fv = Inr b"
        by (auto simp: oneField_def behind_def split: sum.splits)
      obtain xa y where "(xa, y) = b" by (cases b) auto
      from "5.IH"(4)[OF refl _ nt b this rest] True show ?thesis by simp
    qed
  qed
  have v1: "v1 = [if \<not> ex \<or> T = timeType \<or> T = timePtrType then fv else vivified T fv]"
  proof (cases "\<not> ex \<or> T = timeType \<or> T = timePtrType")
    case True
    with one show ?thesis by (auto simp: oneField_def split: sum.splits if_splits)
  next
    case False
    then have ex: "ex" and nt: "\<not> (T = timeType \<or> T = timePtrType)" by simp_all
    with one obtain w where w: "getStructInfo_field par ?ft T fv = Inr (w, c1)" and "v1 = [w]"
      by (auto simp: oneField_def behind_def split: sum.splits)
    from "5.IH"(3)[OF refl _ nt w] ex have "w = vivified T fv" by simp
    with False \<open>v1 = [w]\<close> show ?thesis by simp
  qed
  from vs v1 v2 show ?case by simp
qed (auto simp: getStructInfo_body.simps getStructInfo_loop.simps getStructInfo_field.simps
      getFieldInfo_eq Let_def split: sum.splits gval.splits if_splits prod.splits)

subsection \<open>Embedded fields\<close>


lemma zero_fields_length [simp]: "length (zero_fields fts) = length fts"
proof (induction fts)
  case Nil
  show ?case by simp
next
  case (Cons ft fts)
  then show ?case by (cases ft) simp
qed

lemma regroup_andThen:
  assumes "\<And>v c. r1 = Inr (v, c) \<Longrightarrow> length v = i"
    and "\<And>v c. r2 = Inr (v, c) \<Longrightarrow> length v = k"
  shows "andThen r1 (andThen (behind (\<lambda>us. [g us]) r2) r3) =
           regroup i k g (andThen r1 (andThen r2 r3))"
proof (cases r1)
  case (Inl e)
  then show ?thesis by (simp add: regroup_def)
next
  case r1: (Inr p1)
  obtain v1 c1 where p1: "p1 = (v1, c1)" by (cases p1)
  with r1 assms(1) have l1: "length v1 = i" by simp
  show ?thesis
  proof (cases r2)
    case (Inl e)
    then show ?thesis by (simp add: regroup_def r1 p1)
  next
    case r2: (Inr p2)
    obtain v2 c2 where p2: "p2 = (v2, c2)" by (cases p2)
    with r2 assms(2) have l2: "length v2 = k" by simp
    show ?thesis
    proof (cases r3)
      case (Inl e)
      then show ?thesis by (simp add: regroup_def r1 p1 r2 p2)
    next
      case r3: (Inr p3)
      obtain v3 c3 where p3: "p3 = (v3, c3)" by (cases p3)
      show ?thesis using l1 l2 by (simp add: regroup_def r1 p1 r2 p2 r3 p3)
    qed
  qed
qed

lemma loop_flatten:
  assumes len: "length va = length A" and elen: "length evs = length efts"
  shows "andThen (getStructInfo_loop par A va)
           (andThen (behind (\<lambda>us. [g us]) (getStructInfo_loop par efts evs))
              (getStructInfo_loop par B vb)) =
         regroup (length A) (length efts) g
           (getStructInfo_loop par (A @ efts @ B) (va @ evs @ vb))"
proof -
  have "getStructInfo_loop par (A @ efts @ B) (va @ evs @ vb) =
      andThen (getStructInfo_loop par A va)
        (andThen (getStructInfo_loop par efts evs) (getStructInfo_loop par B vb))"
    by (simp only: loop_append[OF len] loop_append[OF elen])
  moreover have "\<And>v c. getStructInfo_loop par A va = Inr (v, c) \<Longrightarrow> length v = length A"
    "\<And>v c. getStructInfo_loop par efts evs = Inr (v, c) \<Longrightarrow> length v = length efts"
    by (auto dest: loop_lengths)
  ultimately show ?thesis by (simp only: regroup_andThen)
qed

lemma field_struct_emitted:
  assumes "getStructInfo_field par ft (TStruct efts) v = Inr (v', cat)" "fi \<in> set cat"
  shows "size (field fi) < size (TStruct efts)"
proof -
  from assms(1) obtain p where "getStructInfo_body p (TStruct efts) v = Inr (v', cat)"
    by (auto simp: getStructInfo_field.simps split: sum.splits)
  from emitted_fields(1)[OF this assms(2)] show ?thesis .
qed

lemma field_ptr_struct_Inr:
  assumes "getStructInfo_field par ft (TPtr (TStruct efts)) fv = Inr (v', cat)"
  obtains u v'' where "getStructInfo_field par ft (TStruct efts) u = Inr (v'', cat)"
proof (cases fv)
  case VNil
  with assms have "behind VRef (getStructInfo_field par ft (TStruct efts) (zero (TStruct efts)))
      = Inr (v', cat)"
    by (simp add: field_ptr_nil_struct)
  then show ?thesis by (auto simp: behind_def split: sum.splits intro: that)
next
  case (VRef u)
  with assms have "behind VRef (getStructInfo_field par ft (TStruct efts) u) = Inr (v', cat)"
    by (simp add: field_ptr_ref)
  then show ?thesis by (auto simp: behind_def split: sum.splits intro: that)
qed (use assms in \<open>simp_all add: getStructInfo_field.simps(1)\<close>)

lemma embedded_oneField:
  assumes "sfAnonymous ft" "sfExported ft" "parseTag ft = Inr tg"
  shows "sfType ft = TStruct efts \<Longrightarrow>
           oneField par ft (VStruct evs) =
             behind (\<lambda>us. [VStruct us]) (getStructInfo_loop par efts evs)"
    and "sfType ft = TPtr (TStruct efts) \<Longrightarrow>
           oneField par ft (VRef (VStruct evs)) =
             behind (\<lambda>us. [VRef (VStruct us)]) (getStructInfo_loop par efts evs)"
    and "sfType ft = TPtr (TStruct efts) \<Longrightarrow>
           oneField par ft VNil =
             behind (\<lambda>us. [VRef (VStruct us)]) (getStructInfo_loop par efts (zero_fields efts))"
  using assms
  by (simp_all add: oneField_walked timeType_def timePtrType_def field_struct field_ptr_ref
      field_ptr_nil_struct behind_behind comp_def)


lemma oneField_unexported: "\<not> sfExported ft \<Longrightarrow> oneField par ft fv = Inr ([fv], [])"
  by (simp add: oneField_def)

lemma oneField_timestamp:
  "sfExported ft \<Longrightarrow> sfType ft = timeType \<or> sfType ft = timePtrType \<Longrightarrow>
   oneField par ft fv =
     (case parseTag ft of
        Inl err \<Rightarrow> Inl err
      | Inr tg \<Rightarrow> Inr ([fv], [FieldInfo par ft (sfType ft, fv) tg]))"
  by (simp add: oneField_def getFieldInfo_eq split: sum.splits)

lemma oneField_malformed:
  assumes "sfExported ft" "parseTag ft = Inl err"
  shows "sfType ft = TStruct efts \<Longrightarrow> oneField par ft v = Inl err"
    and "sfType ft = TPtr (TStruct efts) \<Longrightarrow> oneField par ft (VRef u) = Inl err"
    and "sfType ft = TPtr (TStruct efts) \<Longrightarrow> oneField par ft VNil = Inl err"
  using assms
  by (simp_all add: oneField_walked timeType_def timePtrType_def field_ptr_ref
      field_ptr_nil_struct getStructInfo_field.simps getFieldInfo_eq)

lemma andThen_Inl_middle: "andThen r1 (andThen (Inl err) r3) = andThen r1 (Inl err)"
  by (auto simp: andThen_def split: sum.splits)

lemma loop_skip:
  assumes len: "length va = length A"
  shows "andThen (getStructInfo_loop par A va)
           (andThen (Inr ([fv], [])) (getStructInfo_loop par B vb)) =
         behind (\<lambda>vs. take (length A) vs @ fv # drop (length A) vs)
           (getStructInfo_loop par (A @ B) (va @ vb))"
proof (cases "getStructInfo_loop par A va")
  case (Inl e)
  then show ?thesis by (simp add: loop_append[OF len])
next
  case r1: (Inr p1)
  obtain v1 c1 where p1: "p1 = (v1, c1)" by (cases p1)
  from r1 p1 have l1: "length v1 = length A" by (auto dest: loop_lengths)
  show ?thesis
  proof (cases "getStructInfo_loop par B vb")
    case (Inl e)
    then show ?thesis by (simp add: loop_append[OF len] r1 p1)
  next
    case r3: (Inr p3)
    obtain v3 c3 where p3: "p3 = (v3, c3)" by (cases p3)
    show ?thesis using l1 by (simp add: loop_append[OF len] r1 p1 r3 p3)
  qed
qed


subsection \<open>The examples\<close>

lemmas example_defs =
  envTag_def flagTag_def exY_def exLeaf_def exX_def exDeep_def exInner_def exHidden_def
  exWhen_def exSub_def exCount_def exPP_def exConfig_def exSubInfo_def exDeepInfo_def
  exName_def exBase_def exTime_def exEmbedded_def exEmbeddedPtr_def exPort_def exMalformed_def

lemmas walk_eval =
  getStructInfo_def getStructInfo_body.simps getStructInfo_loop.simps getStructInfo_field.simps
  getFieldInfo_def timeType_def timePtrType_def Let_def
  parseTag_def Tag_Get_def tagName_def tagSeparator_def
  strings_HasPrefix_def strings_TrimPrefix_def
  envFlag_def envFlagWithValue_def flagFlag_def flagFlagWithValue_def
  defaultFlag_def defaultFlagWithValue_def
  parseENV_def parseFlag_def parseDefault_def tagInfo_zero_def

lemma example_tags:
  "parseTag exY = Inr envTag" "parseTag exX = Inr envTag" "parseTag exDeep = Inr tagInfo_zero"
  "parseTag exHidden = Inr tagInfo_zero" "parseTag exWhen = Inr envTag"
  "parseTag exSub = Inr tagInfo_zero" "parseTag exCount = Inr flagTag"
  "parseTag exPP = Inr tagInfo_zero" "parseTag exName = Inr envTag"
  "parseTag exBase = Inr tagInfo_zero" "parseTag exTime = Inr envTag"
  "parseTag exEmbedded = Inr tagInfo_zero" "parseTag exPort = Inr flagTag"
  "parseTag exEmbeddedPtr = Inr tagInfo_zero"
  by (simp_all add: example_defs walk_eval)


subsection \<open>Claim C4: nil pointers\<close>

text \<open>
  Claim C4 says that after a successful walk every field that was a nil pointer to a
  struct points to a new zero value whose leaves are in the catalog, and that a pointer
  of several levels is resolved down to a non-pointer. The walk of \<open>exConfig\<close> with all
  five fields nil succeeds and shows four things that differ. The unexported \<open>hidden\<close>,
  a nil pointer to a struct, is still nil and has no leaf in the catalog (\<open>CanSet\<close> is
  false, the field is skipped). \<open>When\<close>, a nil pointer to the struct \<open>time.Time\<close>, is
  still nil (a timestamp is a leaf). \<open>Sub\<close> points to a new \<open>Inner\<close> that is not the zero
  value: its own nil pointer \<open>Deep\<close> has been filled in turn. \<open>PP\<close>, a nil pointer to a
  pointer to a struct, is still nil: the pointer loop stops at a nil pointer whose
  element is not a struct.
\<close>

theorem getStructInfo_nil_pointer_counterexample:
  "getStructInfo (TPtr exConfig, VRef (VStruct [VNil, VNil, VNil, VNil, VNil])) None =
     Inr ((TPtr exConfig,
           VRef (VStruct [VNil, VNil, VRef (VStruct [VInt 0, VRef (VStruct [VString []])]),
                          VNil, VNil])),
          [FieldInfo None exWhen (TPtr TTime, VNil) envTag,
           FieldInfo (Some exSubInfo) exX (TInt, VInt 0) envTag,
           FieldInfo (Some exDeepInfo) exY (TString, VString []) envTag,
           FieldInfo None exCount (TPtr TInt, VNil) flagTag,
           FieldInfo None exPP (TPtr (TPtr exInner), VNil) tagInfo_zero])
   \<and> sfType exHidden = TPtr exInner \<and> Kind exInner = KStruct
   \<and> sfType exWhen = TPtr TTime \<and> Kind TTime = KStruct
   \<and> zero exInner = VStruct [VInt 0, VNil]"
  by (simp add: example_defs walk_eval)

text \<open>
  Claim C4, as amended. Let the loop over the fields of a struct succeed, and let \<open>ft\<close>
  be a field whose content was nil.
  \<^item> If \<open>ft\<close> is exported and a pointer to a struct (\<open>time.Time\<close> apart), it now points
    to a new struct: the zero value as a walk leaves it (\<open>vivified_fields\<close>, its nil
    pointers to structs filled in turn). The descriptors of the walk of that new struct
    stand in the catalog, between those of the fields before \<open>ft\<close> and those of the
    fields after it.
  \<^item> If \<open>ft\<close> is exported and a pointer to anything that is no struct (a pointer
    included), it is still nil and contributes exactly one descriptor, for the nil
    pointer itself.
  \<^item> If \<open>ft\<close> is unexported, it is still nil and contributes no descriptor, whatever
    its type.
  \<^item> If \<open>ft\<close> is exported and a pointer to \<open>time.Time\<close>, it is still nil and contributes
    exactly one descriptor, for the nil pointer itself.
  \<^item> Non-nil pointers of any depth are followed down to what they point to, whose
    walk stands for the field. A nil pointer to a struct at the bottom is filled first;
    a nil pointer to anything else at the bottom stays nil and is the one leaf.
\<close>

theorem getStructInfo_nil_pointers:
  assumes walk: "getStructInfo_loop par (A @ ft # B) (va @ fv # vb) = Inr (fvs', cat)"
    and len: "length va = length A"
    and nil: "fv = VNil"
  shows "(sfExported ft \<and> sfType ft = TPtr (TStruct efts) \<longrightarrow>
           (\<exists>va' pre vb' post tg us sub.
              getStructInfo_loop par A va = Inr (va', pre)
            \<and> getStructInfo_loop par B vb = Inr (vb', post)
            \<and> parseTag ft = Inr tg
            \<and> getStructInfo_loop
                 (if sfAnonymous ft then par
                  else Some (FieldInfo par ft (TStruct efts, VStruct (zero_fields efts)) tg))
                 efts (zero_fields efts) = Inr (us, sub)
            \<and> us = vivified_fields efts (zero_fields efts)
            \<and> fvs' = va' @ VRef (VStruct us) # vb'
            \<and> cat = pre @ sub @ post))
       \<and> (sfExported ft \<and> sfType ft = TPtr E \<and> Kind E \<noteq> KStruct \<longrightarrow>
           (\<exists>va' pre vb' post tg.
              getStructInfo_loop par A va = Inr (va', pre)
            \<and> getStructInfo_loop par B vb = Inr (vb', post)
            \<and> parseTag ft = Inr tg
            \<and> fvs' = va' @ VNil # vb'
            \<and> cat = pre @ [FieldInfo par ft (TPtr E, VNil) tg] @ post))
       \<and> (\<not> sfExported ft \<longrightarrow>
           (\<exists>va' pre vb' post.
              getStructInfo_loop par A va = Inr (va', pre)
            \<and> getStructInfo_loop par B vb = Inr (vb', post)
            \<and> fvs' = va' @ VNil # vb'
            \<and> cat = pre @ post))
       \<and> (sfExported ft \<and> sfType ft = timePtrType \<longrightarrow>
           (\<exists>va' pre vb' post tg.
              getStructInfo_loop par A va = Inr (va', pre)
            \<and> getStructInfo_loop par B vb = Inr (vb', post)
            \<and> parseTag ft = Inr tg
            \<and> fvs' = va' @ VNil # vb'
            \<and> cat = pre @ [FieldInfo par ft (timePtrType, VNil) tg] @ post))
       \<and> getStructInfo_field par ft (ptrs n T) (refs n w) =
           behind (refs n) (getStructInfo_field par ft T w)
       \<and> (Kind T = KStruct \<longrightarrow>
            getStructInfo_field par ft (ptrs (Suc n) T) (refs n VNil) =
              behind (refs (Suc n)) (getStructInfo_field par ft T (zero T)))
       \<and> (Kind T \<noteq> KStruct \<longrightarrow>
            getStructInfo_field par ft (ptrs (Suc n) T) (refs n VNil) =
              (case parseTag ft of
                 Inl err \<Rightarrow> Inl err
               | Inr tg \<Rightarrow> Inr (refs n VNil, [FieldInfo par ft (TPtr T, VNil) tg])))"
proof (intro conjI impI)
  from walk len obtain va' pre v2 c2 vb' post where
    A: "getStructInfo_loop par A va = Inr (va', pre)"
    and F: "oneField par ft fv = Inr (v2, c2)"
    and B: "getStructInfo_loop par B vb = Inr (vb', post)"
    and res: "fvs' = va' @ v2 @ vb'" "cat = pre @ c2 @ post"
    by (simp only: loop_middle) (erule andThen3_Inr)
  {
    assume "sfExported ft \<and> sfType ft = TPtr (TStruct efts)"
    then have exported: "sfExported ft" and ty: "sfType ft = TPtr (TStruct efts)" by simp_all
    then have one: "oneField par ft fv =
        behind (\<lambda>v. [v])
          (behind VRef (getStructInfo_field par ft (TStruct efts) (VStruct (zero_fields efts))))"
      using nil
      by (simp add: oneField_walked timeType_def timePtrType_def field_ptr_nil_struct)
    from F obtain tg us sub where tg: "parseTag ft = Inr tg"
      and inner: "getStructInfo_loop
                 (if sfAnonymous ft then par
                  else Some (FieldInfo par ft (TStruct efts, VStruct (zero_fields efts)) tg))
                 efts (zero_fields efts) = Inr (us, sub)"
      and v2: "v2 = [VRef (VStruct us)]" "c2 = sub"
      unfolding one
      by (auto simp: field_struct behind_def split: sum.splits)
    with A B res
    show "\<exists>va' pre vb' post tg us sub.
              getStructInfo_loop par A va = Inr (va', pre)
            \<and> getStructInfo_loop par B vb = Inr (vb', post)
            \<and> parseTag ft = Inr tg
            \<and> getStructInfo_loop
                 (if sfAnonymous ft then par
                  else Some (FieldInfo par ft (TStruct efts, VStruct (zero_fields efts)) tg))
                 efts (zero_fields efts) = Inr (us, sub)
            \<and> us = vivified_fields efts (zero_fields efts)
            \<and> fvs' = va' @ VRef (VStruct us) # vb'
            \<and> cat = pre @ sub @ post"
      using walk_vivifies(2)[OF inner]
      by (intro exI[of _ va'] exI[of _ pre] exI[of _ vb'] exI[of _ post] exI[of _ tg]
          exI[of _ us] exI[of _ sub]) simp
  }
  {
    assume "sfExported ft \<and> sfType ft = TPtr E \<and> Kind E \<noteq> KStruct"
    then have exported: "sfExported ft" and ty: "sfType ft = TPtr E" and k: "Kind E \<noteq> KStruct"
      by simp_all
    from ty k have "E \<noteq> TTime" by auto
    with ty have one: "oneField par ft fv =
        behind (\<lambda>v. [v]) (getStructInfo_field par ft (TPtr E) VNil)"
      using exported nil by (simp add: oneField_walked timeType_def timePtrType_def)
    from F obtain tg where tg: "parseTag ft = Inr tg"
      and v2: "v2 = [VNil]" "c2 = [FieldInfo par ft (TPtr E, VNil) tg]"
      unfolding one field_ptr_nil_other[OF k]
      by (auto simp: behind_def split: sum.splits)
    with A B res
    show "\<exists>va' pre vb' post tg.
              getStructInfo_loop par A va = Inr (va', pre)
            \<and> getStructInfo_loop par B vb = Inr (vb', post)
            \<and> parseTag ft = Inr tg
            \<and> fvs' = va' @ VNil # vb'
            \<and> cat = pre @ [FieldInfo par ft (TPtr E, VNil) tg] @ post"
      by (intro exI[of _ va'] exI[of _ pre] exI[of _ vb'] exI[of _ post] exI[of _ tg]) simp
  }
  {
    assume "\<not> sfExported ft"
    with F nil have "v2 = [VNil]" "c2 = []" by (simp_all add: oneField_unexported)
    with A B res
    show "\<exists>va' pre vb' post.
              getStructInfo_loop par A va = Inr (va', pre)
            \<and> getStructInfo_loop par B vb = Inr (vb', post)
            \<and> fvs' = va' @ VNil # vb'
            \<and> cat = pre @ post"
      by (intro exI[of _ va'] exI[of _ pre] exI[of _ vb'] exI[of _ post]) simp
  }
  {
    assume "sfExported ft \<and> sfType ft = timePtrType"
    then have exported: "sfExported ft" and ty: "sfType ft = timePtrType" by simp_all
    from F obtain tg where tg: "parseTag ft = Inr tg"
      and v2: "v2 = [VNil]" "c2 = [FieldInfo par ft (timePtrType, VNil) tg]"
      using nil ty by (auto simp: oneField_timestamp[OF exported] split: sum.splits)
    with A B res
    show "\<exists>va' pre vb' post tg.
              getStructInfo_loop par A va = Inr (va', pre)
            \<and> getStructInfo_loop par B vb = Inr (vb', post)
            \<and> parseTag ft = Inr tg
            \<and> fvs' = va' @ VNil # vb'
            \<and> cat = pre @ [FieldInfo par ft (timePtrType, VNil) tg] @ post"
      by (intro exI[of _ va'] exI[of _ pre] exI[of _ vb'] exI[of _ post] exI[of _ tg]) simp
  }
  show "getStructInfo_field par ft (ptrs n T) (refs n w) =
           behind (refs n) (getStructInfo_field par ft T w)"
    by (rule field_refs)
  show "getStructInfo_field par ft (ptrs (Suc n) T) (refs n VNil) =
              behind (refs (Suc n)) (getStructInfo_field par ft T (zero T))"
    if "Kind T = KStruct"
    using that by (rule field_refs_nil_struct)
  show "getStructInfo_field par ft (ptrs (Suc n) T) (refs n VNil) =
              (case parseTag ft of
                 Inl err \<Rightarrow> Inl err
               | Inr tg \<Rightarrow> Inr (refs n VNil, [FieldInfo par ft (TPtr T, VNil) tg]))"
    if "Kind T \<noteq> KStruct"
    using that by (rule field_refs_nil_other)
qed

text \<open>The theorem at \<open>exConfig\<close>: at its field \<open>Sub\<close> for the pointer to a struct, at
  \<open>Count\<close> for the pointer to an \<open>int\<close>, at \<open>hidden\<close> for the unexported field, at \<open>When\<close>
  for the pointer to a timestamp and at \<open>PP\<close> for the pointer to a pointer.\<close>

theorem getStructInfo_nil_pointers_witness:
  "getStructInfo_loop None ([exHidden, exWhen] @ exSub # [exCount, exPP])
      ([VNil, VNil] @ VNil # [VNil, VNil]) =
     Inr ([VNil, VNil, VRef (VStruct [VInt 0, VRef (VStruct [VString []])]), VNil, VNil],
          [FieldInfo None exWhen (TPtr TTime, VNil) envTag,
           FieldInfo (Some exSubInfo) exX (TInt, VInt 0) envTag,
           FieldInfo (Some exDeepInfo) exY (TString, VString []) envTag,
           FieldInfo None exCount (TPtr TInt, VNil) flagTag,
           FieldInfo None exPP (TPtr (TPtr exInner), VNil) tagInfo_zero])
   \<and> sfExported exSub
   \<and> sfType exSub = TPtr (TStruct [exX, exDeep])
   \<and> (\<exists>va' pre vb' post tg us sub.
          getStructInfo_loop None [exHidden, exWhen] [VNil, VNil] = Inr (va', pre)
        \<and> getStructInfo_loop None [exCount, exPP] [VNil, VNil] = Inr (vb', post)
        \<and> parseTag exSub = Inr tg
        \<and> getStructInfo_loop
             (if sfAnonymous exSub then None
              else Some (FieldInfo None exSub
                           (TStruct [exX, exDeep], VStruct (zero_fields [exX, exDeep])) tg))
             [exX, exDeep] (zero_fields [exX, exDeep]) = Inr (us, sub)
        \<and> us = vivified_fields [exX, exDeep] (zero_fields [exX, exDeep])
        \<and> [VNil, VNil, VRef (VStruct [VInt 0, VRef (VStruct [VString []])]), VNil, VNil]
            = va' @ VRef (VStruct us) # vb'
        \<and> [FieldInfo None exWhen (TPtr TTime, VNil) envTag,
            FieldInfo (Some exSubInfo) exX (TInt, VInt 0) envTag,
            FieldInfo (Some exDeepInfo) exY (TString, VString []) envTag,
            FieldInfo None exCount (TPtr TInt, VNil) flagTag,
            FieldInfo None exPP (TPtr (TPtr exInner), VNil) tagInfo_zero]
            = pre @ sub @ post)
   \<and> sfExported exCount \<and> sfType exCount = TPtr TInt \<and> Kind TInt \<noteq> KStruct
   \<and> (\<exists>va' pre vb' post tg.
          getStructInfo_loop None [exHidden, exWhen, exSub] [VNil, VNil, VNil] = Inr (va', pre)
        \<and> getStructInfo_loop None [exPP] [VNil] = Inr (vb', post)
        \<and> parseTag exCount = Inr tg
        \<and> [VNil, VNil, VRef (VStruct [VInt 0, VRef (VStruct [VString []])]), VNil, VNil]
            = va' @ VNil # vb'
        \<and> [FieldInfo None exWhen (TPtr TTime, VNil) envTag,
            FieldInfo (Some exSubInfo) exX (TInt, VInt 0) envTag,
            FieldInfo (Some exDeepInfo) exY (TString, VString []) envTag,
            FieldInfo None exCount (TPtr TInt, VNil) flagTag,
            FieldInfo None exPP (TPtr (TPtr exInner), VNil) tagInfo_zero]
            = pre @ [FieldInfo None exCount (TPtr TInt, VNil) tg] @ post)
   \<and> \<not> sfExported exHidden
   \<and> (\<exists>va' pre vb' post.
          getStructInfo_loop None [] [] = Inr (va', pre)
        \<and> getStructInfo_loop None [exWhen, exSub, exCount, exPP] [VNil, VNil, VNil, VNil]
            = Inr (vb', post)
        \<and> [VNil, VNil, VRef (VStruct [VInt 0, VRef (VStruct [VString []])]), VNil, VNil]
            = va' @ VNil # vb'
        \<and> [FieldInfo None exWhen (TPtr TTime, VNil) envTag,
            FieldInfo (Some exSubInfo) exX (TInt, VInt 0) envTag,
            FieldInfo (Some exDeepInfo) exY (TString, VString []) envTag,
            FieldInfo None exCount (TPtr TInt, VNil) flagTag,
            FieldInfo None exPP (TPtr (TPtr exInner), VNil) tagInfo_zero]
            = pre @ post)
   \<and> sfExported exWhen \<and> sfType exWhen = timePtrType
   \<and> (\<exists>va' pre vb' post tg.
          getStructInfo_loop None [exHidden] [VNil] = Inr (va', pre)
        \<and> getStructInfo_loop None [exSub, exCount, exPP] [VNil, VNil, VNil] = Inr (vb', post)
        \<and> parseTag exWhen = Inr tg
        \<and> [VNil, VNil, VRef (VStruct [VInt 0, VRef (VStruct [VString []])]), VNil, VNil]
            = va' @ VNil # vb'
        \<and> [FieldInfo None exWhen (TPtr TTime, VNil) envTag,
            FieldInfo (Some exSubInfo) exX (TInt, VInt 0) envTag,
            FieldInfo (Some exDeepInfo) exY (TString, VString []) envTag,
            FieldInfo None exCount (TPtr TInt, VNil) flagTag,
            FieldInfo None exPP (TPtr (TPtr exInner), VNil) tagInfo_zero]
            = pre @ [FieldInfo None exWhen (timePtrType, VNil) tg] @ post)
   \<and> getStructInfo_field None exSub (ptrs 2 exInner) (refs 2 (VStruct [VInt 7, VNil])) =
       behind (refs 2) (getStructInfo_field None exSub exInner (VStruct [VInt 7, VNil]))
   \<and> Kind exInner = KStruct
   \<and> getStructInfo_field None exSub (ptrs (Suc 2) exInner) (refs 2 VNil) =
       behind (refs (Suc 2)) (getStructInfo_field None exSub exInner (zero exInner))
   \<and> Kind (TPtr exInner) \<noteq> KStruct
   \<and> getStructInfo_field None exPP (ptrs (Suc 0) (TPtr exInner)) (refs 0 VNil) =
       (case parseTag exPP of
          Inl err \<Rightarrow> Inl err
        | Inr tg \<Rightarrow> Inr (refs 0 VNil, [FieldInfo None exPP (TPtr (TPtr exInner), VNil) tg]))"
proof -
  let ?res = "[VNil, VNil, VRef (VStruct [VInt 0, VRef (VStruct [VString []])]), VNil, VNil]"
  let ?cat = "[FieldInfo None exWhen (TPtr TTime, VNil) envTag,
           FieldInfo (Some exSubInfo) exX (TInt, VInt 0) envTag,
           FieldInfo (Some exDeepInfo) exY (TString, VString []) envTag,
           FieldInfo None exCount (TPtr TInt, VNil) flagTag,
           FieldInfo None exPP (TPtr (TPtr exInner), VNil) tagInfo_zero]"
  have w1: "getStructInfo_loop None ([exHidden, exWhen] @ exSub # [exCount, exPP])
      ([VNil, VNil] @ VNil # [VNil, VNil]) = Inr (?res, ?cat)"
    by (simp add: example_defs walk_eval)
  have w2: "getStructInfo_loop None ([exHidden, exWhen, exSub] @ exCount # [exPP])
      ([VNil, VNil, VNil] @ VNil # [VNil]) = Inr (?res, ?cat)"
    using w1 by simp
  have w3: "getStructInfo_loop None ([] @ exHidden # [exWhen, exSub, exCount, exPP])
      ([] @ VNil # [VNil, VNil, VNil, VNil]) = Inr (?res, ?cat)"
    using w1 by simp
  have w4: "getStructInfo_loop None ([exHidden] @ exWhen # [exSub, exCount, exPP])
      ([VNil] @ VNil # [VNil, VNil, VNil]) = Inr (?res, ?cat)"
    using w1 by simp
  have l1: "length [VNil, VNil] = length [exHidden, exWhen]"
    and l2: "length [VNil, VNil, VNil] = length [exHidden, exWhen, exSub]"
    and l3: "length ([] :: gval list) = length ([] :: structField list)"
    and l4: "length [VNil] = length [exHidden]"
    by simp_all
  have s: "sfExported exSub" "sfType exSub = TPtr (TStruct [exX, exDeep])"
    by (simp_all add: example_defs)
  have c: "sfExported exCount" "sfType exCount = TPtr TInt" "Kind TInt \<noteq> KStruct"
    by (simp_all add: example_defs)
  have h: "\<not> sfExported exHidden" by (simp add: example_defs)
  have t: "sfExported exWhen" "sfType exWhen = timePtrType"
    by (simp_all add: example_defs timePtrType_def)
  have k: "Kind exInner = KStruct" "Kind (TPtr exInner) \<noteq> KStruct"
    by (simp_all add: example_defs)
  note a = getStructInfo_nil_pointers[OF w1 l1 refl,
      where efts = "[exX, exDeep]" and n = 2 and T = exInner and w = "VStruct [VInt 7, VNil]"]
  note b = getStructInfo_nil_pointers[OF w2 l2 refl, where E = TInt]
  note d = getStructInfo_nil_pointers[OF w3 l3 refl]
  note e = getStructInfo_nil_pointers[OF w4 l4 refl]
  from a s have a1: "\<exists>va' pre vb' post tg us sub.
          getStructInfo_loop None [exHidden, exWhen] [VNil, VNil] = Inr (va', pre)
        \<and> getStructInfo_loop None [exCount, exPP] [VNil, VNil] = Inr (vb', post)
        \<and> parseTag exSub = Inr tg
        \<and> getStructInfo_loop
             (if sfAnonymous exSub then None
              else Some (FieldInfo None exSub
                           (TStruct [exX, exDeep], VStruct (zero_fields [exX, exDeep])) tg))
             [exX, exDeep] (zero_fields [exX, exDeep]) = Inr (us, sub)
        \<and> us = vivified_fields [exX, exDeep] (zero_fields [exX, exDeep])
        \<and> ?res = va' @ VRef (VStruct us) # vb'
        \<and> ?cat = pre @ sub @ post"
    by blast
  from a have a3: "getStructInfo_field None exSub (ptrs 2 exInner) (refs 2 (VStruct [VInt 7, VNil])) =
       behind (refs 2) (getStructInfo_field None exSub exInner (VStruct [VInt 7, VNil]))"
    by blast
  from b c have b1: "\<exists>va' pre vb' post tg.
          getStructInfo_loop None [exHidden, exWhen, exSub] [VNil, VNil, VNil] = Inr (va', pre)
        \<and> getStructInfo_loop None [exPP] [VNil] = Inr (vb', post)
        \<and> parseTag exCount = Inr tg
        \<and> ?res = va' @ VNil # vb'
        \<and> ?cat = pre @ [FieldInfo None exCount (TPtr TInt, VNil) tg] @ post"
    by blast
  from d h have d1: "\<exists>va' pre vb' post.
          getStructInfo_loop None [] [] = Inr (va', pre)
        \<and> getStructInfo_loop None [exWhen, exSub, exCount, exPP] [VNil, VNil, VNil, VNil]
            = Inr (vb', post)
        \<and> ?res = va' @ VNil # vb'
        \<and> ?cat = pre @ post"
    by blast
  from e t have e1: "\<exists>va' pre vb' post tg.
          getStructInfo_loop None [exHidden] [VNil] = Inr (va', pre)
        \<and> getStructInfo_loop None [exSub, exCount, exPP] [VNil, VNil, VNil] = Inr (vb', post)
        \<and> parseTag exWhen = Inr tg
        \<and> ?res = va' @ VNil # vb'
        \<and> ?cat = pre @ [FieldInfo None exWhen (timePtrType, VNil) tg] @ post"
    by blast
  from a k(1) have a4: "getStructInfo_field None exSub (ptrs (Suc 2) exInner) (refs 2 VNil) =
       behind (refs (Suc 2)) (getStructInfo_field None exSub exInner (zero exInner))"
    by blast
  have a5: "getStructInfo_field None exPP (ptrs (Suc 0) (TPtr exInner)) (refs 0 VNil) =
       (case parseTag exPP of
          Inl err \<Rightarrow> Inl err
        | Inr tg \<Rightarrow> Inr (refs 0 VNil, [FieldInfo None exPP (TPtr (TPtr exInner), VNil) tg]))"
  proof -
    have w5: "getStructInfo_loop None ([exHidden, exWhen, exSub, exCount] @ exPP # [])
        ([VNil, VNil, VNil, VNil] @ VNil # []) = Inr (?res, ?cat)"
      using w1 by simp
    have l5: "length [VNil, VNil, VNil, VNil] = length [exHidden, exWhen, exSub, exCount]"
      by simp
    from getStructInfo_nil_pointers[OF w5 l5 refl, where n = 0 and T = "TPtr exInner"] k(2)
    show ?thesis by blast
  qed
  from w1 s a1 c b1 h d1 t e1 a3 k(1) a4 k(2) a5 show ?thesis by (intro conjI)
qed

subsection \<open>Claim C6: embedded structs\<close>

text \<open>
  Claim C6 says that for every struct embedded as an anonymous field no descriptor is
  emitted for the field itself and the children appear as if declared on the embedding
  struct. The struct with the embedded fields \<open>time.Time\<close> and \<open>base\<close> shows two things
  that differ: the embedded \<open>time.Time\<close>, a struct, gets a descriptor of its own; and the
  child \<open>Name\<close> of the embedded \<open>base\<close>, whose type is unexported, gets none, while
  \<open>Name\<close> declared directly gets one.
\<close>

theorem getStructInfo_embedded_counterexample:
  "getStructInfo
     (TPtr (TStruct [exTime, exBase]),
      VRef (VStruct [VTime (Time 0 0 0), VStruct [VString ''a'']])) None =
     Inr ((TPtr (TStruct [exTime, exBase]),
           VRef (VStruct [VTime (Time 0 0 0), VStruct [VString ''a'']])),
          [FieldInfo None exTime (TTime, VTime (Time 0 0 0)) envTag])
   \<and> sfAnonymous exTime \<and> Kind (sfType exTime) = KStruct
   \<and> sfAnonymous exBase \<and> sfType exBase = TStruct [exName]
   \<and> getStructInfo (TPtr (TStruct [exName]), VRef (VStruct [VString ''a''])) None =
     Inr ((TPtr (TStruct [exName]), VRef (VStruct [VString ''a''])),
          [FieldInfo None exName (TString, VString ''a'') envTag])"
  by (simp add: example_defs walk_eval)

text \<open>
  Claim C6, as amended. Let \<open>ft\<close> be an anonymous field of a struct.
  \<^item> If \<open>ft\<close> is exported, its own annotation parses, and its type is a struct type
    (\<open>time.Time\<close> apart) or a pointer to one, nil or not, then the loop over the fields
    of the embedding struct returns what it returns for the struct in which the fields
    of the embedded struct stand in the place of \<open>ft\<close>: the same error, or the same
    catalog (so the same descriptors with the same parents, and the same keys), with
    the contents of those fields put back behind \<open>ft\<close>. No descriptor that \<open>ft\<close>
    contributes is a descriptor of \<open>ft\<close> itself.
  \<^item> If \<open>ft\<close> is exported and of type \<open>time.Time\<close> or pointer to \<open>time.Time\<close>, it is a
    leaf: its content stays as it is and it contributes exactly one descriptor, for
    \<open>ft\<close> itself, with the parent that the fields of the embedding struct have (or the
    walk fails with the error of its annotation).
  \<^item> If \<open>ft\<close> is unexported, whatever its type, the loop returns what it returns for
    the struct without \<open>ft\<close>, with the content of \<open>ft\<close> put back as it was: the field is
    skipped together with its children.
  \<^item> If \<open>ft\<close> is exported, of a struct type or a pointer to one, and its own
    annotation is malformed, the walk fails: with the error of a field before \<open>ft\<close> if
    there is one, with the error of the annotation otherwise.
\<close>

theorem getStructInfo_embedded:
  assumes emb: "sfAnonymous ft"
    and len: "length va = length A" and elen: "length evs = length efts"
  shows "(sfExported ft \<and> parseTag ft = Inr tg \<and> sfType ft = TStruct efts \<longrightarrow>
            getStructInfo_loop par (A @ ft # B) (va @ VStruct evs # vb) =
              regroup (length A) (length efts) VStruct
                (getStructInfo_loop par (A @ efts @ B) (va @ evs @ vb)))
       \<and> (sfExported ft \<and> parseTag ft = Inr tg \<and> sfType ft = TPtr (TStruct efts) \<longrightarrow>
            getStructInfo_loop par (A @ ft # B) (va @ VRef (VStruct evs) # vb) =
              regroup (length A) (length efts) (\<lambda>us. VRef (VStruct us))
                (getStructInfo_loop par (A @ efts @ B) (va @ evs @ vb))
          \<and> getStructInfo_loop par (A @ ft # B) (va @ VNil # vb) =
              regroup (length A) (length efts) (\<lambda>us. VRef (VStruct us))
                (getStructInfo_loop par (A @ efts @ B) (va @ zero_fields efts @ vb)))
       \<and> (sfExported ft \<and> sfType ft \<in> {TStruct efts, TPtr (TStruct efts)}
            \<and> oneField par ft fv = Inr (vs, cat) \<and> fi \<in> set cat \<longrightarrow>
            field fi \<noteq> ft \<and> size (field fi) < size ft)
       \<and> (sfExported ft \<and> (sfType ft = timeType \<or> sfType ft = timePtrType) \<longrightarrow>
            getStructInfo_loop par (A @ ft # B) (va @ fv # vb) =
              andThen (getStructInfo_loop par A va)
                (andThen
                   (case parseTag ft of
                      Inl err \<Rightarrow> Inl err
                    | Inr tg' \<Rightarrow> Inr ([fv], [FieldInfo par ft (sfType ft, fv) tg']))
                   (getStructInfo_loop par B vb)))
       \<and> (\<not> sfExported ft \<longrightarrow>
            getStructInfo_loop par (A @ ft # B) (va @ fv # vb) =
              behind (\<lambda>vs. take (length A) vs @ fv # drop (length A) vs)
                (getStructInfo_loop par (A @ B) (va @ vb)))
       \<and> (sfExported ft \<and> parseTag ft = Inl err \<longrightarrow>
            (sfType ft = TStruct efts \<longrightarrow>
               getStructInfo_loop par (A @ ft # B) (va @ VStruct evs # vb) =
                 andThen (getStructInfo_loop par A va) (Inl err))
          \<and> (sfType ft = TPtr (TStruct efts) \<longrightarrow>
               getStructInfo_loop par (A @ ft # B) (va @ VRef (VStruct evs) # vb) =
                 andThen (getStructInfo_loop par A va) (Inl err)
             \<and> getStructInfo_loop par (A @ ft # B) (va @ VNil # vb) =
                 andThen (getStructInfo_loop par A va) (Inl err)))"
proof -
  have byValue: "getStructInfo_loop par (A @ ft # B) (va @ VStruct evs # vb) =
          regroup (length A) (length efts) VStruct
            (getStructInfo_loop par (A @ efts @ B) (va @ evs @ vb))"
    if exported: "sfExported ft" and tag: "parseTag ft = Inr tg" and ty: "sfType ft = TStruct efts"
    by (simp only: loop_middle[OF len] embedded_oneField(1)[OF emb exported tag ty]
        loop_flatten[OF len elen])
  have zlen: "length (zero_fields efts) = length efts" by simp
  have byPointer: "getStructInfo_loop par (A @ ft # B) (va @ VRef (VStruct evs) # vb) =
              regroup (length A) (length efts) (\<lambda>us. VRef (VStruct us))
                (getStructInfo_loop par (A @ efts @ B) (va @ evs @ vb))"
    and byNil: "getStructInfo_loop par (A @ ft # B) (va @ VNil # vb) =
              regroup (length A) (length efts) (\<lambda>us. VRef (VStruct us))
                (getStructInfo_loop par (A @ efts @ B) (va @ zero_fields efts @ vb))"
    if exported: "sfExported ft" and tag: "parseTag ft = Inr tg"
      and ty: "sfType ft = TPtr (TStruct efts)"
    by (simp_all only: loop_middle[OF len] embedded_oneField(2,3)[OF emb exported tag ty]
        loop_flatten[OF len elen] loop_flatten[OF len zlen])
  have none: "field fi \<noteq> ft \<and> size (field fi) < size ft"
    if a: "sfExported ft \<and> sfType ft \<in> {TStruct efts, TPtr (TStruct efts)}
            \<and> oneField par ft fv = Inr (vs, cat) \<and> fi \<in> set cat"
  proof -
    from a have exported: "sfExported ft" and one: "oneField par ft fv = Inr (vs, cat)"
      and fi: "fi \<in> set cat" by simp_all
    from a have nt: "sfType ft \<noteq> timeType" "sfType ft \<noteq> timePtrType"
      by (auto simp: timeType_def timePtrType_def)
    from one obtain v' where w: "getStructInfo_field par ft (sfType ft) fv = Inr (v', cat)"
      by (auto simp: oneField_walked[OF exported nt] behind_def split: sum.splits)
    have "size (field fi) < size (TStruct efts)"
    proof (cases "sfType ft = TStruct efts")
      case True
      with w fi show ?thesis by (auto dest: field_struct_emitted)
    next
      case False
      with a have ty: "sfType ft = TPtr (TStruct efts)" by simp
      from w obtain u v'' where "getStructInfo_field par ft (TStruct efts) u = Inr (v'', cat)"
        unfolding ty by (rule field_ptr_struct_Inr)
      with fi show ?thesis by (auto dest: field_struct_emitted)
    qed
    moreover have "size (TStruct efts) < size ft"
      using a by (cases ft) auto
    ultimately have "size (field fi) < size ft" by simp
    then show ?thesis by auto
  qed
  have leaf: "getStructInfo_loop par (A @ ft # B) (va @ fv # vb) =
              andThen (getStructInfo_loop par A va)
                (andThen
                   (case parseTag ft of
                      Inl err \<Rightarrow> Inl err
                    | Inr tg' \<Rightarrow> Inr ([fv], [FieldInfo par ft (sfType ft, fv) tg']))
                   (getStructInfo_loop par B vb))"
    if exported: "sfExported ft" and ty: "sfType ft = timeType \<or> sfType ft = timePtrType"
    by (simp only: loop_middle[OF len] oneField_timestamp[OF exported ty])
  have skipped: "getStructInfo_loop par (A @ ft # B) (va @ fv # vb) =
              behind (\<lambda>vs. take (length A) vs @ fv # drop (length A) vs)
                (getStructInfo_loop par (A @ B) (va @ vb))"
    if "\<not> sfExported ft"
    by (simp only: loop_middle[OF len] oneField_unexported[OF that] loop_skip[OF len])
  have failsValue: "getStructInfo_loop par (A @ ft # B) (va @ VStruct evs # vb) =
                 andThen (getStructInfo_loop par A va) (Inl err)"
    if exported: "sfExported ft" and bad: "parseTag ft = Inl err" and ty: "sfType ft = TStruct efts"
    by (simp only: loop_middle[OF len] oneField_malformed(1)[OF exported bad ty]
        andThen_Inl_middle)
  have failsPointer: "getStructInfo_loop par (A @ ft # B) (va @ VRef (VStruct evs) # vb) =
                 andThen (getStructInfo_loop par A va) (Inl err)"
    and failsNil: "getStructInfo_loop par (A @ ft # B) (va @ VNil # vb) =
                 andThen (getStructInfo_loop par A va) (Inl err)"
    if exported: "sfExported ft" and bad: "parseTag ft = Inl err"
      and ty: "sfType ft = TPtr (TStruct efts)"
    by (simp_all only: loop_middle[OF len] oneField_malformed(2,3)[OF exported bad ty]
        andThen_Inl_middle)
  from byValue byPointer byNil none leaf skipped failsValue failsPointer failsNil
  show ?thesis by blast
qed

text \<open>The theorem at a struct \<^verbatim>\<open>{ Port int; Base }\<close>, with \<open>Base\<close> embedded by value, by
  pointer and with a malformed annotation, and at the struct \<^verbatim>\<open>{ time.Time; base }\<close>.\<close>

theorem getStructInfo_embedded_witness:
  "sfAnonymous exEmbedded \<and> sfExported exEmbedded \<and> parseTag exEmbedded = Inr tagInfo_zero
   \<and> sfType exEmbedded = TStruct [exName]
   \<and> getStructInfo_loop None ([exPort] @ exEmbedded # []) ([VInt 1] @ VStruct [VString ''a''] # []) =
       regroup (length [exPort]) (length [exName]) VStruct
         (getStructInfo_loop None ([exPort] @ [exName] @ []) ([VInt 1] @ [VString ''a''] @ []))
   \<and> getStructInfo_loop None ([exPort] @ [exName] @ []) ([VInt 1] @ [VString ''a''] @ []) =
       Inr ([VInt 1, VString ''a''],
            [FieldInfo None exPort (TInt, VInt 1) flagTag,
             FieldInfo None exName (TString, VString ''a'') envTag])
   \<and> oneField None exEmbedded (VStruct [VString ''a'']) =
       Inr ([VStruct [VString ''a'']], [FieldInfo None exName (TString, VString ''a'') envTag])
   \<and> field (FieldInfo None exName (TString, VString ''a'') envTag) \<noteq> exEmbedded
   \<and> sfAnonymous exEmbeddedPtr \<and> sfExported exEmbeddedPtr
   \<and> parseTag exEmbeddedPtr = Inr tagInfo_zero
   \<and> sfType exEmbeddedPtr = TPtr (TStruct [exName])
   \<and> getStructInfo_loop None ([exPort] @ exEmbeddedPtr # [])
        ([VInt 1] @ VRef (VStruct [VString ''a'']) # []) =
       regroup (length [exPort]) (length [exName]) (\<lambda>us. VRef (VStruct us))
         (getStructInfo_loop None ([exPort] @ [exName] @ []) ([VInt 1] @ [VString ''a''] @ []))
   \<and> getStructInfo_loop None ([exPort] @ exEmbeddedPtr # []) ([VInt 1] @ VNil # []) =
       regroup (length [exPort]) (length [exName]) (\<lambda>us. VRef (VStruct us))
         (getStructInfo_loop None ([exPort] @ [exName] @ [])
            ([VInt 1] @ zero_fields [exName] @ []))
   \<and> sfAnonymous exTime \<and> sfExported exTime \<and> sfType exTime = timeType
   \<and> getStructInfo_loop None ([] @ exTime # [exBase])
        ([] @ VTime (Time 0 0 0) # [VStruct [VString ''a'']]) =
       andThen (getStructInfo_loop None [] [])
         (andThen
            (case parseTag exTime of
               Inl err \<Rightarrow> Inl err
             | Inr tg' \<Rightarrow>
                 Inr ([VTime (Time 0 0 0)],
                      [FieldInfo None exTime (sfType exTime, VTime (Time 0 0 0)) tg']))
            (getStructInfo_loop None [exBase] [VStruct [VString ''a'']]))
   \<and> getStructInfo_loop None ([] @ exTime # [exBase])
        ([] @ VTime (Time 0 0 0) # [VStruct [VString ''a'']]) =
       Inr ([VTime (Time 0 0 0), VStruct [VString ''a'']],
            [FieldInfo None exTime (TTime, VTime (Time 0 0 0)) envTag])
   \<and> sfAnonymous exBase \<and> \<not> sfExported exBase
   \<and> getStructInfo_loop None ([exPort] @ exBase # []) ([VInt 1] @ VStruct [VString ''a''] # []) =
       behind (\<lambda>vs. take (length [exPort]) vs @ VStruct [VString ''a''] # drop (length [exPort]) vs)
         (getStructInfo_loop None ([exPort] @ []) ([VInt 1] @ []))
   \<and> getStructInfo_loop None ([exPort] @ exBase # []) ([VInt 1] @ VStruct [VString ''a''] # []) =
       Inr ([VInt 1, VStruct [VString ''a'']], [FieldInfo None exPort (TInt, VInt 1) flagTag])
   \<and> sfAnonymous exMalformed \<and> sfExported exMalformed
   \<and> parseTag exMalformed = Inl (Wrap [] ErrInvalidTagFormat (acceptedForms FamEnv))
   \<and> sfType exMalformed = TStruct [exName]
   \<and> getStructInfo_loop None ([exPort] @ exMalformed # []) ([VInt 1] @ VStruct [VString ''a''] # []) =
       andThen (getStructInfo_loop None [exPort] [VInt 1])
         (Inl (Wrap [] ErrInvalidTagFormat (acceptedForms FamEnv)))
   \<and> getStructInfo_loop None ([exPort] @ exMalformed # []) ([VInt 1] @ VStruct [VString ''a''] # []) =
       Inl (Wrap [] ErrInvalidTagFormat (acceptedForms FamEnv))"
proof -
  have e: "sfAnonymous exEmbedded" "sfExported exEmbedded" "sfType exEmbedded = TStruct [exName]"
    and p: "sfAnonymous exEmbeddedPtr" "sfExported exEmbeddedPtr"
      "sfType exEmbeddedPtr = TPtr (TStruct [exName])"
    and t: "sfAnonymous exTime" "sfExported exTime" "sfType exTime = timeType"
    and b: "sfAnonymous exBase" "\<not> sfExported exBase"
    and m: "sfAnonymous exMalformed" "sfExported exMalformed"
      "sfType exMalformed = TStruct [exName]"
    by (simp_all add: example_defs timeType_def)
  have mtag: "parseTag exMalformed = Inl (Wrap [] ErrInvalidTagFormat (acceptedForms FamEnv))"
    by (simp add: example_defs walk_eval)
  have l: "length [VInt 1] = length [exPort]" "length [VString ''a''] = length [exName]"
    and l0: "length ([] :: gval list) = length ([] :: structField list)"
    by simp_all
  have flat: "getStructInfo_loop None ([exPort] @ [exName] @ []) ([VInt 1] @ [VString ''a''] @ []) =
       Inr ([VInt 1, VString ''a''],
            [FieldInfo None exPort (TInt, VInt 1) flagTag,
             FieldInfo None exName (TString, VString ''a'') envTag])"
    by (simp add: example_defs walk_eval)
  have one: "oneField None exEmbedded (VStruct [VString ''a'']) =
       Inr ([VStruct [VString ''a'']], [FieldInfo None exName (TString, VString ''a'') envTag])"
    by (simp add: oneField_def behind_def example_defs walk_eval)
  have tval: "getStructInfo_loop None ([] @ exTime # [exBase])
        ([] @ VTime (Time 0 0 0) # [VStruct [VString ''a'']]) =
       Inr ([VTime (Time 0 0 0), VStruct [VString ''a'']],
            [FieldInfo None exTime (TTime, VTime (Time 0 0 0)) envTag])"
    by (simp add: example_defs walk_eval)
  have bval: "getStructInfo_loop None ([exPort] @ exBase # [])
        ([VInt 1] @ VStruct [VString ''a''] # []) =
       Inr ([VInt 1, VStruct [VString ''a'']], [FieldInfo None exPort (TInt, VInt 1) flagTag])"
    by (simp add: example_defs walk_eval)
  have mval: "getStructInfo_loop None ([exPort] @ exMalformed # [])
        ([VInt 1] @ VStruct [VString ''a''] # []) =
       Inl (Wrap [] ErrInvalidTagFormat (acceptedForms FamEnv))"
    by (simp add: example_defs walk_eval)
  note a = getStructInfo_embedded[OF e(1) l, where par = None
      and B = "[]" and vb = "[]" and fv = "VStruct [VString ''a'']"
      and vs = "[VStruct [VString ''a'']]"
      and cat = "[FieldInfo None exName (TString, VString ''a'') envTag]"
      and fi = "FieldInfo None exName (TString, VString ''a'') envTag"
      and tg = tagInfo_zero]
  note c = getStructInfo_embedded[OF p(1) l, where par = None
      and B = "[]" and vb = "[]" and tg = tagInfo_zero]
  note d = getStructInfo_embedded[OF t(1) l0 l0, where par = None
      and B = "[exBase]" and vb = "[VStruct [VString ''a'']]" and fv = "VTime (Time 0 0 0)"]
  note f = getStructInfo_embedded[OF b(1) l(1) l0, where par = None
      and B = "[]" and vb = "[]" and fv = "VStruct [VString ''a'']"]
  note g = getStructInfo_embedded[OF m(1) l, where par = None
      and B = "[]" and vb = "[]"
      and err = "Wrap [] ErrInvalidTagFormat (acceptedForms FamEnv)"]
  from a e(2,3) example_tags(12)
  have a1: "getStructInfo_loop None ([exPort] @ exEmbedded # [])
       ([VInt 1] @ VStruct [VString ''a''] # []) =
       regroup (length [exPort]) (length [exName]) VStruct
         (getStructInfo_loop None ([exPort] @ [exName] @ []) ([VInt 1] @ [VString ''a''] @ []))"
    by blast
  from a e(2,3) one
  have a2: "field (FieldInfo None exName (TString, VString ''a'') envTag) \<noteq> exEmbedded"
    by simp
  from c p(2,3) example_tags(14)
  have c1: "getStructInfo_loop None ([exPort] @ exEmbeddedPtr # [])
        ([VInt 1] @ VRef (VStruct [VString ''a'']) # []) =
       regroup (length [exPort]) (length [exName]) (\<lambda>us. VRef (VStruct us))
         (getStructInfo_loop None ([exPort] @ [exName] @ []) ([VInt 1] @ [VString ''a''] @ []))"
    and c2: "getStructInfo_loop None ([exPort] @ exEmbeddedPtr # []) ([VInt 1] @ VNil # []) =
       regroup (length [exPort]) (length [exName]) (\<lambda>us. VRef (VStruct us))
         (getStructInfo_loop None ([exPort] @ [exName] @ [])
            ([VInt 1] @ zero_fields [exName] @ []))"
    by blast+
  from d t(2,3)
  have d1: "getStructInfo_loop None ([] @ exTime # [exBase])
        ([] @ VTime (Time 0 0 0) # [VStruct [VString ''a'']]) =
       andThen (getStructInfo_loop None [] [])
         (andThen
            (case parseTag exTime of
               Inl err \<Rightarrow> Inl err
             | Inr tg' \<Rightarrow>
                 Inr ([VTime (Time 0 0 0)],
                      [FieldInfo None exTime (sfType exTime, VTime (Time 0 0 0)) tg']))
            (getStructInfo_loop None [exBase] [VStruct [VString ''a'']]))"
    by blast
  from f b(2)
  have f1: "getStructInfo_loop None ([exPort] @ exBase # [])
        ([VInt 1] @ VStruct [VString ''a''] # []) =
       behind (\<lambda>vs. take (length [exPort]) vs @ VStruct [VString ''a''] # drop (length [exPort]) vs)
         (getStructInfo_loop None ([exPort] @ []) ([VInt 1] @ []))"
    by blast
  from g m(2,3) mtag
  have g1: "getStructInfo_loop None ([exPort] @ exMalformed # [])
        ([VInt 1] @ VStruct [VString ''a''] # []) =
       andThen (getStructInfo_loop None [exPort] [VInt 1])
         (Inl (Wrap [] ErrInvalidTagFormat (acceptedForms FamEnv)))"
    by blast
  from e(1,2) example_tags(12) e(3) a1 flat one a2 p(1,2) example_tags(14) p(3) c1 c2
    t d1 tval b f1 bval m(1,2) mtag m(3) g1 mval
  show ?thesis by (intro conjI)
qed

end
